theory Spec2Isabelle
  imports Main "HOL-Library.Word" "HOL-Library.Monad_Syntax"
begin

section \<open>The libavfilter bridge of mpv: video/filter/vf\_lavfi.c\<close>

text \<open>
  The file adapts a video filter stage of the player to a filter graph of libavfilter.
  Everything it does is a short sequence of reads and writes of its own private data
  (\<open>struct vf_priv_s\<close>), of the filter instance (\<open>struct vf_instance\<close>), and of calls
  into the engine. The embedding keeps these three apart:

  \<^item> the private data lives in a store of private-data objects, and \<open>vf->priv\<close> is an
    address into it (\<open>None\<close> is \<open>NULL\<close>); reading through an address that holds no
    \<open>vf_priv_s\<close> ends the run, as does a failed \<open>assert\<close>: an operation that can end
    the run returns an \<open>option\<close>, and \<open>None\<close> is the run that does not return;
  \<^item> every call into the engine (and into \<open>vf_add_output_frame\<close>) is appended to a trace
    of calls; what the engine answers is a parameter of the model, a record \<open>L\<close> whose
    fields are named after the functions, and an answer may depend on all the calls made
    before it (the trace at that moment);
  \<^item> the contents of hardware frames contexts live in a memory \<open>hw_mem\<close> of their own, which
    the engine may change at each call (\<open>hw_effect\<close>).

  Log messages (\<open>MP_VERBOSE\<close>, \<open>MP_FATAL\<close>, \<open>MP_ERR\<close>) and the allocation and release of
  temporaries (\<open>talloc_new\<close>, \<open>av_strdup\<close>, \<open>av_free\<close>, \<open>av_frame_alloc\<close>, \<open>av_frame_free\<close>) are
  not recorded.
\<close>

subsection \<open>Data\<close>

unbundle bit_operations_syntax

type_synonym addr = nat

record AVRational =
  num :: int
  den :: int

text \<open>
  \<open>struct mp_image_params\<close> is declared in video/mp\_image.h. The fields that vf\_lavfi.c
  names are listed; \<open>rest\<close> stands for all the others, of a type left open.
\<close>

record 'x mp_image_params =
  imgfmt :: int
  hw_subfmt :: int
  w :: int
  h :: int
  p_w :: int
  p_h :: int
  rest :: 'x

text \<open>An \<open>AVBufferRef\<close>: the buffer it counts a reference of, and the address of the data.\<close>

record AVBufferRef =
  buffer :: addr
  data :: addr

record AVHWFramesContext =
  sw_format :: int
  hw_other :: nat

record mp_hwdec_ctx =
  av_device_ref :: "AVBufferRef option"

record AVBufferSrcParameters =
  format :: int
  time_base :: AVRational
  width :: int
  height :: int
  sample_aspect_ratio :: AVRational
  hw_frames_ctx :: "AVBufferRef option"

record AVFilterLink =
  link_time_base :: AVRational
  link_sample_aspect_ratio :: AVRational
  link_w :: int
  link_h :: int
  link_format :: int
  link_hw_frames_ctx :: "AVBufferRef option"

text \<open>
  What the adapter reads of an \<open>AVFilterContext\<close>: its arrays of links. \<open>nb_inputs\<close> and
  \<open>nb_outputs\<close> are the lengths of the arrays.
\<close>

record AVFilterContext =
  inputs :: "AVFilterLink list"
  outputs :: "AVFilterLink list"

definition nb_inputs :: "AVFilterContext \<Rightarrow> nat" where
  "nb_inputs c = length (inputs c)"

definition nb_outputs :: "AVFilterContext \<Rightarrow> nat" where
  "nb_outputs c = length (outputs c)"

text \<open>
  A \<open>double\<close> is kept as its 64 bits. \<open>MP_NOPTS_VALUE\<close> is \<open>-0x1p+63\<close>, whose bits are
  sign 1, exponent 1086 and mantissa 0; no other bit pattern compares equal to it.
  \<open>AV_NOPTS_VALUE\<close> is \<open>(int64_t)UINT64_C(0x8000000000000000)\<close>.
\<close>

type_synonym double = "64 word"

definition MP_NOPTS_VALUE :: double where
  "MP_NOPTS_VALUE = 0xC3E0000000000000"

definition AV_NOPTS_VALUE :: "64 word" where
  "AV_NOPTS_VALUE = 0x8000000000000000"

definition AV_TIME_BASE_Q :: AVRational where
  "AV_TIME_BASE_Q = \<lparr>num = 1, den = 1000000\<rparr>"

record mp_image =
  pts :: double
  planes :: nat

record AVFrame =
  frame_pts :: "64 word"
  frame_sample_aspect_ratio :: AVRational
  frame_metadata :: "(string \<times> string) list"
  frame_buf :: nat

type_synonym mp_tags = "(string \<times> string) list"

record vf_priv_s =
  graph :: "addr option"
  in_ctx :: "addr option"
  out_ctx :: "addr option"
  eof :: bool
  timebase_in :: AVRational
  timebase_out :: AVRational
  par_in :: AVRational
  metadata :: "mp_tags option"
  old_priv :: "addr option"
  lw_reconfig_cb :: "addr option"
  cfg_graph :: "string option"
  cfg_sws_flags :: int
  cfg_avopts :: "string list option"

text \<open>\<open>SWS_BICUBIC\<close> is libswscale's flag 4.\<close>

definition SWS_BICUBIC :: int where
  "SWS_BICUBIC = 4"

definition vf_priv_dflt :: vf_priv_s where
  "vf_priv_dflt =
     \<lparr>graph = None, in_ctx = None, out_ctx = None, eof = False,
      timebase_in = \<lparr>num = 0, den = 0\<rparr>, timebase_out = \<lparr>num = 0, den = 0\<rparr>,
      par_in = \<lparr>num = 0, den = 0\<rparr>, metadata = None, old_priv = None,
      lw_reconfig_cb = None, cfg_graph = None, cfg_sws_flags = SWS_BICUBIC,
      cfg_avopts = None\<rparr>"

text \<open>What an address of the private-data store holds.\<close>

datatype priv_obj = Lavfi_priv vf_priv_s | Foreign_priv

text \<open>The functions a callback field of a \<open>vf_instance\<close> can point to.\<close>

datatype vf_fn =
    Fn_reconfig | Fn_filter_ext | Fn_filter_out | Fn_query_format | Fn_control | Fn_uninit
  | Fn_foreign nat

record 'x vf_instance =
  priv :: "addr option"
  fmt_in :: "'x mp_image_params"
  in_hwframes_ref :: "AVBufferRef option"
  out_hwframes_ref :: "AVBufferRef option"
  hwdec_devs :: "addr option"
  vf_reconfig :: "vf_fn option"
  vf_filter_ext :: "vf_fn option"
  vf_filter_out :: "vf_fn option"
  vf_filter :: "vf_fn option"
  vf_query_format :: "vf_fn option"
  vf_control :: "vf_fn option"
  vf_uninit :: "vf_fn option"

text \<open>The calls that are recorded, with their arguments.\<close>

datatype lav_call =
    Avfilter_graph_free "addr option"
  | Avfilter_graph_alloc
  | Mp_set_avopts addr "string list option"
  | Avfilter_inout_alloc
  | Set_scale_sws_opts addr int
  | Avfilter_graph_alloc_filter addr string string
  | Av_buffersrc_parameters_alloc
  | Av_buffersrc_parameters_set addr AVBufferSrcParameters
  | Avfilter_init_str addr
  | Avfilter_graph_create_filter string string addr
  | Graph_parse addr "string option" addr "addr option"
  | Av_buffer_ref AVBufferRef
  | Set_hw_device_ctx addr nat "AVBufferRef option"
  | Avfilter_graph_config addr
  | Av_buffer_unref "AVBufferRef option"
  | Av_buffersrc_add_frame "addr option" "AVFrame option"
  | Av_buffersink_get_frame "addr option"
  | Avfilter_graph_send_command addr string string string
  | Vf_add_output_frame "mp_image option"

type_synonym hw_memory = "addr \<Rightarrow> AVHWFramesContext option"

record 'x world =
  inst :: "'x vf_instance"
  privs :: "priv_obj list"
  hw_mem :: hw_memory
  trace :: "lav_call list"

text \<open>
  The engine and the helpers of the player that are not part of vf\_lavfi.c. The three
  version numbers are those of the headers the file is compiled against. Three fields
  are what the build leaves open in the conversions between integers and
  \<open>double\<close>: \<open>int64_rounded\<close> is the \<open>double\<close> chosen for an \<open>int64_t\<close> that is none
  (the direction of rounding is implementation-defined); \<open>uint64_out_of_range_const\<close> and
  \<open>uint64_out_of_range\<close> are what the compiled conversion to \<open>uint64_t\<close> leaves in the
  variable for a \<open>double\<close> outside the range of \<open>uint64_t\<close>, where C gives the conversion no
  meaning, in the constant arm of the conditional of \<open>mp_to_av\<close> and in its computed arm
  (a compiler may convert each arm on its own, so the two need not agree).
\<close>

record 'x lavfi =
  LIBAVFILTER_VERSION_MICRO :: nat
  LIBAVFILTER_VERSION_INT :: nat
  LIBAVUTIL_VERSION_MICRO :: nat
  AVERROR_EAGAIN :: int
  AVERROR_EOF :: int
  hw_effect :: "lav_call \<Rightarrow> hw_memory \<Rightarrow> hw_memory"
  avfilter_graph_alloc :: "lav_call list \<Rightarrow> addr option"
  mp_set_avopts :: "lav_call list \<Rightarrow> int"
  avfilter_inout_alloc :: "lav_call list \<Rightarrow> addr option"
  avfilter_graph_alloc_filter :: "lav_call list \<Rightarrow> addr option"
  av_buffersrc_parameters_alloc :: "lav_call list \<Rightarrow> bool"
  av_buffersrc_parameters_set :: "lav_call list \<Rightarrow> int"
  avfilter_init_str :: "lav_call list \<Rightarrow> int"
  avfilter_graph_create_filter :: "lav_call list \<Rightarrow> int \<times> addr option"
  graph_parse :: "lav_call list \<Rightarrow> int"
  nb_filters :: "lav_call list \<Rightarrow> addr \<Rightarrow> nat"
  hwdec_devices_get_first :: "addr \<Rightarrow> mp_hwdec_ctx option"
  av_buffer_ref :: "lav_call list \<Rightarrow> AVBufferRef \<Rightarrow> AVBufferRef option"
  avfilter_graph_config :: "lav_call list \<Rightarrow> int"
  filter_ctx :: "lav_call list \<Rightarrow> addr \<Rightarrow> AVFilterContext"
  av_buffersink_get_hw_frames_ctx :: "lav_call list \<Rightarrow> addr \<Rightarrow> AVBufferRef option"
  av_buffersrc_add_frame :: "lav_call list \<Rightarrow> int"
  av_buffersink_get_frame :: "lav_call list \<Rightarrow> int \<times> AVFrame"
  avfilter_graph_send_command :: "lav_call list \<Rightarrow> int"
  registered_filters :: "string list"
  imgfmt2pixfmt :: "int \<Rightarrow> int"
  pixfmt2imgfmt :: "int \<Rightarrow> int"
  mp_image_to_av_frame_and_unref :: "mp_image \<Rightarrow> AVFrame option"
  mp_image_from_av_frame :: "AVFrame \<Rightarrow> mp_image option"
  mp_tags_copy_from_av_dictionary :: "mp_tags \<Rightarrow> (string \<times> string) list \<Rightarrow> mp_tags"
  av_inv_q :: "AVRational \<Rightarrow> AVRational"
  av_q2d :: "AVRational \<Rightarrow> double"
  double_mul :: "double \<Rightarrow> double \<Rightarrow> double"
  int64_rounded :: "64 word \<Rightarrow> double"
  uint64_out_of_range_const :: "double \<Rightarrow> 64 word"
  uint64_out_of_range :: "double \<Rightarrow> 64 word"
  call_lw_reconfig_cb ::
    "addr \<Rightarrow> 'x world \<Rightarrow> 'x mp_image_params \<Rightarrow> 'x mp_image_params
       \<Rightarrow> int \<times> 'x world \<times> 'x mp_image_params \<times> 'x mp_image_params"

subsection \<open>Calls into the engine, and access to the private data\<close>

definition lib_call :: "'x lavfi \<Rightarrow> lav_call \<Rightarrow> 'x world \<Rightarrow> 'x world" where
  "lib_call L c s = s\<lparr>hw_mem := hw_effect L c (hw_mem s), trace := trace s @ [c]\<rparr>"

definition priv_at :: "'x world \<Rightarrow> addr \<Rightarrow> vf_priv_s option" where
  "priv_at s a =
     (if a < length (privs s)
      then (case privs s ! a of Lavfi_priv p \<Rightarrow> Some p | Foreign_priv \<Rightarrow> None)
      else None)"

text \<open>\<open>struct vf_priv_s *p = vf->priv\<close>, read through: the address and what it holds.\<close>

definition vf_priv :: "'x world \<Rightarrow> (addr \<times> vf_priv_s) option" where
  "vf_priv s =
     (case priv (inst s) of
        None \<Rightarrow> None
      | Some a \<Rightarrow> (case priv_at s a of None \<Rightarrow> None | Some p \<Rightarrow> Some (a, p)))"

text \<open>Assignments to fields through \<open>p\<close>.\<close>

definition modify_priv ::
  "addr \<Rightarrow> (vf_priv_s \<Rightarrow> vf_priv_s) \<Rightarrow> 'x world \<Rightarrow> 'x world option" where
  "modify_priv a f s =
     (case priv_at s a of
        None \<Rightarrow> None
      | Some p \<Rightarrow> Some (s\<lparr>privs := (privs s)[a := Lavfi_priv (f p)]\<rparr>))"

text \<open>
  Modelled from the spec: \<open>bstr0\<close> (misc/bstr.h) is not part of the file; the spec reads
  \<open>bstr0(p->cfg_graph).len == 0\<close> as "the configured filter-graph string is empty". A
  \<open>NULL\<close> string has length 0.
\<close>

definition bstr0_len :: "string option \<Rightarrow> nat" where
  "bstr0_len str = (case str of None \<Rightarrow> 0 | Some cs \<Rightarrow> length cs)"

subsection \<open>destroy\_graph and recreate\_graph\<close>

definition destroy_graph :: "'x lavfi \<Rightarrow> 'x world \<Rightarrow> 'x world option" where
  "destroy_graph L s =
     (case vf_priv s of
        None \<Rightarrow> None
      | Some (a, p) \<Rightarrow>
          modify_priv a
            (\<lambda>q. q\<lparr>graph := None, in_ctx := None, out_ctx := None, metadata := None,
                   eof := False\<rparr>)
            (lib_call L (Avfilter_graph_free (graph p)) s))"

text \<open>The label \<open>error\<close> of \<open>recreate_graph\<close>: the graph is freed, the result is false.\<close>

definition graph_error ::
  "'x lavfi \<Rightarrow> addr option \<Rightarrow> 'x world \<Rightarrow> (bool \<times> 'x world) option" where
  "graph_error L g s = Some (False, lib_call L (Avfilter_graph_free g) s)"

text \<open>The loop over \<open>graph->filters\<close>, for the indices given.\<close>

fun set_hw_devices ::
  "'x lavfi \<Rightarrow> addr \<Rightarrow> mp_hwdec_ctx option \<Rightarrow> nat list \<Rightarrow> 'x world \<Rightarrow> 'x world" where
  "set_hw_devices L g hwdec [] s = s"
| "set_hw_devices L g hwdec (n # ns) s =
     set_hw_devices L g hwdec ns
       (case hwdec of
          None \<Rightarrow> s
        | Some dev \<Rightarrow>
            (case av_device_ref dev of
               None \<Rightarrow> s
             | Some r \<Rightarrow>
                 lib_call L (Set_hw_device_ctx g n (av_buffer_ref L (trace s) r))
                   (lib_call L (Av_buffer_ref r) s)))"

definition recreate_graph ::
  "'x lavfi \<Rightarrow> 'x world \<Rightarrow> 'x mp_image_params \<Rightarrow> (bool \<times> 'x world) option" where
  "recreate_graph L s fmt =
     (case vf_priv s of
        None \<Rightarrow> None
      | Some (a, p) \<Rightarrow>
     if bstr0_len (cfg_graph p) = 0 then Some (False, s)
     else
     (case destroy_graph L s of
        None \<Rightarrow> None
      | Some s0 \<Rightarrow>
     let graph' = avfilter_graph_alloc L (trace s0);
         s1 = lib_call L Avfilter_graph_alloc s0
     in
     (case graph' of
        None \<Rightarrow> graph_error L None s1
      | Some g \<Rightarrow>
     let r_opts = mp_set_avopts L (trace s1);
         s2 = lib_call L (Mp_set_avopts g (cfg_avopts p)) s1
     in
     if r_opts < 0 then graph_error L (Some g) s2
     else
     let outputs' = avfilter_inout_alloc L (trace s2);
         s3 = lib_call L Avfilter_inout_alloc s2;
         inputs' = avfilter_inout_alloc L (trace s3);
         s4 = lib_call L Avfilter_inout_alloc s3
     in
     if outputs' = None \<or> inputs' = None then graph_error L (Some g) s4
     else
     let s5 = lib_call L (Set_scale_sws_opts g (cfg_sws_flags p)) s4;
         in' = avfilter_graph_alloc_filter L (trace s5);
         s6 = lib_call L (Avfilter_graph_alloc_filter g ''buffer'' ''src'') s5
     in
     (case in' of
        None \<Rightarrow> graph_error L (Some g) s6
      | Some i \<Rightarrow>
     let in_params_ok = av_buffersrc_parameters_alloc L (trace s6);
         s7 = lib_call L Av_buffersrc_parameters_alloc s6
     in
     if \<not> in_params_ok then graph_error L (Some g) s7
     else
     let in_params =
           \<lparr>format = imgfmt2pixfmt L (imgfmt fmt),
            time_base = AV_TIME_BASE_Q,
            width = w fmt,
            height = h fmt,
            sample_aspect_ratio = \<lparr>num = p_w fmt, den = p_h fmt\<rparr>,
            hw_frames_ctx = in_hwframes_ref (inst s7)\<rparr>;
         ret = av_buffersrc_parameters_set L (trace s7);
         s8 = lib_call L (Av_buffersrc_parameters_set i in_params) s7
     in
     if ret < 0 then graph_error L (Some g) s8
     else
     let r_init = avfilter_init_str L (trace s8);
         s9 = lib_call L (Avfilter_init_str i) s8
     in
     if r_init < 0 then graph_error L (Some g) s9
     else
     let r_sink = fst (avfilter_graph_create_filter L (trace s9));
         out' = snd (avfilter_graph_create_filter L (trace s9));
         s10 = lib_call L (Avfilter_graph_create_filter ''buffersink'' ''out'' g) s9
     in
     if r_sink < 0 then graph_error L (Some g) s10
     else
     let r_parse = graph_parse L (trace s10);
         s11 = lib_call L (Graph_parse g (cfg_graph p) i out') s10
     in
     if r_parse < 0 then graph_error L (Some g) s11
     else
     let s12 =
           (case hwdec_devs (inst s11) of
              None \<Rightarrow> s11
            | Some devs \<Rightarrow>
                set_hw_devices L g (hwdec_devices_get_first L devs)
                  [0 ..< nb_filters L (trace s11) g] s11);
         r_config = avfilter_graph_config L (trace s12);
         s13 = lib_call L (Avfilter_graph_config g) s12
     in
     if r_config < 0 then graph_error L (Some g) s13
     else
     (case modify_priv a (\<lambda>q. q\<lparr>in_ctx := Some i, out_ctx := out', graph := Some g\<rparr>) s13 of
        None \<Rightarrow> None
      | Some s14 \<Rightarrow>
     (case out' of
        None \<Rightarrow> None
      | Some out \<Rightarrow>
     if nb_inputs (filter_ctx L (trace s14) out) \<noteq> 1 then None
     else if nb_outputs (filter_ctx L (trace s14) i) \<noteq> 1 then None
     else Some (True, s14)))))))"

subsection \<open>reset and reconfig\<close>

definition reset :: "'x lavfi \<Rightarrow> 'x world \<Rightarrow> 'x world option" where
  "reset L s =
     (case vf_priv s of
        None \<Rightarrow> None
      | Some (a, p) \<Rightarrow>
          if graph p \<noteq> None \<and> imgfmt (fmt_in (inst s)) \<noteq> 0
          then map_option snd (recreate_graph L s (fmt_in (inst s)))
          else Some s)"

text \<open>
  \<open>*out = *in\<close> followed by the call of the wrapper's callback, when one is set: the
  value the callback returned (0 when there is none), the state, and \<open>*in\<close> and \<open>*out\<close>
  as the callback left them.
\<close>

definition lw_reconfig ::
  "'x lavfi \<Rightarrow> 'x world \<Rightarrow> 'x mp_image_params
     \<Rightarrow> (int \<times> 'x world \<times> 'x mp_image_params \<times> 'x mp_image_params) option" where
  "lw_reconfig L s in_fmt =
     (case vf_priv s of
        None \<Rightarrow> None
      | Some (a, p) \<Rightarrow>
          (case lw_reconfig_cb p of
             None \<Rightarrow> Some (0, s, in_fmt, in_fmt)
           | Some cb \<Rightarrow> Some (call_lw_reconfig_cb L cb s in_fmt in_fmt)))"

text \<open>The hardware frames context of the sink, by the interface the headers offer.\<close>

definition sink_hw_frames_ctx ::
  "'x lavfi \<Rightarrow> 'x world \<Rightarrow> addr \<Rightarrow> AVFilterLink \<Rightarrow> AVBufferRef option" where
  "sink_hw_frames_ctx L s out l_out =
     (if 410980 \<le> LIBAVFILTER_VERSION_INT L \<and> 100 \<le> LIBAVFILTER_VERSION_MICRO L
      then av_buffersink_get_hw_frames_ctx L (trace s) out
      else link_hw_frames_ctx l_out)"

text \<open>
  \<open>reconfig\<close> returns its result, the state, and the two parameter structs \<open>*in\<close> and
  \<open>*out\<close>. \<open>p\<close> is read once, at the start; \<open>recreate_graph\<close> reads \<open>vf->priv\<close> again.
\<close>

definition reconfig ::
  "'x lavfi \<Rightarrow> 'x world \<Rightarrow> 'x mp_image_params
     \<Rightarrow> (int \<times> 'x world \<times> 'x mp_image_params \<times> 'x mp_image_params) option" where
  "reconfig L s in_fmt =
     (case priv (inst s) of
        None \<Rightarrow> None
      | Some a \<Rightarrow>
     (case lw_reconfig L s in_fmt of
        None \<Rightarrow> None
      | Some (r_cb, s1, in1, out1) \<Rightarrow>
     if r_cb < 0 then Some (- 1, s1, in1, out1)
     else
     (case recreate_graph L s1 in1 of
        None \<Rightarrow> None
      | Some (ok, s2) \<Rightarrow>
     if \<not> ok then Some (- 1, s2, in1, out1)
     else
     (case priv_at s2 a of
        None \<Rightarrow> None
      | Some p \<Rightarrow>
     (case out_ctx p of
        None \<Rightarrow> None
      | Some out \<Rightarrow>
     (case in_ctx p of
        None \<Rightarrow> None
      | Some i \<Rightarrow>
     (case inputs (filter_ctx L (trace s2) out) of
        [] \<Rightarrow> None
      | l_out # _ \<Rightarrow>
     (case outputs (filter_ctx L (trace s2) i) of
        [] \<Rightarrow> None
      | l_in # _ \<Rightarrow>
     (case modify_priv a
             (\<lambda>q. q\<lparr>timebase_in := link_time_base l_in,
                    timebase_out := link_time_base l_out,
                    par_in := link_sample_aspect_ratio l_in\<rparr>) s2 of
        None \<Rightarrow> None
      | Some s3 \<Rightarrow>
     let out2 = out1\<lparr>w := link_w l_out,
                     h := link_h l_out,
                     p_w := num (link_sample_aspect_ratio l_out),
                     p_h := den (link_sample_aspect_ratio l_out),
                     imgfmt := pixfmt2imgfmt L (link_format l_out)\<rparr>;
         s4 = lib_call L (Av_buffer_unref (out_hwframes_ref (inst s3))) s3;
         s5 = s4\<lparr>inst := (inst s4)\<lparr>out_hwframes_ref := None\<rparr>\<rparr>
     in
     (case sink_hw_frames_ctx L s5 out l_out of
        None \<Rightarrow> Some (0, s5, in1, out2)
      | Some hw \<Rightarrow>
     (case hw_mem s5 (data hw) of
        None \<Rightarrow> None
      | Some fctx \<Rightarrow>
     let out3 = out2\<lparr>hw_subfmt := pixfmt2imgfmt L (sw_format fctx)\<rparr>;
         fresh = av_buffer_ref L (trace s5) hw;
         s6 = lib_call L (Av_buffer_ref hw) s5
     in Some (0, s6\<lparr>inst := (inst s6)\<lparr>out_hwframes_ref := fresh\<rparr>\<rparr>, in1, out3))))))))))))"

subsection \<open>query\_format and the conversion of frames\<close>

definition query_format :: "'x world \<Rightarrow> 32 word \<Rightarrow> int" where
  "query_format s fmt = 1"

text \<open>
  The conversions of C between \<open>int64_t\<close>, \<open>double\<close> and \<open>uint64_t\<close>, on the bits of the
  \<open>double\<close> (sign, 11 bits of exponent with bias 1023, 52 bits of mantissa).
  \<open>bit_count n\<close> is the number of binary digits of \<open>n\<close>.
\<close>

fun bit_count :: "nat \<Rightarrow> nat" where
  "bit_count n = (if n = 0 then 0 else Suc (bit_count (n div 2)))"

declare bit_count.simps [simp del]

text \<open>
  An \<open>int64_t\<close> to \<open>double\<close>: a value of at most 53 binary digits, or one whose digits
  below the 53 leading ones are all zero, is a \<open>double\<close> and converts to itself; zero
  converts to \<open>+0.0\<close>. Any other value is rounded.
\<close>

definition double_of_int64 :: "'x lavfi \<Rightarrow> 64 word \<Rightarrow> double" where
  "double_of_int64 L x =
     (let n = nat \<bar>sint x\<bar>;
          k = bit_count n;
          sign_bit = (if sint x < 0 then push_bit 63 1 else 0)
      in
      if n = 0 then 0
      else if k \<le> 53
      then sign_bit OR push_bit 52 (word_of_nat (1022 + k))
             OR word_of_nat (n * 2 ^ (53 - k) - 2 ^ 52)
      else if 2 ^ (k - 53) dvd n
      then sign_bit OR push_bit 52 (word_of_nat (1022 + k))
             OR word_of_nat (n div 2 ^ (k - 53) - 2 ^ 52)
      else int64_rounded L x)"

text \<open>
  A \<open>double\<close> to \<open>uint64_t\<close>: the value is truncated toward zero, and the conversion is
  defined when the truncated value is one of \<open>uint64_t\<close>, that is for the values above -1
  and below \<open>2^64\<close>. \<open>None\<close> is a conversion that C leaves undefined: of a value of -1 or
  below, of \<open>2^64\<close> or above, of an infinity and of a NaN.
\<close>

definition double_to_uint64 :: "double \<Rightarrow> 64 word option" where
  "double_to_uint64 d =
     (let e = unat (take_bit 11 (drop_bit 52 d));
          m = 2 ^ 52 + unat (take_bit 52 d)
      in
      if e < 1023 then Some 0
      else if bit d 63 \<or> 1087 \<le> e then None
      else Some (word_of_nat (if 1075 \<le> e then m * 2 ^ (e - 1075) else m div 2 ^ (1075 - e))))"

text \<open>
  The conversion as the compiled code performs it: where C leaves it undefined the run
  goes on with some value in the variable, \<open>stored d\<close>, of which nothing is known.
\<close>

definition uint64_of_double :: "(double \<Rightarrow> 64 word) \<Rightarrow> double \<Rightarrow> 64 word" where
  "uint64_of_double stored d = (case double_to_uint64 d of None \<Rightarrow> stored d | Some v \<Rightarrow> v)"

text \<open>
  In \<open>mp_to_av\<close> both arms of the conditional have type \<open>double\<close>, so \<open>AV_NOPTS_VALUE\<close>
  is converted to \<open>double\<close> as well before the result is stored in the \<open>uint64_t\<close>
  variable \<open>pts\<close>; the assignment to \<open>frame->pts\<close>, an \<open>int64_t\<close>, keeps the 64 bits. The
  outer \<open>option\<close> is the run, the inner one the pointer returned.
\<close>

definition mp_to_av ::
  "'x lavfi \<Rightarrow> 'x world \<Rightarrow> mp_image option \<Rightarrow> AVFrame option option" where
  "mp_to_av L s img =
     (case img of
        None \<Rightarrow> Some None
      | Some im \<Rightarrow>
     (case (if pts im = MP_NOPTS_VALUE
            then Some (uint64_of_double (uint64_out_of_range_const L)
                         (double_of_int64 L AV_NOPTS_VALUE))
            else map_option
                   (\<lambda>(a, p). uint64_of_double (uint64_out_of_range L)
                      (double_mul L (pts im) (av_q2d L (av_inv_q L (timebase_in p)))))
                   (vf_priv s)) of
        None \<Rightarrow> None
      | Some pts' \<Rightarrow>
     (case mp_image_to_av_frame_and_unref L im of
        None \<Rightarrow> Some None
      | Some frame \<Rightarrow>
          map_option
            (\<lambda>(a, p). Some (frame\<lparr>frame_pts := pts', frame_sample_aspect_ratio := par_in p\<rparr>))
            (vf_priv s))))"

definition av_to_mp ::
  "'x lavfi \<Rightarrow> 'x world \<Rightarrow> AVFrame \<Rightarrow> mp_image option option" where
  "av_to_mp L s av_frame =
     (case mp_image_from_av_frame L av_frame of
        None \<Rightarrow> Some None
      | Some img \<Rightarrow>
          if frame_pts av_frame = AV_NOPTS_VALUE
          then Some (Some (img\<lparr>pts := MP_NOPTS_VALUE\<rparr>))
          else map_option
                 (\<lambda>(a, p). Some (img\<lparr>pts := double_mul L (double_of_int64 L (frame_pts av_frame))
                                                (av_q2d L (timebase_out p))\<rparr>))
                 (vf_priv s))"

text \<open>The body of \<open>get_metadata_from_av_frame\<close> is compiled for FFmpeg's libavutil only.\<close>

definition get_metadata_from_av_frame ::
  "'x lavfi \<Rightarrow> 'x world \<Rightarrow> AVFrame \<Rightarrow> 'x world option" where
  "get_metadata_from_av_frame L s frame =
     (if 100 \<le> LIBAVUTIL_VERSION_MICRO L
      then (case vf_priv s of
              None \<Rightarrow> None
            | Some (a, p) \<Rightarrow>
                modify_priv a
                  (\<lambda>q. q\<lparr>metadata :=
                           Some (mp_tags_copy_from_av_dictionary L
                                   (case metadata q of None \<Rightarrow> [] | Some tags \<Rightarrow> tags)
                                   (frame_metadata frame))\<rparr>) s)
      else Some s)"

subsection \<open>filter\_ext and filter\_out\<close>

definition filter_ext ::
  "'x lavfi \<Rightarrow> 'x world \<Rightarrow> mp_image option \<Rightarrow> (int \<times> 'x world) option" where
  "filter_ext L s mpi =
     (case vf_priv s of
        None \<Rightarrow> None
      | Some (a, p) \<Rightarrow>
     (case (if eof p \<and> mpi \<noteq> None then reset L s else Some s) of
        None \<Rightarrow> None
      | Some s1 \<Rightarrow>
     (case priv_at s1 a of
        None \<Rightarrow> None
      | Some p1 \<Rightarrow>
     if graph p1 = None then Some (- 1, s1)
     else if mpi = None \<and> eof p1 then Some (0, s1)
     else
     (case (if mpi = None then modify_priv a (\<lambda>q. q\<lparr>eof := True\<rparr>) s1 else Some s1) of
        None \<Rightarrow> None
      | Some s2 \<Rightarrow>
     (case mp_to_av L s2 mpi of
        None \<Rightarrow> None
      | Some frame \<Rightarrow>
     (case priv_at s2 a of
        None \<Rightarrow> None
      | Some p2 \<Rightarrow>
     let r = (if av_buffersrc_add_frame L (trace s2) < 0 then - 1 else 0);
         s3 = lib_call L (Av_buffersrc_add_frame (in_ctx p2) frame) s2
     in Some (r, s3)))))))"

definition filter_out :: "'x lavfi \<Rightarrow> 'x world \<Rightarrow> (int \<times> 'x world) option" where
  "filter_out L s =
     (case vf_priv s of
        None \<Rightarrow> None
      | Some (a, p) \<Rightarrow>
     let err = fst (av_buffersink_get_frame L (trace s));
         frame = snd (av_buffersink_get_frame L (trace s));
         s1 = lib_call L (Av_buffersink_get_frame (out_ctx p)) s
     in
     if err = AVERROR_EAGAIN L \<or> err = AVERROR_EOF L
     then map_option (Pair 0)
            (modify_priv a (\<lambda>q. q\<lparr>eof := (eof q \<or> err = AVERROR_EOF L)\<rparr>) s1)
     else if err < 0 then Some (- 1, s1)
     else
     (case get_metadata_from_av_frame L s1 frame of
        None \<Rightarrow> None
      | Some s2 \<Rightarrow>
     (case av_to_mp L s2 frame of
        None \<Rightarrow> None
      | Some img \<Rightarrow> Some (0, lib_call L (Vf_add_output_frame img) s2))))"

subsection \<open>control, uninit and vf\_open\<close>

datatype vf_ctrl = VFCTRL_SEEK_RESET | VFCTRL_COMMAND | VFCTRL_GET_METADATA | VFCTRL_other int

datatype control_result = CONTROL_OK | CONTROL_ERROR | CONTROL_NA | CONTROL_UNKNOWN

text \<open>
  \<open>control\<close> takes the request and, for \<open>VFCTRL_COMMAND\<close>, the two strings \<open>args[0]\<close> and
  \<open>args[1]\<close> that \<open>data\<close> points to; it returns its result, the state, and the tags it
  wrote to \<open>*data\<close>, if it wrote any. With Libav's headers
  \<open>avfilter_graph_send_command\<close> is a macro for \<open>-1\<close>.
\<close>

definition control ::
  "'x lavfi \<Rightarrow> 'x world \<Rightarrow> vf_ctrl \<Rightarrow> string \<times> string
     \<Rightarrow> (control_result \<times> 'x world \<times> mp_tags option) option" where
  "control L s request args =
     (case request of
        VFCTRL_SEEK_RESET \<Rightarrow> map_option (\<lambda>s'. (CONTROL_OK, s', None)) (reset L s)
      | VFCTRL_COMMAND \<Rightarrow>
          (case vf_priv s of
             None \<Rightarrow> None
           | Some (a, p) \<Rightarrow>
               (case graph p of
                  None \<Rightarrow> Some (CONTROL_UNKNOWN, s, None)
                | Some g \<Rightarrow>
                    if LIBAVFILTER_VERSION_MICRO L < 100 then Some (CONTROL_ERROR, s, None)
                    else Some (if 0 \<le> avfilter_graph_send_command L (trace s)
                               then CONTROL_OK else CONTROL_ERROR,
                               lib_call L (Avfilter_graph_send_command g ''all'' (fst args) (snd args)) s,
                               None)))
      | VFCTRL_GET_METADATA \<Rightarrow>
          (case priv (inst s) of
             None \<Rightarrow> Some (CONTROL_NA, s, None)
           | Some a \<Rightarrow>
               (case priv_at s a of
                  None \<Rightarrow> None
                | Some p \<Rightarrow>
                    (case metadata p of
                       None \<Rightarrow> Some (CONTROL_NA, s, None)
                     | Some tags \<Rightarrow> Some (CONTROL_OK, s, Some tags))))
      | VFCTRL_other n \<Rightarrow> Some (CONTROL_UNKNOWN, s, None))"

definition uninit :: "'x lavfi \<Rightarrow> 'x world \<Rightarrow> 'x world option" where
  "uninit L s = (case priv (inst s) of None \<Rightarrow> Some s | Some a \<Rightarrow> destroy_graph L s)"

definition vf_open :: "'x world \<Rightarrow> int \<times> 'x world" where
  "vf_open s =
     (1, s\<lparr>inst := (inst s)
            \<lparr>vf_reconfig := Some Fn_reconfig,
             vf_filter_ext := Some Fn_filter_ext,
             vf_filter_out := Some Fn_filter_out,
             vf_filter := None,
             vf_query_format := Some Fn_query_format,
             vf_control := Some Fn_control,
             vf_uninit := Some Fn_uninit\<rparr>\<rparr>)"

subsection \<open>The wrapper for the old filters\<close>

record vf_lw_opts =
  sws_flags :: int
  avopts :: "string list option"

definition vf_lw_conf_defaults :: vf_lw_opts where
  "vf_lw_conf_defaults = \<lparr>sws_flags = SWS_BICUBIC, avopts = None\<rparr>"

text \<open>The loop of \<open>have_filter\<close>, over the filters that \<open>avfilter_next\<close> enumerates.\<close>

fun have_filter_in :: "string list \<Rightarrow> string \<Rightarrow> bool" where
  "have_filter_in [] name = False"
| "have_filter_in (filter_name # more_filters) name =
     (if filter_name = name then True else have_filter_in more_filters name)"

definition have_filter :: "'x lavfi \<Rightarrow> string \<Rightarrow> bool" where
  "have_filter L name = have_filter_in (registered_filters L) name"

text \<open>\<open>"%s=%s"\<close> for a named filter, the options alone otherwise.\<close>

definition graph_string :: "string option \<Rightarrow> string \<Rightarrow> string" where
  "graph_string filter_name str =
     (case filter_name of None \<Rightarrow> str | Some f \<Rightarrow> f @ ''='' @ str)"

text \<open>
  \<open>vf_lw_set_graph\<close>: \<open>str\<close> is the string that \<open>talloc_vasprintf\<close> makes of \<open>opts\<close> and the
  variadic arguments. \<open>talloc\<close> returns the address of a new object of the store.
\<close>

definition vf_lw_set_graph ::
  "'x lavfi \<Rightarrow> 'x world \<Rightarrow> vf_lw_opts option \<Rightarrow> string option \<Rightarrow> string
     \<Rightarrow> (int \<times> 'x world) option" where
  "vf_lw_set_graph L s lavfi_opts filter_name str =
     (let lavfi_opts' = (case lavfi_opts of None \<Rightarrow> vf_lw_conf_defaults | Some lo \<Rightarrow> lo) in
      if (case filter_name of None \<Rightarrow> False | Some f \<Rightarrow> \<not> have_filter L f)
      then Some (- 1, s)
      else
        let old = priv (inst s);
            a = length (privs s);
            p = vf_priv_dflt\<lparr>cfg_sws_flags := sws_flags lavfi_opts',
                              cfg_avopts := avopts lavfi_opts',
                              cfg_graph := Some (graph_string filter_name str),
                              old_priv := old\<rparr>;
            s1 = s\<lparr>inst := (inst s)\<lparr>priv := Some a\<rparr>, privs := privs s @ [Lavfi_priv p]\<rparr>
        in if fst (vf_open s1) < 1 then None else Some (1, snd (vf_open s1)))"

definition vf_lw_old_priv :: "'x world \<Rightarrow> addr option option" where
  "vf_lw_old_priv s = map_option (\<lambda>(a, p). old_priv p) (vf_priv s)"

definition vf_lw_update_graph ::
  "'x world \<Rightarrow> string option \<Rightarrow> string \<Rightarrow> 'x world option" where
  "vf_lw_update_graph s filter_name str =
     (case vf_priv s of
        None \<Rightarrow> None
      | Some (a, p) \<Rightarrow>
          modify_priv a (\<lambda>q. q\<lparr>cfg_graph := Some (graph_string filter_name str)\<rparr>) s)"

definition vf_lw_set_reconfig_cb :: "'x world \<Rightarrow> addr option \<Rightarrow> 'x world option" where
  "vf_lw_set_reconfig_cb s reconfig_cb =
     (case vf_priv s of
        None \<Rightarrow> None
      | Some (a, p) \<Rightarrow> modify_priv a (\<lambda>q. q\<lparr>lw_reconfig_cb := reconfig_cb\<rparr>) s)"

subsection \<open>Notions used in the statements\<close>

text \<open>
  From \<open>s\<close> to \<open>s'\<close> calls were only added to the trace, and the memory of the hardware
  frames contexts is that of \<open>s\<close> after the engine's effects of the calls added, in their
  order: nothing else has written to it.
\<close>

definition hw_only_by_calls :: "'x lavfi \<Rightarrow> 'x world \<Rightarrow> 'x world \<Rightarrow> bool" where
  "hw_only_by_calls L s s' \<longleftrightarrow>
     take (length (trace s)) (trace s') = trace s
     \<and> hw_mem s' = fold (hw_effect L) (drop (length (trace s)) (trace s')) (hw_mem s)"

text \<open>The calls to \<open>av_buffersrc_parameters_set\<close>.\<close>

definition is_params_set :: "lav_call \<Rightarrow> bool" where
  "is_params_set c = (case c of Av_buffersrc_parameters_set i par \<Rightarrow> True | _ \<Rightarrow> False)"

text \<open>The calls that the loop \<open>set_hw_devices\<close> makes, started after the calls \<open>tr\<close>.\<close>

fun hw_device_calls ::
  "'x lavfi \<Rightarrow> addr \<Rightarrow> mp_hwdec_ctx option \<Rightarrow> nat list \<Rightarrow> lav_call list \<Rightarrow> lav_call list" where
  "hw_device_calls L g hwdec [] tr = []"
| "hw_device_calls L g hwdec (n # ns) tr =
     (case hwdec of
        None \<Rightarrow> hw_device_calls L g hwdec ns tr
      | Some dev \<Rightarrow>
          (case av_device_ref dev of
             None \<Rightarrow> hw_device_calls L g hwdec ns tr
           | Some r \<Rightarrow>
               [Av_buffer_ref r, Set_hw_device_ctx g n (av_buffer_ref L tr r)]
               @ hw_device_calls L g hwdec ns
                   (tr @ [Av_buffer_ref r, Set_hw_device_ctx g n (av_buffer_ref L tr r)])))"

text \<open>A caller that makes a sequence of \<open>filter_ext\<close> calls, and collects the results.\<close>

fun filter_ext_calls ::
  "'x lavfi \<Rightarrow> 'x world \<Rightarrow> mp_image option list \<Rightarrow> (int list \<times> 'x world) option" where
  "filter_ext_calls L s [] = Some ([], s)"
| "filter_ext_calls L s (mpi # mpis) =
     (case filter_ext L s mpi of
        None \<Rightarrow> None
      | Some (r, s1) \<Rightarrow> map_option (\<lambda>(rs, s'). (r # rs, s')) (filter_ext_calls L s1 mpis))"

subsection \<open>An engine and states to run the operations on\<close>

text \<open>
  \<open>ex_lavfi\<close> is an engine built from FFmpeg's headers in which every call succeeds and
  the sink delivers a frame; \<open>ex_libav\<close> is the same engine behind Libav's headers.
  \<open>ex_world_of p\<close> is a filter whose private data is \<open>p\<close>; \<open>ex_foreign\<close> is an old filter
  with private data and callbacks of its own.
\<close>

definition ex_link :: AVFilterLink where
  "ex_link =
     \<lparr>link_time_base = \<lparr>num = 1, den = 25\<rparr>,
      link_sample_aspect_ratio = \<lparr>num = 4, den = 3\<rparr>,
      link_w = 640, link_h = 480, link_format = 2, link_hw_frames_ctx = None\<rparr>"

definition ex_frame :: AVFrame where
  "ex_frame =
     \<lparr>frame_pts = 40, frame_sample_aspect_ratio = \<lparr>num = 4, den = 3\<rparr>,
      frame_metadata = [(''lavfi.scene'', ''1'')], frame_buf = 9\<rparr>"

definition ex_lavfi :: "nat lavfi" where
  "ex_lavfi =
     \<lparr>LIBAVFILTER_VERSION_MICRO = 100,
      LIBAVFILTER_VERSION_INT = 410980,
      LIBAVUTIL_VERSION_MICRO = 100,
      AVERROR_EAGAIN = - 11,
      AVERROR_EOF = - 541478725,
      hw_effect = (\<lambda>c m. m),
      avfilter_graph_alloc = (\<lambda>tr. Some 1),
      mp_set_avopts = (\<lambda>tr. 0),
      avfilter_inout_alloc = (\<lambda>tr. Some 2),
      avfilter_graph_alloc_filter = (\<lambda>tr. Some 3),
      av_buffersrc_parameters_alloc = (\<lambda>tr. True),
      av_buffersrc_parameters_set = (\<lambda>tr. 0),
      avfilter_init_str = (\<lambda>tr. 0),
      avfilter_graph_create_filter = (\<lambda>tr. (0, Some 4)),
      graph_parse = (\<lambda>tr. 0),
      nb_filters = (\<lambda>tr g. 3),
      hwdec_devices_get_first = (\<lambda>devs. None),
      av_buffer_ref = (\<lambda>tr r. Some r),
      avfilter_graph_config = (\<lambda>tr. 0),
      filter_ctx = (\<lambda>tr c. \<lparr>inputs = [ex_link], outputs = [ex_link]\<rparr>),
      av_buffersink_get_hw_frames_ctx = (\<lambda>tr c. None),
      av_buffersrc_add_frame = (\<lambda>tr. 0),
      av_buffersink_get_frame = (\<lambda>tr. (0, ex_frame)),
      avfilter_graph_send_command = (\<lambda>tr. 0),
      registered_filters = [''scale'', ''crop''],
      imgfmt2pixfmt = (\<lambda>f. f + 1),
      pixfmt2imgfmt = (\<lambda>f. f - 1),
      mp_image_to_av_frame_and_unref =
        (\<lambda>im. Some \<lparr>frame_pts = 0, frame_sample_aspect_ratio = \<lparr>num = 0, den = 1\<rparr>,
                     frame_metadata = [], frame_buf = planes im\<rparr>),
      mp_image_from_av_frame = (\<lambda>f. Some \<lparr>pts = 0, planes = frame_buf f\<rparr>),
      mp_tags_copy_from_av_dictionary = (\<lambda>tags dict. tags @ dict),
      av_inv_q = (\<lambda>q. \<lparr>num = den q, den = num q\<rparr>),
      av_q2d = (\<lambda>q. 0),
      double_mul = (\<lambda>x y. 0),
      int64_rounded = (\<lambda>x. 0),
      uint64_out_of_range_const = (\<lambda>x. 0),
      uint64_out_of_range = (\<lambda>x. 0),
      call_lw_reconfig_cb = (\<lambda>cb s i out. (0, s, i, out))\<rparr>"

definition ex_libav :: "nat lavfi" where
  "ex_libav = ex_lavfi\<lparr>LIBAVFILTER_VERSION_MICRO := 0, LIBAVUTIL_VERSION_MICRO := 0\<rparr>"

definition ex_params :: "nat mp_image_params" where
  "ex_params = \<lparr>imgfmt = 1, hw_subfmt = 0, w = 320, h = 240, p_w = 1, p_h = 1, rest = 7\<rparr>"

definition ex_inst :: "nat vf_instance" where
  "ex_inst =
     \<lparr>priv = Some 0, fmt_in = ex_params, in_hwframes_ref = Some \<lparr>buffer = 5, data = 6\<rparr>,
      out_hwframes_ref = None, hwdec_devs = None,
      vf_reconfig = Some Fn_reconfig, vf_filter_ext = Some Fn_filter_ext,
      vf_filter_out = Some Fn_filter_out, vf_filter = None,
      vf_query_format = Some Fn_query_format, vf_control = Some Fn_control,
      vf_uninit = Some Fn_uninit\<rparr>"

definition ex_priv :: vf_priv_s where
  "ex_priv = vf_priv_dflt\<lparr>cfg_graph := Some ''scale=2:2''\<rparr>"

definition ex_priv_graph :: vf_priv_s where
  "ex_priv_graph = ex_priv\<lparr>graph := Some 1, in_ctx := Some 3, out_ctx := Some 4\<rparr>"

definition ex_world_of :: "vf_priv_s \<Rightarrow> nat world" where
  "ex_world_of p = \<lparr>inst = ex_inst, privs = [Lavfi_priv p], hw_mem = (\<lambda>x. None), trace = []\<rparr>"

definition ex_foreign :: "nat world" where
  "ex_foreign =
     \<lparr>inst = ex_inst\<lparr>vf_reconfig := Some (Fn_foreign 1), vf_filter_ext := None,
                     vf_filter_out := None, vf_filter := Some (Fn_foreign 2),
                     vf_query_format := Some (Fn_foreign 3), vf_control := None,
                     vf_uninit := Some (Fn_foreign 4)\<rparr>,
      privs = [Foreign_priv], hw_mem = (\<lambda>x. None), trace = []\<rparr>"

text \<open>
  The calls of a successful \<open>recreate_graph\<close> on \<open>ex_lavfi\<close>, from a state whose graph
  was \<open>g0\<close>. The other engines are \<open>ex_lavfi\<close> with one answer changed: a wrapper
  callback that clears \<open>rest\<close> in \<open>*out\<close>, one that fails, a sink with a hardware frames
  context at address 12 (which \<open>ex_hw_mem\<close> holds), and a graph that cannot be configured.
\<close>

definition ex_calls :: "addr option \<Rightarrow> lav_call list" where
  "ex_calls g0 =
     [Avfilter_graph_free g0, Avfilter_graph_alloc, Mp_set_avopts 1 None,
      Avfilter_inout_alloc, Avfilter_inout_alloc, Set_scale_sws_opts 1 4,
      Avfilter_graph_alloc_filter 1 ''buffer'' ''src'', Av_buffersrc_parameters_alloc,
      Av_buffersrc_parameters_set 3
        \<lparr>format = 2, time_base = \<lparr>num = 1, den = 1000000\<rparr>, width = 320, height = 240,
         sample_aspect_ratio = \<lparr>num = 1, den = 1\<rparr>,
         hw_frames_ctx = Some \<lparr>buffer = 5, data = 6\<rparr>\<rparr>,
      Avfilter_init_str 3, Avfilter_graph_create_filter ''buffersink'' ''out'' 1,
      Graph_parse 1 (Some ''scale=2:2'') 3 (Some 4), Avfilter_graph_config 1]"

definition ex_lavfi_cb :: "nat lavfi" where
  "ex_lavfi_cb = ex_lavfi\<lparr>call_lw_reconfig_cb := (\<lambda>cb s i out. (0, s, i, out\<lparr>rest := 0\<rparr>))\<rparr>"

definition ex_lavfi_cb_fails :: "nat lavfi" where
  "ex_lavfi_cb_fails = ex_lavfi\<lparr>call_lw_reconfig_cb := (\<lambda>cb s i out. (- 1, s, i, out))\<rparr>"

definition ex_lavfi_hw :: "nat lavfi" where
  "ex_lavfi_hw =
     ex_lavfi\<lparr>av_buffersink_get_hw_frames_ctx := (\<lambda>tr c. Some \<lparr>buffer = 11, data = 12\<rparr>)\<rparr>"

definition ex_hw_mem :: hw_memory where
  "ex_hw_mem = (\<lambda>x. if x = 12 then Some \<lparr>sw_format = 3, hw_other = 0\<rparr> else None)"

definition ex_lavfi_no_config :: "nat lavfi" where
  "ex_lavfi_no_config = ex_lavfi\<lparr>avfilter_graph_config := (\<lambda>tr. - 22)\<rparr>"

text \<open>An engine that frees the hardware frames context at address 12 with the graph.\<close>

definition ex_lavfi_frees :: "nat lavfi" where
  "ex_lavfi_frees =
     ex_lavfi\<lparr>hw_effect :=
       (\<lambda>c m. case c of Avfilter_graph_free g \<Rightarrow> m(12 := None) | _ \<Rightarrow> m)\<rparr>"

text \<open>An engine whose sink has two inputs: the first assertion of \<open>recreate_graph\<close> fails.\<close>

definition ex_lavfi_two_inputs :: "nat lavfi" where
  "ex_lavfi_two_inputs =
     ex_lavfi\<lparr>filter_ctx := (\<lambda>tr c. \<lparr>inputs = [ex_link, ex_link], outputs = [ex_link]\<rparr>)\<rparr>"

section \<open>Properties\<close>

subsection \<open>Basic facts\<close>

lemma lib_call_simps:
  "inst (lib_call L c s) = inst s"
  "privs (lib_call L c s) = privs s"
  "trace (lib_call L c s) = trace s @ [c]"
  "hw_mem (lib_call L c s) = hw_effect L c (hw_mem s)"
  by (simp_all add: lib_call_def)

lemma priv_at_lib_call: "priv_at (lib_call L c s) a = priv_at s a"
  by (simp add: priv_at_def lib_call_simps)

lemma vf_priv_lib_call: "vf_priv (lib_call L c s) = vf_priv s"
  by (simp add: vf_priv_def priv_at_lib_call lib_call_simps cong: option.case_cong)

lemma vf_priv_Some:
  "vf_priv s = Some (a, p) \<longleftrightarrow> priv (inst s) = Some a \<and> priv_at s a = Some p"
  by (auto simp: vf_priv_def split: option.splits)

lemma modify_priv_Some:
  assumes "modify_priv a f s = Some s'"
  shows "inst s' = inst s" and "trace s' = trace s" and "hw_mem s' = hw_mem s"
    and "length (privs s') = length (privs s)"
    and "\<exists>p. priv_at s a = Some p \<and> priv_at s' a = Some (f p)"
    and "b \<noteq> a \<Longrightarrow> priv_at s' b = priv_at s b"
  using assms by (auto simp: modify_priv_def priv_at_def split: option.splits if_splits)

lemma modify_priv_valid:
  "priv_at s a = Some p \<Longrightarrow> \<exists>s'. modify_priv a f s = Some s'"
  by (simp add: modify_priv_def)

lemma modify_priv_eq:
  "priv_at s a = Some p \<Longrightarrow>
   modify_priv a f s = Some (s\<lparr>privs := (privs s)[a := Lavfi_priv (f p)]\<rparr>)"
  by (simp add: modify_priv_def)

lemma priv_at_update:
  "priv_at s a = Some p \<Longrightarrow> priv_at (s\<lparr>privs := (privs s)[a := Lavfi_priv q]\<rparr>) a = Some q"
  by (auto simp: priv_at_def split: if_splits)

lemma vf_priv_update:
  "vf_priv s = Some (a, p) \<Longrightarrow> vf_priv (s\<lparr>privs := (privs s)[a := Lavfi_priv q]\<rparr>) = Some (a, q)"
  by (auto simp: vf_priv_def priv_at_def split: option.splits if_splits)

lemma set_hw_devices_inst: "inst (set_hw_devices L g hwdec ns s) = inst s"
  by (induction ns arbitrary: s) (auto simp: lib_call_simps split: option.splits)

lemma set_hw_devices_privs: "privs (set_hw_devices L g hwdec ns s) = privs s"
  by (induction ns arbitrary: s) (auto simp: lib_call_simps split: option.splits)

lemma set_hw_devices_trace:
  "trace (set_hw_devices L g hwdec ns s) = trace s @ hw_device_calls L g hwdec ns (trace s)"
  by (induction ns arbitrary: s) (auto simp: lib_call_simps split: option.splits)

lemma set_hw_devices_hw_mem_fold:
  "hw_mem (set_hw_devices L g hwdec ns s) =
     fold (hw_effect L) (hw_device_calls L g hwdec ns (trace s)) (hw_mem s)"
  by (induction ns arbitrary: s) (auto simp: lib_call_simps split: option.splits)

lemma hw_device_calls_no_params:
  "c \<in> set (hw_device_calls L g hwdec ns tr) \<Longrightarrow> \<not> is_params_set c"
  by (induction ns arbitrary: tr) (auto simp: is_params_set_def split: option.splits)

lemma priv_at_set_hw_devices: "priv_at (set_hw_devices L g hwdec ns s) a = priv_at s a"
  by (simp add: priv_at_def set_hw_devices_privs)

lemma modify_privE:
  assumes "modify_priv a f s = Some s'"
  obtains p where "priv_at s a = Some p" and "priv_at s' a = Some (f p)"
    and "inst s' = inst s" and "trace s' = trace s" and "hw_mem s' = hw_mem s"
    and "length (privs s') = length (privs s)"
    and "\<forall>b. b \<noteq> a \<longrightarrow> priv_at s' b = priv_at s b"
  using modify_priv_Some [OF assms] by blast

lemma destroy_graph_Some:
  assumes "vf_priv s = Some (a, p)"
  shows "\<exists>s'. destroy_graph L s = Some s' \<and> inst s' = inst s
     \<and> trace s' = trace s @ [Avfilter_graph_free (graph p)]
     \<and> hw_mem s' = hw_effect L (Avfilter_graph_free (graph p)) (hw_mem s)
     \<and> length (privs s') = length (privs s)
     \<and> priv_at s' a = Some (p\<lparr>graph := None, in_ctx := None, out_ctx := None, metadata := None, eof := False\<rparr>)
     \<and> (\<forall>b. b \<noteq> a \<longrightarrow> priv_at s' b = priv_at s b)"
  using assms
  by (auto simp: destroy_graph_def vf_priv_Some modify_priv_def priv_at_def lib_call_simps split: option.splits if_splits)

lemma recreate_graph_empty:
  "vf_priv s = Some (a, p) \<Longrightarrow> bstr0_len (cfg_graph p) = 0 \<Longrightarrow> recreate_graph L s fmt = Some (False, s)"
  by (simp add: recreate_graph_def)

lemma recreate_graph_inst:
  assumes "recreate_graph L s fmt = Some (ok, s')"
  shows "inst s' = inst s"
proof -
  from assms obtain a p where ap: "vf_priv s = Some (a, p)"
    by (auto simp: recreate_graph_def split: option.splits)
  from destroy_graph_Some [OF ap, of L] obtain s0 where
    d: "destroy_graph L s = Some s0" "inst s0 = inst s" by blast
  show ?thesis
    using assms ap d
    by (auto simp: recreate_graph_def Let_def graph_error_def lib_call_simps
          set_hw_devices_inst
          dest!: modify_priv_Some(1)
          split: option.splits if_splits)
qed

lemmas ex_defs =
  ex_lavfi_def ex_libav_def ex_world_of_def ex_inst_def ex_priv_def ex_priv_graph_def ex_params_def
  ex_frame_def ex_link_def vf_priv_dflt_def

lemma ex_vf_priv: "vf_priv (ex_world_of p) = Some (0, p)"
  by (simp add: ex_world_of_def ex_inst_def vf_priv_def priv_at_def)

lemma ex_world_simps:
  "inst (ex_world_of p) = ex_inst"
  "privs (ex_world_of p) = [Lavfi_priv p]"
  "trace (ex_world_of p) = []"
  "fmt_in ex_inst = ex_params"
  "priv ex_inst = Some 0"
  by (simp_all add: ex_world_of_def ex_inst_def)

lemma is_params_set_simps:
  "is_params_set (Av_buffersrc_parameters_set i par)"
  "\<not> is_params_set (Avfilter_graph_free g')"
  "\<not> is_params_set Avfilter_graph_alloc"
  "\<not> is_params_set (Mp_set_avopts g opts)"
  "\<not> is_params_set Avfilter_inout_alloc"
  "\<not> is_params_set (Set_scale_sws_opts g n)"
  "\<not> is_params_set (Avfilter_graph_alloc_filter g n1 n2)"
  "\<not> is_params_set Av_buffersrc_parameters_alloc"
  "\<not> is_params_set (Avfilter_init_str i)"
  "\<not> is_params_set (Avfilter_graph_create_filter n1 n2 g)"
  "\<not> is_params_set (Graph_parse g str i out)"
  "\<not> is_params_set (Av_buffer_ref r)"
  "\<not> is_params_set (Set_hw_device_ctx g k r')"
  "\<not> is_params_set (Avfilter_graph_config g)"
  "\<not> is_params_set (Av_buffer_unref r')"
  "\<not> is_params_set (Av_buffersrc_add_frame i' fr)"
  "\<not> is_params_set (Av_buffersink_get_frame i')"
  "\<not> is_params_set (Avfilter_graph_send_command g n1 n2 n3)"
  "\<not> is_params_set (Vf_add_output_frame img)"
  by (simp_all add: is_params_set_def)

lemma recreate_graph_priv:
  assumes "recreate_graph L s fmt = Some (ok, s')" and "vf_priv s = Some (a, p)"
  shows "\<exists>p'. vf_priv s' = Some (a, p')
     \<and> cfg_graph p' = cfg_graph p \<and> cfg_sws_flags p' = cfg_sws_flags p \<and> cfg_avopts p' = cfg_avopts p
     \<and> lw_reconfig_cb p' = lw_reconfig_cb p \<and> old_priv p' = old_priv p
     \<and> timebase_in p' = timebase_in p \<and> timebase_out p' = timebase_out p \<and> par_in p' = par_in p
     \<and> (bstr0_len (cfg_graph p) = 0 \<longrightarrow> s' = s \<and> \<not> ok)
     \<and> (bstr0_len (cfg_graph p) \<noteq> 0 \<longrightarrow>
          \<not> eof p' \<and> metadata p' = None \<and> (ok \<longleftrightarrow> graph p' \<noteq> None)
          \<and> (\<not> ok \<longrightarrow> in_ctx p' = None \<and> out_ctx p' = None)
          \<and> (ok \<longrightarrow> (\<exists>i out. in_ctx p' = Some i \<and> out_ctx p' = Some out
                \<and> length (inputs (filter_ctx L (trace s') out)) = 1
                \<and> length (outputs (filter_ctx L (trace s') i)) = 1)))"
proof (cases "bstr0_len (cfg_graph p) = 0")
  case True
  with assms show ?thesis by (simp add: recreate_graph_def)
next
  case False
  from destroy_graph_Some [OF assms(2), of L] obtain s0 where
    d: "destroy_graph L s = Some s0" "inst s0 = inst s"
       "priv_at s0 a = Some (p\<lparr>graph := None, in_ctx := None, out_ctx := None, metadata := None, eof := False\<rparr>)"
    by blast
  have pa: "priv (inst s) = Some a" using assms(2) by (simp add: vf_priv_Some)
  show ?thesis
    using assms False d pa
    by (auto simp: recreate_graph_def Let_def graph_error_def lib_call_simps vf_priv_Some
          set_hw_devices_inst priv_at_lib_call priv_at_set_hw_devices nb_inputs_def nb_outputs_def
          elim!: modify_privE
          split: option.splits if_splits)
qed

lemma hw_only_by_calls_iff:
  "hw_only_by_calls L s t \<longleftrightarrow>
     (\<exists>cs. trace t = trace s @ cs \<and> hw_mem t = fold (hw_effect L) cs (hw_mem s))"
proof
  assume h: "hw_only_by_calls L s t"
  then have "trace t = trace s @ drop (length (trace s)) (trace t)"
    by (metis append_take_drop_id hw_only_by_calls_def)
  with h show "\<exists>cs. trace t = trace s @ cs \<and> hw_mem t = fold (hw_effect L) cs (hw_mem s)"
    unfolding hw_only_by_calls_def by blast
next
  assume "\<exists>cs. trace t = trace s @ cs \<and> hw_mem t = fold (hw_effect L) cs (hw_mem s)"
  then show "hw_only_by_calls L s t" by (auto simp: hw_only_by_calls_def)
qed

lemma hw_only_by_callsD:
  "hw_only_by_calls L s t \<Longrightarrow>
   \<exists>cs. trace t = trace s @ cs \<and> hw_mem t = fold (hw_effect L) cs (hw_mem s)"
  by (simp add: hw_only_by_calls_iff)

lemma hw_only_by_calls_refl: "hw_only_by_calls L s s"
  by (simp add: hw_only_by_calls_def)

lemma hw_only_by_calls_lib_call:
  "hw_only_by_calls L s t \<Longrightarrow> hw_only_by_calls L s (lib_call L c t)"
  by (auto simp: hw_only_by_calls_iff lib_call_simps)

lemma recreate_graph_hw_only_by_calls:
  assumes "recreate_graph L s fmt = Some (ok, u)"
  shows "hw_only_by_calls L s u"
proof -
  from assms obtain a p where ap: "vf_priv s = Some (a, p)"
    by (auto simp: recreate_graph_def split: option.splits)
  from destroy_graph_Some [OF ap, of L] obtain s0 where
    d: "destroy_graph L s = Some s0"
       "trace s0 = trace s @ [Avfilter_graph_free (graph p)]"
       "hw_mem s0 = hw_effect L (Avfilter_graph_free (graph p)) (hw_mem s)"
    by blast
  show ?thesis
    using assms ap d
    by (auto simp: recreate_graph_def Let_def graph_error_def lib_call_simps
          set_hw_devices_trace set_hw_devices_hw_mem_fold hw_only_by_calls_def
          elim!: modify_privE
          split: option.splits if_splits)
qed

lemma recreate_graph_trace:
  assumes "recreate_graph L s fmt = Some (ok, s')"
  shows "\<exists>cs. trace s' = trace s @ cs
     \<and> (\<forall>c \<in> set cs. is_params_set c \<longrightarrow>
           (\<exists>i. c = Av_buffersrc_parameters_set i
              \<lparr>format = imgfmt2pixfmt L (imgfmt fmt), time_base = AV_TIME_BASE_Q,
               width = w fmt, height = h fmt,
               sample_aspect_ratio = \<lparr>num = p_w fmt, den = p_h fmt\<rparr>,
               hw_frames_ctx = in_hwframes_ref (inst s)\<rparr>))
     \<and> (ok \<longrightarrow> (\<exists>c \<in> set cs. is_params_set c))"
proof -
  from assms obtain a p where ap: "vf_priv s = Some (a, p)"
    by (auto simp: recreate_graph_def split: option.splits)
  from destroy_graph_Some [OF ap, of L] obtain s0 where
    d: "destroy_graph L s = Some s0" "inst s0 = inst s"
       "trace s0 = trace s @ [Avfilter_graph_free (graph p)]"
    by blast
  show ?thesis
    using assms ap d
    by (auto simp: recreate_graph_def Let_def graph_error_def lib_call_simps
          set_hw_devices_inst set_hw_devices_trace is_params_set_simps
          dest: hw_device_calls_no_params
          elim!: modify_privE
          split: option.splits if_splits)
qed

lemma reset_eq:
  assumes "vf_priv s = Some (a, p)"
  shows "reset L s =
     (if graph p \<noteq> None \<and> imgfmt (fmt_in (inst s)) \<noteq> 0
      then map_option snd (recreate_graph L s (fmt_in (inst s))) else Some s)"
  using assms by (simp add: reset_def)

lemma av_to_mp_returns:
  "vf_priv s = Some (a, p) \<Longrightarrow> \<exists>img. av_to_mp L s frame = Some img"
  by (simp add: av_to_mp_def split: option.splits)

lemma get_metadata_eq:
  "vf_priv s = Some (a, p) \<Longrightarrow>
   get_metadata_from_av_frame L s frame =
     Some (if 100 \<le> LIBAVUTIL_VERSION_MICRO L
           then s\<lparr>privs := (privs s)[a := Lavfi_priv (p\<lparr>metadata :=
                    Some (mp_tags_copy_from_av_dictionary L
                            (case metadata p of None \<Rightarrow> [] | Some tags \<Rightarrow> tags)
                            (frame_metadata frame))\<rparr>)]\<rparr>
           else s)"
proof -
  assume h: "vf_priv s = Some (a, p)"
  then have "priv_at s a = Some p" by (simp add: vf_priv_Some)
  with h show ?thesis by (simp add: get_metadata_from_av_frame_def modify_priv_eq)
qed

lemma filter_out_cases:
  assumes "vf_priv s = Some (a, p)"
    and "err = fst (av_buffersink_get_frame L (trace s))"
    and "frame = snd (av_buffersink_get_frame L (trace s))"
    and "s1 = lib_call L (Av_buffersink_get_frame (out_ctx p)) s"
  shows "(err = AVERROR_EAGAIN L \<or> err = AVERROR_EOF L \<longrightarrow>
            filter_out L s =
              Some (0, s1\<lparr>privs := (privs s)[a := Lavfi_priv (p\<lparr>eof := (eof p \<or> err = AVERROR_EOF L)\<rparr>)]\<rparr>))
       \<and> (err \<noteq> AVERROR_EAGAIN L \<and> err \<noteq> AVERROR_EOF L \<and> err < 0 \<longrightarrow>
            filter_out L s = Some (- 1, s1))
       \<and> (err \<noteq> AVERROR_EAGAIN L \<and> err \<noteq> AVERROR_EOF L \<and> 0 \<le> err \<longrightarrow>
            (\<exists>s2 img. get_metadata_from_av_frame L s1 frame = Some s2
               \<and> av_to_mp L s2 frame = Some img
               \<and> trace s2 = trace s @ [Av_buffersink_get_frame (out_ctx p)]
               \<and> filter_out L s = Some (0, lib_call L (Vf_add_output_frame img) s2)))"
proof -
  have p1: "vf_priv s1 = Some (a, p)" and pa1: "priv_at s1 a = Some p"
    using assms(1,4) by (simp_all add: vf_priv_lib_call priv_at_lib_call vf_priv_Some)
  have privs1: "privs s1 = privs s"
    using assms(4) by (simp add: lib_call_simps)
  have A: "err = AVERROR_EAGAIN L \<or> err = AVERROR_EOF L \<Longrightarrow>
      filter_out L s =
        Some (0, s1\<lparr>privs := (privs s)[a := Lavfi_priv (p\<lparr>eof := (eof p \<or> err = AVERROR_EOF L)\<rparr>)]\<rparr>)"
    using assms modify_priv_eq [OF pa1] privs1
    by (simp add: filter_out_def Let_def)
  have B: "err \<noteq> AVERROR_EAGAIN L \<and> err \<noteq> AVERROR_EOF L \<and> err < 0 \<Longrightarrow> filter_out L s = Some (- 1, s1)"
    using assms by (simp add: filter_out_def Let_def)
  have C: "\<exists>s2 img. get_metadata_from_av_frame L s1 frame = Some s2
               \<and> av_to_mp L s2 frame = Some img
               \<and> trace s2 = trace s @ [Av_buffersink_get_frame (out_ctx p)]
               \<and> filter_out L s = Some (0, lib_call L (Vf_add_output_frame img) s2)"
    if h: "err \<noteq> AVERROR_EAGAIN L \<and> err \<noteq> AVERROR_EOF L \<and> 0 \<le> err"
  proof -
    obtain s2 where s2: "get_metadata_from_av_frame L s1 frame = Some s2"
      using get_metadata_eq [OF p1] by blast
    have p2: "\<exists>q. vf_priv s2 = Some (a, q)"
      using s2 get_metadata_eq [OF p1, of L frame] vf_priv_update [OF p1] p1
      by (auto split: if_splits)
    then obtain q img where img: "av_to_mp L s2 frame = Some img"
      using av_to_mp_returns by blast
    have tr: "trace s2 = trace s @ [Av_buffersink_get_frame (out_ctx p)]"
      using s2 get_metadata_eq [OF p1, of L frame] assms(4)
      by (auto simp: lib_call_simps split: if_splits)
    have "filter_out L s = Some (0, lib_call L (Vf_add_output_frame img) s2)"
      using assms h s2 img by (simp add: filter_out_def Let_def)
    with s2 img tr show ?thesis by blast
  qed
  from A B C show ?thesis by blast
qed

lemma have_filter_in_set: "have_filter_in fs name \<longleftrightarrow> name \<in> set fs"
  by (induction fs) auto

lemma priv_at_inst_update: "priv_at (s\<lparr>inst := v\<rparr>) a = priv_at s a"
  by (simp add: priv_at_def)

lemma sink_hw_frames_ctx_trace:
  "trace s = trace t \<Longrightarrow> sink_hw_frames_ctx L s out l = sink_hw_frames_ctx L t out l"
  by (simp add: sink_hw_frames_ctx_def)

lemma vf_priv_update_other:
  "vf_priv s = Some (a, p) \<Longrightarrow> inst t = inst s \<Longrightarrow>
   vf_priv (t\<lparr>privs := (privs s)[a := Lavfi_priv q]\<rparr>) = Some (a, q)"
  by (auto simp: vf_priv_def priv_at_def split: option.splits if_splits)

lemma reset_priv:
  assumes "reset L s = Some s1" and "vf_priv s = Some (a, p)"
  shows "\<exists>p1. vf_priv s1 = Some (a, p1)"
proof (cases "graph p \<noteq> None \<and> imgfmt (fmt_in (inst s)) \<noteq> 0")
  case True
  with assms obtain ok where "recreate_graph L s (fmt_in (inst s)) = Some (ok, s1)"
    by (auto simp: reset_eq)
  from recreate_graph_priv [OF this assms(2)] show ?thesis by blast
next
  case False
  with assms show ?thesis by (auto simp: reset_eq)
qed

lemma mp_to_av_returns:
  "vf_priv s = Some (a, p) \<Longrightarrow> \<exists>frame. mp_to_av L s mpi = Some frame"
  by (simp add: mp_to_av_def split: option.splits)

lemma filter_ext_cases:
  assumes "vf_priv s = Some (a, p)"
  shows "(graph p = None \<and> (mpi = None \<or> \<not> eof p) \<longrightarrow> filter_ext L s mpi = Some (- 1, s))
     \<and> (graph p \<noteq> None \<and> eof p \<longrightarrow> filter_ext L s None = Some (0, s))
     \<and> (graph p \<noteq> None \<and> \<not> eof p \<longrightarrow>
          filter_ext L s None =
            Some (if av_buffersrc_add_frame L (trace s) < 0 then - 1 else 0,
                  lib_call L (Av_buffersrc_add_frame (in_ctx p) None)
                    (s\<lparr>privs := (privs s)[a := Lavfi_priv (p\<lparr>eof := True\<rparr>)]\<rparr>)))
     \<and> (eof p \<and> reset L s = None \<longrightarrow> filter_ext L s (Some img) = None)
     \<and> (eof p \<and> reset L s = Some s1 \<longrightarrow>
          (\<exists>p1. vf_priv s1 = Some (a, p1)
             \<and> (graph p1 = None \<longrightarrow> filter_ext L s (Some img) = Some (- 1, s1))
             \<and> (graph p1 \<noteq> None \<longrightarrow>
                  (\<exists>frame. mp_to_av L s1 (Some img) = Some frame
                     \<and> filter_ext L s (Some img) =
                         Some (if av_buffersrc_add_frame L (trace s1) < 0 then - 1 else 0,
                               lib_call L (Av_buffersrc_add_frame (in_ctx p1) frame) s1)))))"
proof -
  have pa: "priv_at s a = Some p" using assms by (simp add: vf_priv_Some)
  have A: "graph p = None \<and> (mpi = None \<or> \<not> eof p) \<Longrightarrow> filter_ext L s mpi = Some (- 1, s)"
    using assms pa by (auto simp: filter_ext_def)
  have B: "graph p \<noteq> None \<and> eof p \<Longrightarrow> filter_ext L s None = Some (0, s)"
    using assms pa by (auto simp: filter_ext_def)
  have C: "filter_ext L s None =
            Some (if av_buffersrc_add_frame L (trace s) < 0 then - 1 else 0,
                  lib_call L (Av_buffersrc_add_frame (in_ctx p) None)
                    (s\<lparr>privs := (privs s)[a := Lavfi_priv (p\<lparr>eof := True\<rparr>)]\<rparr>))"
    if h: "graph p \<noteq> None \<and> \<not> eof p"
    using assms pa h
    by (auto simp: filter_ext_def modify_priv_eq priv_at_update mp_to_av_def Let_def)
  have D: "eof p \<and> reset L s = None \<Longrightarrow> filter_ext L s (Some img) = None"
    using assms by (simp add: filter_ext_def)
  have E: "\<exists>p1. vf_priv s1 = Some (a, p1)
             \<and> (graph p1 = None \<longrightarrow> filter_ext L s (Some img) = Some (- 1, s1))
             \<and> (graph p1 \<noteq> None \<longrightarrow>
                  (\<exists>frame. mp_to_av L s1 (Some img) = Some frame
                     \<and> filter_ext L s (Some img) =
                         Some (if av_buffersrc_add_frame L (trace s1) < 0 then - 1 else 0,
                               lib_call L (Av_buffersrc_add_frame (in_ctx p1) frame) s1)))"
    if h: "eof p \<and> reset L s = Some s1"
  proof -
    from h reset_priv [OF _ assms] obtain p1 where p1: "vf_priv s1 = Some (a, p1)" by blast
    then have pa1: "priv_at s1 a = Some p1" by (simp add: vf_priv_Some)
    from mp_to_av_returns [OF p1] obtain frame where fr: "mp_to_av L s1 (Some img) = Some frame"
      by blast
    have "graph p1 = None \<Longrightarrow> filter_ext L s (Some img) = Some (- 1, s1)"
      using assms h pa1 by (simp add: filter_ext_def)
    moreover have "graph p1 \<noteq> None \<Longrightarrow> filter_ext L s (Some img) =
        Some (if av_buffersrc_add_frame L (trace s1) < 0 then - 1 else 0,
              lib_call L (Av_buffersrc_add_frame (in_ctx p1) frame) s1)"
      using assms h pa1 fr by (auto simp: filter_ext_def Let_def)
    ultimately show ?thesis using p1 fr by (intro exI [of _ p1] conjI impI exI [of _ frame]) simp_all
  qed
  from A B C D E show ?thesis by (intro conjI impI) simp_all
qed

lemma filter_ext_priv:
  assumes "vf_priv s = Some (a, p)" and "filter_ext L s mpi = Some (r, s')"
  shows "\<exists>p'. vf_priv s' = Some (a, p')"
proof -
  have pa: "priv (inst s) = Some a" using assms(1) by (simp add: vf_priv_Some)
  from assms obtain s1 where s1: "(if eof p \<and> mpi \<noteq> None then reset L s else Some s) = Some s1"
    by (auto simp: filter_ext_def split: option.splits)
  have "\<exists>p1. vf_priv s1 = Some (a, p1)"
    using s1 assms(1) reset_priv [OF _ assms(1), of L s1] by (auto split: if_splits)
  then obtain p1 where p1: "vf_priv s1 = Some (a, p1)" by blast
  then have i1: "priv (inst s1) = Some a" by (simp add: vf_priv_Some)
  from assms s1 p1 i1 show ?thesis
    by (auto simp: filter_ext_def Let_def vf_priv_Some lib_call_simps priv_at_lib_call
          elim!: modify_privE split: option.splits if_splits)
qed

lemma filter_ext_calls_priv:
  "vf_priv s = Some (a, p) \<Longrightarrow> filter_ext_calls L s mpis = Some (rs, s') \<Longrightarrow>
   \<exists>p'. vf_priv s' = Some (a, p')"
proof (induction mpis arbitrary: s p rs)
  case Nil
  then show ?case by simp
next
  case (Cons mpi mpis)
  from Cons.prems(2) obtain r s1 rs' where
    st: "filter_ext L s mpi = Some (r, s1)" and rest: "filter_ext_calls L s1 mpis = Some (rs', s')"
    by (auto split: option.splits)
  from filter_ext_priv [OF Cons.prems(1) st] obtain p1 where "vf_priv s1 = Some (a, p1)" by blast
  from Cons.IH [OF this rest] show ?case .
qed

lemma lw_reconfig_priv:
  "lw_reconfig L s in_fmt = Some x \<Longrightarrow> \<exists>a. priv (inst s) = Some a"
  by (auto simp: lw_reconfig_def vf_priv_def split: option.splits)

lemma lw_reconfig_no_cb:
  "vf_priv s = Some (a, p) \<Longrightarrow> lw_reconfig_cb p = None \<Longrightarrow>
   lw_reconfig L s in_fmt = Some (0, s, in_fmt, in_fmt)"
  by (simp add: lw_reconfig_def)

lemma reconfig_success:
  assumes lw: "lw_reconfig L s in_fmt = Some (r_cb, s1, in1, out1)" and cb: "0 \<le> r_cb"
    and rg: "recreate_graph L s1 in1 = Some (True, s2)"
    and res: "reconfig L s in_fmt = Some (r, s', in', out')"
  shows "\<exists>a p2 out i l_out ls l_in ls'.
      priv (inst s) = Some a \<and> priv_at s2 a = Some p2
      \<and> out_ctx p2 = Some out \<and> in_ctx p2 = Some i
      \<and> inputs (filter_ctx L (trace s2) out) = l_out # ls
      \<and> outputs (filter_ctx L (trace s2) i) = l_in # ls'
      \<and> r = 0 \<and> in' = in1
      \<and> priv_at s' a =
            Some (p2\<lparr>timebase_in := link_time_base l_in, timebase_out := link_time_base l_out,
                     par_in := link_sample_aspect_ratio l_in\<rparr>)
      \<and> in_hwframes_ref (inst s') = in_hwframes_ref (inst s2)
      \<and> (case sink_hw_frames_ctx L (lib_call L (Av_buffer_unref (out_hwframes_ref (inst s2))) s2)
                 out l_out of
            None \<Rightarrow>
              out' = out1\<lparr>w := link_w l_out, h := link_h l_out,
                           p_w := num (link_sample_aspect_ratio l_out),
                           p_h := den (link_sample_aspect_ratio l_out),
                           imgfmt := pixfmt2imgfmt L (link_format l_out)\<rparr>
              \<and> out_hwframes_ref (inst s') = None
              \<and> trace s' = trace s2 @ [Av_buffer_unref (out_hwframes_ref (inst s2))]
          | Some hw \<Rightarrow>
              (\<exists>fctx. hw_effect L (Av_buffer_unref (out_hwframes_ref (inst s2))) (hw_mem s2) (data hw)
                        = Some fctx
                 \<and> out' = out1\<lparr>w := link_w l_out, h := link_h l_out,
                           p_w := num (link_sample_aspect_ratio l_out),
                           p_h := den (link_sample_aspect_ratio l_out),
                           imgfmt := pixfmt2imgfmt L (link_format l_out),
                           hw_subfmt := pixfmt2imgfmt L (sw_format fctx)\<rparr>)
              \<and> out_hwframes_ref (inst s') =
                    av_buffer_ref L (trace s2 @ [Av_buffer_unref (out_hwframes_ref (inst s2))]) hw
              \<and> trace s' = trace s2 @ [Av_buffer_unref (out_hwframes_ref (inst s2)), Av_buffer_ref hw])"
proof -
  from lw_reconfig_priv [OF lw] obtain a where a: "priv (inst s) = Some a" by blast
  let ?f = "\<lambda>l_in l_out q. q\<lparr>timebase_in := link_time_base l_in, timebase_out := link_time_base l_out,
                     par_in := link_sample_aspect_ratio l_in\<rparr>"
  let ?o2 = "\<lambda>l_out. out1\<lparr>w := link_w l_out, h := link_h l_out,
                           p_w := num (link_sample_aspect_ratio l_out),
                           p_h := den (link_sample_aspect_ratio l_out),
                           imgfmt := pixfmt2imgfmt L (link_format l_out)\<rparr>"
  let ?s5 = "\<lambda>s3. (lib_call L (Av_buffer_unref (out_hwframes_ref (inst s3))) s3)
                  \<lparr>inst := (inst (lib_call L (Av_buffer_unref (out_hwframes_ref (inst s3))) s3))
                              \<lparr>out_hwframes_ref := None\<rparr>\<rparr>"
  from res a lw cb rg obtain p2 out i l_out ls l_in ls' s3 where
    st: "priv_at s2 a = Some p2" "out_ctx p2 = Some out" "in_ctx p2 = Some i"
        "inputs (filter_ctx L (trace s2) out) = l_out # ls"
        "outputs (filter_ctx L (trace s2) i) = l_in # ls'"
        "modify_priv a (?f l_in l_out) s2 = Some s3"
    and tail: "(case sink_hw_frames_ctx L (?s5 s3) out l_out of
                  None \<Rightarrow> Some (0, ?s5 s3, in1, ?o2 l_out)
                | Some hw \<Rightarrow>
                    (case hw_mem (?s5 s3) (data hw) of
                       None \<Rightarrow> None
                     | Some fctx \<Rightarrow>
                         Some (0, (lib_call L (Av_buffer_ref hw) (?s5 s3))
                                    \<lparr>inst := (inst (lib_call L (Av_buffer_ref hw) (?s5 s3)))
                                       \<lparr>out_hwframes_ref := av_buffer_ref L (trace (?s5 s3)) hw\<rparr>\<rparr>,
                               in1, (?o2 l_out)\<lparr>hw_subfmt := pixfmt2imgfmt L (sw_format fctx)\<rparr>)))
               = Some (r, s', in', out')"
    by (auto simp: reconfig_def Let_def split: option.splits list.splits)
  from st(6) st(1) have s3: "inst s3 = inst s2" "trace s3 = trace s2" "hw_mem s3 = hw_mem s2"
      "priv_at s3 a = Some (?f l_in l_out p2)"
    by (auto elim!: modify_privE)
  have sink: "sink_hw_frames_ctx L (?s5 s3) out l_out
       = sink_hw_frames_ctx L (lib_call L (Av_buffer_unref (out_hwframes_ref (inst s2))) s2) out l_out"
    by (rule sink_hw_frames_ctx_trace) (simp add: lib_call_simps s3)
  show ?thesis
  proof (cases "sink_hw_frames_ctx L (lib_call L (Av_buffer_unref (out_hwframes_ref (inst s2))) s2) out l_out")
    case None
    with tail sink have "r = 0" "s' = ?s5 s3" "in' = in1" "out' = ?o2 l_out" by simp_all
    with None a st s3 show ?thesis
      by (intro exI [of _ a] exI [of _ p2] exI [of _ out] exI [of _ i] exI [of _ l_out]
            exI [of _ ls] exI [of _ l_in] exI [of _ ls'])
         (simp add: lib_call_simps priv_at_inst_update priv_at_lib_call)
  next
    case (Some hw)
    with tail sink obtain fctx where
      f: "hw_mem (?s5 s3) (data hw) = Some fctx"
      and r: "r = 0" "in' = in1" "out' = (?o2 l_out)\<lparr>hw_subfmt := pixfmt2imgfmt L (sw_format fctx)\<rparr>"
         "s' = (lib_call L (Av_buffer_ref hw) (?s5 s3))
                                    \<lparr>inst := (inst (lib_call L (Av_buffer_ref hw) (?s5 s3)))
                                       \<lparr>out_hwframes_ref := av_buffer_ref L (trace (?s5 s3)) hw\<rparr>\<rparr>"
      by (auto split: option.splits)
    from f s3 have f': "hw_effect L (Av_buffer_unref (out_hwframes_ref (inst s2))) (hw_mem s2) (data hw) = Some fctx"
      by (simp add: lib_call_simps)
    from Some a st s3 r f' show ?thesis
      by (intro exI [of _ a] exI [of _ p2] exI [of _ out] exI [of _ i] exI [of _ l_out]
            exI [of _ ls] exI [of _ l_in] exI [of _ ls'])
         (simp add: lib_call_simps priv_at_inst_update priv_at_lib_call)
  qed
qed

lemma length_one_Cons: "length xs = 1 \<Longrightarrow> \<exists>x. xs = [x]"
  by (cases xs) auto

lemma reconfig_returns:
  assumes lw: "lw_reconfig L s in_fmt = Some (r_cb, s1, in1, out1)" and cb: "0 \<le> r_cb"
    and rg: "recreate_graph L s1 in1 = Some (True, s2)"
    and same: "priv (inst s1) = priv (inst s)"
    and mem: "\<forall>out l hw.
        sink_hw_frames_ctx L (lib_call L (Av_buffer_unref (out_hwframes_ref (inst s2))) s2) out l = Some hw
        \<longrightarrow> hw_effect L (Av_buffer_unref (out_hwframes_ref (inst s2))) (hw_mem s2) (data hw) \<noteq> None"
  shows "\<exists>s' out'. reconfig L s in_fmt = Some (0, s', in1, out')"
proof -
  from lw_reconfig_priv [OF lw] obtain a where a: "priv (inst s) = Some a" by blast
  from rg obtain a1 p1 where v1: "vf_priv s1 = Some (a1, p1)"
    by (auto simp: recreate_graph_def split: option.splits)
  with same a have a1: "a1 = a" by (simp add: vf_priv_Some)
  from recreate_graph_priv [OF rg v1] a1 obtain p2 i out where
    p2: "vf_priv s2 = Some (a, p2)" "in_ctx p2 = Some i" "out_ctx p2 = Some out"
        "length (inputs (filter_ctx L (trace s2) out)) = 1"
        "length (outputs (filter_ctx L (trace s2) i)) = 1"
    by (cases "bstr0_len (cfg_graph p1) = 0") auto
  from p2(1) have pa2: "priv_at s2 a = Some p2" by (simp add: vf_priv_Some)
  from length_one_Cons [OF p2(4)] obtain l_out where lo: "inputs (filter_ctx L (trace s2) out) = [l_out]"
    by blast
  from length_one_Cons [OF p2(5)] obtain l_in where li: "outputs (filter_ctx L (trace s2) i) = [l_in]"
    by blast
  let ?u = "Av_buffer_unref (out_hwframes_ref (inst s2))"
  have sink: "sink_hw_frames_ctx L
       (lib_call L ?u (s2\<lparr>privs := X\<rparr>)\<lparr>inst := Y\<rparr>) out l_out
     = sink_hw_frames_ctx L (lib_call L ?u s2) out l_out" for X Y
    by (rule sink_hw_frames_ctx_trace) (simp add: lib_call_simps)
  show ?thesis
  proof (cases "sink_hw_frames_ctx L (lib_call L ?u s2) out l_out")
    case None
    with a lw cb rg pa2 p2 lo li sink show ?thesis
      by (simp add: reconfig_def modify_priv_eq Let_def)
  next
    case (Some hw)
    with mem obtain fctx where
      "hw_effect L ?u (hw_mem s2) (data hw) = Some fctx" by blast
    with Some a lw cb rg pa2 p2 lo li sink show ?thesis
      by (simp add: reconfig_def modify_priv_eq Let_def lib_call_simps)
  qed
qed

lemma reconfig_early:
  assumes lw: "lw_reconfig L s in_fmt = Some (r_cb, s1, in1, out1)"
  shows "r_cb < 0 \<Longrightarrow> reconfig L s in_fmt = Some (- 1, s1, in1, out1)"
    and "0 \<le> r_cb \<Longrightarrow> recreate_graph L s1 in1 = Some (False, s2) \<Longrightarrow>
         reconfig L s in_fmt = Some (- 1, s2, in1, out1)"
proof -
  from lw_reconfig_priv [OF lw] obtain a where a: "priv (inst s) = Some a" by blast
  show "r_cb < 0 \<Longrightarrow> reconfig L s in_fmt = Some (- 1, s1, in1, out1)"
    using a lw by (simp add: reconfig_def)
  show "0 \<le> r_cb \<Longrightarrow> recreate_graph L s1 in1 = Some (False, s2) \<Longrightarrow>
         reconfig L s in_fmt = Some (- 1, s2, in1, out1)"
    using a lw by (simp add: reconfig_def)
qed

lemma reconfig_zero:
  assumes lw: "lw_reconfig L s in_fmt = Some (r_cb, s1, in1, out1)"
    and res: "reconfig L s in_fmt = Some (0, s', in', out')"
  shows "0 \<le> r_cb \<and> (\<exists>s2. recreate_graph L s1 in1 = Some (True, s2))"
proof -
  from lw_reconfig_priv [OF lw] obtain a where a: "priv (inst s) = Some a" by blast
  from res a lw show ?thesis
    by (auto simp: reconfig_def split: option.splits if_splits)
qed

lemma modify_priv_hw_only_by_calls:
  "modify_priv a f t = Some u \<Longrightarrow> hw_only_by_calls L s t \<Longrightarrow> hw_only_by_calls L s u"
  by (auto simp: hw_only_by_calls_def elim!: modify_privE)

lemma destroy_graph_hw_only_by_calls:
  "destroy_graph L s = Some u \<Longrightarrow> hw_only_by_calls L s u"
  by (auto simp: destroy_graph_def split: option.splits
        intro: modify_priv_hw_only_by_calls hw_only_by_calls_lib_call hw_only_by_calls_refl)

lemma reset_hw_only_by_calls:
  "reset L s = Some u \<Longrightarrow> hw_only_by_calls L s u"
  by (auto simp: reset_def hw_only_by_calls_refl dest: recreate_graph_hw_only_by_calls
        split: option.splits if_splits)

lemma reconfig_hw_only_by_calls:
  assumes lw: "lw_reconfig L s in_fmt = Some (r_cb, t1, in1, out1)"
    and res: "reconfig L s in_fmt = Some (r, u, in', out')"
  shows "hw_only_by_calls L t1 u"
proof (cases "r_cb < 0")
  case True
  with res lw show ?thesis
    by (auto simp: reconfig_def hw_only_by_calls_refl split: option.splits)
next
  case False
  with res lw obtain ok t2 where rg: "recreate_graph L t1 in1 = Some (ok, t2)"
    by (auto simp: reconfig_def split: option.splits)
  from hw_only_by_callsD [OF recreate_graph_hw_only_by_calls [OF rg]] obtain cs where
    cs: "trace t2 = trace t1 @ cs" "hw_mem t2 = fold (hw_effect L) cs (hw_mem t1)"
    by blast
  from res lw rg False cs show ?thesis
    by (auto simp: reconfig_def Let_def lib_call_simps hw_only_by_calls_def
          elim!: modify_privE split: option.splits list.splits if_splits)
qed

lemma filter_ext_hw_only_by_calls:
  assumes "filter_ext L s mpi = Some (r, u)"
  shows "hw_only_by_calls L s u"
proof -
  from assms obtain a p s1 where ap: "vf_priv s = Some (a, p)"
    and s1: "(if eof p \<and> mpi \<noteq> None then reset L s else Some s) = Some s1"
    by (auto simp: filter_ext_def split: option.splits)
  have "hw_only_by_calls L s s1"
    using s1 by (auto simp: hw_only_by_calls_refl dest: reset_hw_only_by_calls split: if_splits)
  from hw_only_by_callsD [OF this] obtain cs where
    cs: "trace s1 = trace s @ cs" "hw_mem s1 = fold (hw_effect L) cs (hw_mem s)"
    by blast
  from assms ap s1 cs show ?thesis
    by (auto simp: filter_ext_def Let_def lib_call_simps hw_only_by_calls_def
          elim!: modify_privE split: option.splits if_splits)
qed

lemma filter_out_hw_only_by_calls:
  assumes "filter_out L s = Some (r, u)"
  shows "hw_only_by_calls L s u"
  using assms
  by (auto simp: filter_out_def Let_def lib_call_simps hw_only_by_calls_def
        get_metadata_from_av_frame_def
        elim!: modify_privE split: option.splits if_splits)

lemma control_hw_only_by_calls:
  assumes "control L s request args = Some (r, u, tags)"
  shows "hw_only_by_calls L s u"
  using assms
  by (cases request)
     (auto simp: control_def hw_only_by_calls_refl
        intro!: hw_only_by_calls_lib_call [OF hw_only_by_calls_refl]
        dest: reset_hw_only_by_calls split: option.splits if_splits)

lemma uninit_hw_only_by_calls:
  "uninit L s = Some u \<Longrightarrow> hw_only_by_calls L s u"
  by (auto simp: uninit_def hw_only_by_calls_refl dest: destroy_graph_hw_only_by_calls
        split: option.splits)

lemma vf_lw_set_graph_hw_only_by_calls:
  "vf_lw_set_graph L s lavfi_opts filter_name str = Some (r, u) \<Longrightarrow> hw_only_by_calls L s u"
  by (auto simp: vf_lw_set_graph_def Let_def vf_open_def hw_only_by_calls_def split: if_splits)

lemma vf_lw_update_graph_hw_only_by_calls:
  "vf_lw_update_graph s filter_name str = Some u \<Longrightarrow> hw_only_by_calls L s u"
  by (auto simp: vf_lw_update_graph_def hw_only_by_calls_def elim!: modify_privE
        split: option.splits)

lemma vf_lw_set_reconfig_cb_hw_only_by_calls:
  "vf_lw_set_reconfig_cb s cb = Some u \<Longrightarrow> hw_only_by_calls L s u"
  by (auto simp: vf_lw_set_reconfig_cb_def hw_only_by_calls_def elim!: modify_privE
        split: option.splits)

subsection \<open>Runs of the example engines\<close>

lemmas ex_eval =
  recreate_graph_def destroy_graph_def vf_priv_def priv_at_def modify_priv_def
  lib_call_def graph_error_def bstr0_len_def nb_inputs_def nb_outputs_def Let_def
  ex_defs SWS_BICUBIC_def AV_TIME_BASE_Q_def ex_calls_def ex_lavfi_cb_def ex_lavfi_hw_def
  ex_hw_mem_def reconfig_def lw_reconfig_def sink_hw_frames_ctx_def reset_def
  filter_ext_def filter_out_def mp_to_av_def av_to_mp_def get_metadata_from_av_frame_def
  MP_NOPTS_VALUE_def AV_NOPTS_VALUE_def uint64_of_double_def double_to_uint64_def

lemma ex_recreate_eof:
  "recreate_graph ex_lavfi (ex_world_of (ex_priv_graph\<lparr>eof := True\<rparr>)) ex_params =
     Some (True, ex_world_of ex_priv_graph\<lparr>trace := ex_calls (Some 1)\<rparr>)"
  by (simp add: ex_eval)

lemma ex_recreate_first:
  "recreate_graph ex_lavfi (ex_world_of ex_priv) ex_params =
     Some (True, ex_world_of ex_priv_graph\<lparr>trace := ex_calls None\<rparr>)"
  by (simp add: ex_eval)

lemma ex_recreate_no_config:
  "recreate_graph ex_lavfi_no_config (ex_world_of ex_priv) ex_params =
     Some (False, ex_world_of ex_priv\<lparr>trace := ex_calls None @ [Avfilter_graph_free (Some 1)]\<rparr>)"
  by (simp add: ex_eval ex_lavfi_no_config_def)

lemma ex_recreate_hw:
  "recreate_graph ex_lavfi_hw (ex_world_of ex_priv\<lparr>hw_mem := ex_hw_mem\<rparr>) ex_params =
     Some (True, ex_world_of ex_priv_graph\<lparr>hw_mem := ex_hw_mem, trace := ex_calls None\<rparr>)"
  by (simp add: ex_eval)

lemma ex_lw_reconfig:
  "lw_reconfig ex_lavfi (ex_world_of ex_priv) ex_params =
     Some (0, ex_world_of ex_priv, ex_params, ex_params)"
  "lw_reconfig ex_lavfi (ex_world_of vf_priv_dflt) ex_params =
     Some (0, ex_world_of vf_priv_dflt, ex_params, ex_params)"
  "lw_reconfig ex_lavfi_no_config (ex_world_of ex_priv) ex_params =
     Some (0, ex_world_of ex_priv, ex_params, ex_params)"
  "lw_reconfig ex_lavfi_cb_fails (ex_world_of (ex_priv\<lparr>lw_reconfig_cb := Some 8\<rparr>)) ex_params =
     Some (- 1, ex_world_of (ex_priv\<lparr>lw_reconfig_cb := Some 8\<rparr>), ex_params, ex_params)"
  "lw_reconfig ex_lavfi_cb (ex_world_of (ex_priv\<lparr>lw_reconfig_cb := Some 8\<rparr>)) ex_params =
     Some (0, ex_world_of (ex_priv\<lparr>lw_reconfig_cb := Some 8\<rparr>), ex_params, ex_params\<lparr>rest := 0\<rparr>)"
  "lw_reconfig ex_lavfi_hw (ex_world_of ex_priv\<lparr>hw_mem := ex_hw_mem\<rparr>) ex_params =
     Some (0, ex_world_of ex_priv\<lparr>hw_mem := ex_hw_mem\<rparr>, ex_params, ex_params)"
  by (simp_all add: lw_reconfig_def vf_priv_def priv_at_def ex_world_of_def ex_inst_def ex_priv_def
        vf_priv_dflt_def ex_lavfi_cb_fails_def ex_lavfi_cb_def ex_lavfi_def)

lemma ex_reconfig:
  "reconfig ex_lavfi (ex_world_of ex_priv) ex_params =
     Some (0,
           ex_world_of (ex_priv_graph\<lparr>timebase_in := \<lparr>num = 1, den = 25\<rparr>,
                                      timebase_out := \<lparr>num = 1, den = 25\<rparr>,
                                      par_in := \<lparr>num = 4, den = 3\<rparr>\<rparr>)
             \<lparr>trace := ex_calls None @ [Av_buffer_unref None]\<rparr>,
           ex_params,
           \<lparr>imgfmt = 1, hw_subfmt = 0, w = 640, h = 480, p_w = 4, p_h = 3, rest = 7\<rparr>)"
  by (simp add: ex_eval)

lemma ex_reconfig_cb:
  "reconfig ex_lavfi_cb (ex_world_of (ex_priv\<lparr>lw_reconfig_cb := Some 8\<rparr>)) ex_params =
     Some (0,
           ex_world_of (ex_priv_graph\<lparr>lw_reconfig_cb := Some 8,
                                      timebase_in := \<lparr>num = 1, den = 25\<rparr>,
                                      timebase_out := \<lparr>num = 1, den = 25\<rparr>,
                                      par_in := \<lparr>num = 4, den = 3\<rparr>\<rparr>)
             \<lparr>trace := ex_calls None @ [Av_buffer_unref None]\<rparr>,
           ex_params,
           \<lparr>imgfmt = 1, hw_subfmt = 0, w = 640, h = 480, p_w = 4, p_h = 3, rest = 0\<rparr>)"
  by (simp add: ex_eval)

lemma ex_reconfig_hw:
  "reconfig ex_lavfi_hw (ex_world_of ex_priv\<lparr>hw_mem := ex_hw_mem\<rparr>) ex_params =
     Some (0,
           ex_world_of (ex_priv_graph\<lparr>timebase_in := \<lparr>num = 1, den = 25\<rparr>,
                                      timebase_out := \<lparr>num = 1, den = 25\<rparr>,
                                      par_in := \<lparr>num = 4, den = 3\<rparr>\<rparr>)
             \<lparr>inst := ex_inst\<lparr>out_hwframes_ref := Some \<lparr>buffer = 11, data = 12\<rparr>\<rparr>,
              hw_mem := ex_hw_mem,
              trace := ex_calls None @ [Av_buffer_unref None, Av_buffer_ref \<lparr>buffer = 11, data = 12\<rparr>]\<rparr>,
           ex_params,
           \<lparr>imgfmt = 1, hw_subfmt = 2, w = 640, h = 480, p_w = 4, p_h = 3, rest = 7\<rparr>)"
  by (simp add: ex_eval)

lemma ex_filter_ext_eof:
  "filter_ext ex_lavfi (ex_world_of (ex_priv_graph\<lparr>eof := True\<rparr>)) (Some \<lparr>pts = 0, planes = 9\<rparr>) =
     Some (0, ex_world_of ex_priv_graph
               \<lparr>trace := ex_calls (Some 1) @
                   [Av_buffersrc_add_frame (Some 3)
                      (Some \<lparr>frame_pts = 0, frame_sample_aspect_ratio = \<lparr>num = 0, den = 0\<rparr>,
                             frame_metadata = [], frame_buf = 9\<rparr>)]\<rparr>)"
  by (simp add: ex_eval)

lemma ex_crash:
  "reset ex_lavfi_two_inputs (ex_world_of (ex_priv_graph\<lparr>eof := True\<rparr>)) = None"
  by (simp add: ex_eval ex_lavfi_two_inputs_def)

lemma ex_calls_run:
  "filter_ext_calls ex_lavfi (ex_world_of ex_priv_graph) [None, None, Some \<lparr>pts = 0, planes = 9\<rparr>] =
     Some ([0, 0, 0],
           ex_world_of ex_priv_graph
             \<lparr>trace := Av_buffersrc_add_frame (Some 3) None # ex_calls (Some 1) @
                 [Av_buffersrc_add_frame (Some 3)
                    (Some \<lparr>frame_pts = 0, frame_sample_aspect_ratio = \<lparr>num = 0, den = 0\<rparr>,
                           frame_metadata = [], frame_buf = 9\<rparr>)]\<rparr>)"
  by (simp add: ex_eval)

lemma ex_uninit_frees:
  "uninit ex_lavfi_frees (ex_world_of ex_priv_graph\<lparr>hw_mem := m\<rparr>) =
     Some (ex_world_of ex_priv\<lparr>hw_mem := m(12 := None),
                               trace := [Avfilter_graph_free (Some 1)]\<rparr>)"
  by (simp add: uninit_def ex_lavfi_frees_def destroy_graph_def vf_priv_def priv_at_def
        modify_priv_def lib_call_def ex_defs)

lemma ex_recreate:
  "recreate_graph ex_lavfi (ex_world_of ex_priv_graph) ex_params =
     Some (True, ex_world_of ex_priv_graph\<lparr>trace := ex_calls (Some 1)\<rparr>)"
  by (simp add: ex_eval)

subsection \<open>query\_format\<close>

text \<open>
  C9. For every image format value, \<open>query_format\<close> returns 1: the adapter accepts every
  input format, whatever the state of the filter, and negotiates nothing.
\<close>

theorem query_format_accepts_every_format: "query_format s fmt = 1"
  by (simp add: query_format_def)

subsection \<open>Timestamps and aspect ratio\<close>

lemma double_of_int64_nopts: "double_of_int64 L AV_NOPTS_VALUE = MP_NOPTS_VALUE"
  by (simp add: double_of_int64_def AV_NOPTS_VALUE_def MP_NOPTS_VALUE_def Let_def bit_count.simps)

lemma double_to_uint64_nopts: "double_to_uint64 MP_NOPTS_VALUE = None"
  by (simp add: double_to_uint64_def MP_NOPTS_VALUE_def Let_def)

text \<open>
  What \<open>mp_to_av\<close> and \<open>av_to_mp\<close> store, for an image or frame that converts. The stored
  input pixel aspect ratio becomes the frame's \<open>sample_aspect_ratio\<close>. A timestamp other
  than \<open>MP_NOPTS_VALUE\<close> is multiplied by the reciprocal of the stored input time base and
  converted to \<open>uint64_t\<close>, which is the truncated product when that is above -1 and below
  \<open>2^64\<close>. In \<open>av_to_mp\<close> the frame's \<open>AV_NOPTS_VALUE\<close> gives exactly \<open>MP_NOPTS_VALUE\<close>,
  and any other \<open>pts\<close> is converted to \<open>double\<close> and multiplied by the stored output time
  base. The product of two \<open>double\<close>s and \<open>av_q2d\<close> are the parameters \<open>double_mul\<close> and
  \<open>av_q2d\<close>.
\<close>

lemma mp_to_av_frame:
  assumes "vf_priv s = Some (a, p)" and "mp_image_to_av_frame_and_unref L im = Some frame"
  shows "mp_to_av L s (Some im) =
     Some (Some (frame
       \<lparr>frame_pts :=
          (if pts im = MP_NOPTS_VALUE then uint64_out_of_range_const L MP_NOPTS_VALUE
           else uint64_of_double (uint64_out_of_range L)
                  (double_mul L (pts im) (av_q2d L (av_inv_q L (timebase_in p))))),
        frame_sample_aspect_ratio := par_in p\<rparr>))"
  using assms
  by (simp add: mp_to_av_def uint64_of_double_def double_of_int64_nopts double_to_uint64_nopts)

lemma av_to_mp_image:
  assumes "vf_priv s = Some (a, p)" and "mp_image_from_av_frame L av_frame = Some img"
  shows "av_to_mp L s av_frame =
     Some (Some (img
       \<lparr>pts :=
          (if frame_pts av_frame = AV_NOPTS_VALUE then MP_NOPTS_VALUE
           else double_mul L (double_of_int64 L (frame_pts av_frame)) (av_q2d L (timebase_out p)))\<rparr>))"
  using assms by (simp add: av_to_mp_def)

text \<open>
  C2, at an image without a timestamp. The conditional of \<open>mp_to_av\<close> has type \<open>double\<close>:
  \<open>AV_NOPTS_VALUE\<close> is converted to the \<open>double\<close> \<open>-0x1p+63\<close>, which has the bits of
  \<open>MP_NOPTS_VALUE\<close>, and that \<open>double\<close> is converted to \<open>uint64_t\<close>, of which it is no
  value: the conversion is undefined. The frame's \<open>pts\<close> is what that conversion leaves
  in the variable, and not \<open>AV_NOPTS_VALUE\<close> by anything the code does. The sample aspect
  ratio is the stored one.
\<close>

theorem mp_to_av_nopts_out_of_range:
  assumes "vf_priv s = Some (a, p)"
    and "mp_image_to_av_frame_and_unref L im = Some frame"
    and "pts im = MP_NOPTS_VALUE"
  shows "double_of_int64 L AV_NOPTS_VALUE = MP_NOPTS_VALUE
     \<and> double_to_uint64 (double_of_int64 L AV_NOPTS_VALUE) = None
     \<and> mp_to_av L s (Some im) =
         Some (Some (frame\<lparr>frame_pts := uint64_out_of_range_const L MP_NOPTS_VALUE,
                           frame_sample_aspect_ratio := par_in p\<rparr>))"
  using assms
  by (simp add: mp_to_av_def uint64_of_double_def double_of_int64_nopts double_to_uint64_nopts)

text \<open>
  On \<open>ex_lavfi\<close>, where an undefined conversion leaves 0: the frame made from an image
  without a timestamp has the \<open>pts\<close> 0, which is a timestamp.
\<close>

theorem mp_to_av_nopts_out_of_range_witness:
  "mp_to_av ex_lavfi (ex_world_of ex_priv_graph) (Some \<lparr>pts = MP_NOPTS_VALUE, planes = 9\<rparr>) =
     Some (Some \<lparr>frame_pts = 0, frame_sample_aspect_ratio = \<lparr>num = 0, den = 0\<rparr>,
                  frame_metadata = [], frame_buf = 9\<rparr>)
   \<and> AV_NOPTS_VALUE \<noteq> 0
   \<and> double_to_uint64 (double_of_int64 ex_lavfi AV_NOPTS_VALUE) = None"
proof -
  note a = mp_to_av_nopts_out_of_range [OF ex_vf_priv, where L = ex_lavfi and p = ex_priv_graph
      and im = "\<lparr>pts = MP_NOPTS_VALUE, planes = 9\<rparr>"
      and frame = "\<lparr>frame_pts = 0, frame_sample_aspect_ratio = \<lparr>num = 0, den = 1\<rparr>,
                    frame_metadata = [], frame_buf = 9\<rparr>"]
  have 1: "mp_to_av ex_lavfi (ex_world_of ex_priv_graph) (Some \<lparr>pts = MP_NOPTS_VALUE, planes = 9\<rparr>) =
     Some (Some \<lparr>frame_pts = 0, frame_sample_aspect_ratio = \<lparr>num = 0, den = 0\<rparr>,
                  frame_metadata = [], frame_buf = 9\<rparr>)"
    using a [THEN conjunct2, THEN conjunct2] by (simp add: ex_defs)
  have 2: "AV_NOPTS_VALUE \<noteq> 0" by (simp add: AV_NOPTS_VALUE_def)
  have 3: "double_to_uint64 (double_of_int64 ex_lavfi AV_NOPTS_VALUE) = None"
    using a [THEN conjunct2, THEN conjunct1] by (simp add: ex_lavfi_def)
  from 1 2 3 show ?thesis by (intro conjI)
qed

subsection \<open>filter\_ext and the EOF flag\<close>

text \<open>
  C1, as amended. \<open>filter_ext\<close> without a filter graph returns -1 and does nothing: it
  neither sets the EOF flag nor calls the engine. With a graph: called with a \<open>NULL\<close>
  image while the EOF flag is set, it returns 0 and the state, trace included, is unchanged;
  called with a \<open>NULL\<close> image while the EOF flag is not set, it sets the flag and passes a
  \<open>NULL\<close> frame to \<open>av_buffersrc_add_frame\<close> on the source, which is its only call, and
  returns -1 or 0 by the answer. Called with an image while the EOF flag is set, it runs
  \<open>reset\<close> first, which is \<open>recreate_graph\<close> on \<open>vf->fmt_in\<close> when a graph exists and the
  input image format is set and nothing otherwise; then, if there is no graph, it returns
  -1, and if there is one, it passes the converted frame to the source. \<open>filter_out\<close> sets
  the EOF flag whenever the sink answers \<open>AVERROR_EOF\<close>. After every sequence of
  \<open>filter_ext\<close> calls that returns, \<open>vf->priv\<close> still holds private data at the same
  address, so that all of this holds of each call of the sequence.
\<close>

theorem filter_ext_eof_protocol:
  assumes "vf_priv s = Some (a, p)"
  shows "(graph p = None \<and> (mpi = None \<or> \<not> eof p) \<longrightarrow> filter_ext L s mpi = Some (- 1, s))
     \<and> (graph p \<noteq> None \<and> eof p \<longrightarrow> filter_ext L s None = Some (0, s))
     \<and> (graph p \<noteq> None \<and> \<not> eof p \<longrightarrow>
          filter_ext L s None =
            Some (if av_buffersrc_add_frame L (trace s) < 0 then - 1 else 0,
                  lib_call L (Av_buffersrc_add_frame (in_ctx p) None)
                    (s\<lparr>privs := (privs s)[a := Lavfi_priv (p\<lparr>eof := True\<rparr>)]\<rparr>)))
     \<and> (eof p \<and> reset L s = None \<longrightarrow> filter_ext L s (Some img) = None)
     \<and> (eof p \<and> reset L s = Some s1 \<longrightarrow>
          (\<exists>p1. vf_priv s1 = Some (a, p1)
             \<and> (graph p1 = None \<longrightarrow> filter_ext L s (Some img) = Some (- 1, s1))
             \<and> (graph p1 \<noteq> None \<longrightarrow>
                  (\<exists>frame. mp_to_av L s1 (Some img) = Some frame
                     \<and> filter_ext L s (Some img) =
                         Some (if av_buffersrc_add_frame L (trace s1) < 0 then - 1 else 0,
                               lib_call L (Av_buffersrc_add_frame (in_ctx p1) frame) s1)))))
     \<and> reset L s =
          (if graph p \<noteq> None \<and> imgfmt (fmt_in (inst s)) \<noteq> 0
           then map_option snd (recreate_graph L s (fmt_in (inst s))) else Some s)
     \<and> (fst (av_buffersink_get_frame L (trace s)) = AVERROR_EOF L \<longrightarrow>
          (\<exists>s'. filter_out L s = Some (0, s') \<and> vf_priv s' = Some (a, p\<lparr>eof := True\<rparr>)))
     \<and> (\<forall>rs s'. filter_ext_calls L s mpis = Some (rs, s') \<longrightarrow>
          (\<exists>p'. vf_priv s' = Some (a, p')))"
proof -
  have G: "\<forall>rs s'. filter_ext_calls L s mpis = Some (rs, s') \<longrightarrow>
          (\<exists>p'. vf_priv s' = Some (a, p'))"
    using filter_ext_calls_priv [OF assms] by blast
  have F: "\<exists>s'. filter_out L s = Some (0, s') \<and> vf_priv s' = Some (a, p\<lparr>eof := True\<rparr>)"
    if h: "fst (av_buffersink_get_frame L (trace s)) = AVERROR_EOF L"
  proof -
    let ?s1 = "lib_call L (Av_buffersink_get_frame (out_ctx p)) s"
    from filter_out_cases [OF assms refl refl refl, of L] h
    have "filter_out L s = Some (0, ?s1\<lparr>privs := (privs s)[a := Lavfi_priv (p\<lparr>eof := True\<rparr>)]\<rparr>)"
      by simp
    moreover have "vf_priv (?s1\<lparr>privs := (privs s)[a := Lavfi_priv (p\<lparr>eof := True\<rparr>)]\<rparr>)
        = Some (a, p\<lparr>eof := True\<rparr>)"
      by (rule vf_priv_update_other [OF assms]) (simp add: lib_call_simps)
    ultimately show ?thesis by blast
  qed
  from filter_ext_cases [OF assms, of mpi L img s1] reset_eq [OF assms, of L] F G
  show ?thesis by (intro conjI impI) simp_all
qed

theorem filter_ext_eof_protocol_witness:
  "filter_ext ex_lavfi (ex_world_of ex_priv) None = Some (- 1, ex_world_of ex_priv)
   \<and> filter_ext ex_lavfi (ex_world_of (ex_priv_graph\<lparr>eof := True\<rparr>)) None =
       Some (0, ex_world_of (ex_priv_graph\<lparr>eof := True\<rparr>))
   \<and> filter_ext ex_lavfi (ex_world_of ex_priv_graph) None =
       Some (0, ex_world_of (ex_priv_graph\<lparr>eof := True\<rparr>)
                  \<lparr>trace := [Av_buffersrc_add_frame (Some 3) None]\<rparr>)
   \<and> filter_ext ex_lavfi (ex_world_of (ex_priv_graph\<lparr>eof := True\<rparr>)) (Some \<lparr>pts = 0, planes = 9\<rparr>) =
       Some (0, ex_world_of ex_priv_graph
               \<lparr>trace := ex_calls (Some 1) @
                   [Av_buffersrc_add_frame (Some 3)
                      (Some \<lparr>frame_pts = 0, frame_sample_aspect_ratio = \<lparr>num = 0, den = 0\<rparr>,
                             frame_metadata = [], frame_buf = 9\<rparr>)]\<rparr>)
   \<and> (\<exists>s'. filter_out (ex_lavfi\<lparr>av_buffersink_get_frame := (\<lambda>tr. (- 541478725, ex_frame))\<rparr>)
                (ex_world_of ex_priv_graph) = Some (0, s')
          \<and> vf_priv s' = Some (0, ex_priv_graph\<lparr>eof := True\<rparr>))
   \<and> filter_ext ex_lavfi_two_inputs (ex_world_of (ex_priv_graph\<lparr>eof := True\<rparr>))
        (Some \<lparr>pts = 0, planes = 9\<rparr>) = None
   \<and> (\<exists>p'. vf_priv
          (ex_world_of ex_priv_graph
             \<lparr>trace := Av_buffersrc_add_frame (Some 3) None # ex_calls (Some 1) @
                 [Av_buffersrc_add_frame (Some 3)
                    (Some \<lparr>frame_pts = 0, frame_sample_aspect_ratio = \<lparr>num = 0, den = 0\<rparr>,
                           frame_metadata = [], frame_buf = 9\<rparr>)]\<rparr>) = Some (0, p'))"
proof -
  note e = filter_ext_eof_protocol [OF ex_vf_priv, where L = ex_lavfi_two_inputs
      and p = "ex_priv_graph\<lparr>eof := True\<rparr>" and img = "\<lparr>pts = 0, planes = 9\<rparr>"]
  note f = filter_ext_eof_protocol [OF ex_vf_priv, where L = ex_lavfi and p = ex_priv_graph
      and mpis = "[None, None, Some \<lparr>pts = 0, planes = 9\<rparr>]"]
  have 6: "filter_ext ex_lavfi_two_inputs (ex_world_of (ex_priv_graph\<lparr>eof := True\<rparr>))
        (Some \<lparr>pts = 0, planes = 9\<rparr>) = None"
    using e [THEN conjunct2, THEN conjunct2, THEN conjunct2, THEN conjunct1] ex_crash
    by simp
  have 7: "\<exists>p'. vf_priv
          (ex_world_of ex_priv_graph
             \<lparr>trace := Av_buffersrc_add_frame (Some 3) None # ex_calls (Some 1) @
                 [Av_buffersrc_add_frame (Some 3)
                    (Some \<lparr>frame_pts = 0, frame_sample_aspect_ratio = \<lparr>num = 0, den = 0\<rparr>,
                           frame_metadata = [], frame_buf = 9\<rparr>)]\<rparr>) = Some (0, p')"
    using f [THEN conjunct2, THEN conjunct2, THEN conjunct2, THEN conjunct2, THEN conjunct2,
             THEN conjunct2, THEN conjunct2] ex_calls_run
    by blast
  note a = filter_ext_eof_protocol [OF ex_vf_priv, where L = ex_lavfi and p = ex_priv and mpi = None]
  note b = filter_ext_eof_protocol [OF ex_vf_priv, where L = ex_lavfi and p = "ex_priv_graph\<lparr>eof := True\<rparr>"
      and img = "\<lparr>pts = 0, planes = 9\<rparr>"
      and ?s1.0 = "ex_world_of ex_priv_graph\<lparr>trace := ex_calls (Some 1)\<rparr>"]
  note c = filter_ext_eof_protocol [OF ex_vf_priv, where L = ex_lavfi and p = ex_priv_graph]
  note d = filter_ext_eof_protocol [OF ex_vf_priv,
      where L = "ex_lavfi\<lparr>av_buffersink_get_frame := (\<lambda>tr. (- 541478725, ex_frame))\<rparr>"
      and p = ex_priv_graph]
  have 1: "filter_ext ex_lavfi (ex_world_of ex_priv) None = Some (- 1, ex_world_of ex_priv)"
    using a [THEN conjunct1] by (simp add: ex_priv_def vf_priv_dflt_def)
  have 2: "filter_ext ex_lavfi (ex_world_of (ex_priv_graph\<lparr>eof := True\<rparr>)) None =
       Some (0, ex_world_of (ex_priv_graph\<lparr>eof := True\<rparr>))"
    using b [THEN conjunct2, THEN conjunct1] by (simp add: ex_priv_graph_def)
  have 3: "filter_ext ex_lavfi (ex_world_of ex_priv_graph) None =
       Some (0, ex_world_of (ex_priv_graph\<lparr>eof := True\<rparr>)
                  \<lparr>trace := [Av_buffersrc_add_frame (Some 3) None]\<rparr>)"
    using c [THEN conjunct2, THEN conjunct2, THEN conjunct1]
    by (simp add: ex_defs lib_call_def)
  have r: "reset ex_lavfi (ex_world_of (ex_priv_graph\<lparr>eof := True\<rparr>)) =
      Some (ex_world_of ex_priv_graph\<lparr>trace := ex_calls (Some 1)\<rparr>)"
    using ex_recreate_eof
    by (simp add: reset_eq [OF ex_vf_priv] ex_world_simps ex_priv_graph_def ex_params_def)
  have v: "vf_priv (ex_world_of ex_priv_graph\<lparr>trace := ex_calls (Some 1)\<rparr>) = Some (0, ex_priv_graph)"
    by (simp add: ex_world_of_def ex_inst_def vf_priv_def priv_at_def)
  have m: "mp_to_av ex_lavfi (ex_world_of ex_priv_graph\<lparr>trace := ex_calls (Some 1)\<rparr>)
             (Some \<lparr>pts = 0, planes = 9\<rparr>) =
           Some (Some \<lparr>frame_pts = 0, frame_sample_aspect_ratio = \<lparr>num = 0, den = 0\<rparr>,
                        frame_metadata = [], frame_buf = 9\<rparr>)"
    by (simp add: ex_eval)
  have 4: "filter_ext ex_lavfi (ex_world_of (ex_priv_graph\<lparr>eof := True\<rparr>)) (Some \<lparr>pts = 0, planes = 9\<rparr>) =
       Some (0, ex_world_of ex_priv_graph
               \<lparr>trace := ex_calls (Some 1) @
                   [Av_buffersrc_add_frame (Some 3)
                      (Some \<lparr>frame_pts = 0, frame_sample_aspect_ratio = \<lparr>num = 0, den = 0\<rparr>,
                             frame_metadata = [], frame_buf = 9\<rparr>)]\<rparr>)"
    using b [THEN conjunct2, THEN conjunct2, THEN conjunct2, THEN conjunct2, THEN conjunct1] r v m
    by (simp add: ex_defs lib_call_def)
  have 5: "\<exists>s'. filter_out (ex_lavfi\<lparr>av_buffersink_get_frame := (\<lambda>tr. (- 541478725, ex_frame))\<rparr>)
                (ex_world_of ex_priv_graph) = Some (0, s')
          \<and> vf_priv s' = Some (0, ex_priv_graph\<lparr>eof := True\<rparr>)"
    using d [THEN conjunct2, THEN conjunct2, THEN conjunct2, THEN conjunct2, THEN conjunct2, THEN conjunct2]
    by (simp add: ex_lavfi_def)
  from 1 2 3 4 5 6 7 show ?thesis by (intro conjI)
qed

text \<open>
  C1 as the spec states it fails where no graph exists: the EOF flag is not set, the image
  is \<open>NULL\<close>, and \<open>filter_ext\<close> returns -1 with the flag still clear and no frame passed
  to the source.
\<close>

theorem filter_ext_eof_protocol_counterexample:
  "vf_priv (ex_world_of ex_priv) = Some (0, ex_priv)
   \<and> \<not> eof ex_priv
   \<and> filter_ext ex_lavfi (ex_world_of ex_priv) None = Some (- 1, ex_world_of ex_priv)"
  by (simp add: ex_eval)

subsection \<open>filter\_out\<close>

text \<open>
  C6, as amended. \<open>filter_out\<close> asks the sink for one frame, and that is its first call.
  If the sink answers \<open>AVERROR(EAGAIN)\<close> or \<open>AVERROR_EOF\<close>, it returns 0 after that one
  call, having set the EOF flag when the answer was \<open>AVERROR_EOF\<close> and changed nothing
  else. If the sink answers another negative value, it returns -1 after that one call.
  Otherwise it returns 0 after one more call, of \<open>vf_add_output_frame\<close> on the image that
  \<open>av_to_mp\<close> makes of the frame (\<open>NULL\<close> when \<open>mp_image_from_av_frame\<close> fails); before
  that, compiled against FFmpeg's libavutil (\<open>LIBAVUTIL_VERSION_MICRO >= 100\<close>), it has
  stored the copy of the frame's dictionary into the tags, and compiled against Libav's
  libavutil it has stored nothing.
\<close>

theorem filter_out_one_frame:
  assumes "vf_priv s = Some (a, p)"
    and "err = fst (av_buffersink_get_frame L (trace s))"
    and "frame = snd (av_buffersink_get_frame L (trace s))"
    and "s1 = lib_call L (Av_buffersink_get_frame (out_ctx p)) s"
  shows "(err = AVERROR_EAGAIN L \<or> err = AVERROR_EOF L \<longrightarrow>
            filter_out L s =
              Some (0, s1\<lparr>privs := (privs s)[a := Lavfi_priv (p\<lparr>eof := (eof p \<or> err = AVERROR_EOF L)\<rparr>)]\<rparr>))
       \<and> (err \<noteq> AVERROR_EAGAIN L \<and> err \<noteq> AVERROR_EOF L \<and> err < 0 \<longrightarrow>
            filter_out L s = Some (- 1, s1))
       \<and> (err \<noteq> AVERROR_EAGAIN L \<and> err \<noteq> AVERROR_EOF L \<and> 0 \<le> err \<longrightarrow>
            filter_out L s =
              Some (0,
                lib_call L
                  (Vf_add_output_frame
                     (case mp_image_from_av_frame L frame of
                        None \<Rightarrow> None
                      | Some img \<Rightarrow>
                          Some (img\<lparr>pts :=
                                  (if frame_pts frame = AV_NOPTS_VALUE then MP_NOPTS_VALUE
                                   else double_mul L (double_of_int64 L (frame_pts frame))
                                          (av_q2d L (timebase_out p)))\<rparr>)))
                  (if 100 \<le> LIBAVUTIL_VERSION_MICRO L
                   then s1\<lparr>privs := (privs s)[a := Lavfi_priv (p\<lparr>metadata :=
                            Some (mp_tags_copy_from_av_dictionary L
                                    (case metadata p of None \<Rightarrow> [] | Some tags \<Rightarrow> tags)
                                    (frame_metadata frame))\<rparr>)]\<rparr>
                   else s1)))"
proof -
  note fo = filter_out_cases [OF assms]
  have p1: "vf_priv s1 = Some (a, p)"
    using assms(1,4) by (simp add: vf_priv_lib_call)
  have privs1: "privs s1 = privs s"
    using assms(4) by (simp add: lib_call_simps)
  define s2 where "s2 =
            (if 100 \<le> LIBAVUTIL_VERSION_MICRO L
             then s1\<lparr>privs := (privs s)[a := Lavfi_priv (p\<lparr>metadata :=
                      Some (mp_tags_copy_from_av_dictionary L
                              (case metadata p of None \<Rightarrow> [] | Some tags \<Rightarrow> tags)
                              (frame_metadata frame))\<rparr>)]\<rparr>
             else s1)"
  define out_img where "out_img =
             (case mp_image_from_av_frame L frame of
                None \<Rightarrow> None
              | Some img \<Rightarrow>
                  Some (img\<lparr>pts :=
                          (if frame_pts frame = AV_NOPTS_VALUE then MP_NOPTS_VALUE
                           else double_mul L (double_of_int64 L (frame_pts frame))
                                  (av_q2d L (timebase_out p)))\<rparr>))"
  have g: "get_metadata_from_av_frame L s1 frame = Some s2"
    unfolding s2_def using get_metadata_eq [OF p1, of L frame] privs1 by simp
  have "\<exists>q. vf_priv s2 = Some (a, q) \<and> timebase_out q = timebase_out p"
    unfolding s2_def using p1 vf_priv_update [OF p1] privs1
    by (cases "100 \<le> LIBAVUTIL_VERSION_MICRO L") auto
  then obtain q where q: "vf_priv s2 = Some (a, q)" "timebase_out q = timebase_out p" by blast
  have c: "av_to_mp L s2 frame = Some out_img"
  proof (cases "mp_image_from_av_frame L frame")
    case None
    then show ?thesis by (simp add: av_to_mp_def out_img_def)
  next
    case (Some img)
    from av_to_mp_image [OF q(1) Some] q(2) Some show ?thesis by (simp add: out_img_def)
  qed
  have C: "filter_out L s = Some (0, lib_call L (Vf_add_output_frame out_img) s2)"
    if h: "err \<noteq> AVERROR_EAGAIN L \<and> err \<noteq> AVERROR_EOF L \<and> 0 \<le> err"
    using assms h g c by (simp add: filter_out_def Let_def)
  show ?thesis
    by (rule conjI [OF fo [THEN conjunct1] conjI [OF fo [THEN conjunct2, THEN conjunct1]
          impI [OF C [unfolded s2_def out_img_def]]]])
qed

text \<open>
  The three cases on \<open>ex_lavfi\<close>: a frame is delivered; the sink is at its end; the sink
  fails with \<open>-22\<close>. And a frame delivered behind Libav's headers.
\<close>

theorem filter_out_one_frame_witness:
  "filter_out ex_lavfi (ex_world_of ex_priv_graph) =
     Some (0, ex_world_of (ex_priv_graph\<lparr>metadata := Some [(''lavfi.scene'', ''1'')]\<rparr>)
               \<lparr>trace := [Av_buffersink_get_frame (Some 4),
                          Vf_add_output_frame (Some \<lparr>pts = 0, planes = 9\<rparr>)]\<rparr>)
   \<and> filter_out (ex_lavfi\<lparr>av_buffersink_get_frame := (\<lambda>tr. (- 541478725, ex_frame))\<rparr>)
        (ex_world_of ex_priv_graph) =
     Some (0, ex_world_of (ex_priv_graph\<lparr>eof := True\<rparr>)\<lparr>trace := [Av_buffersink_get_frame (Some 4)]\<rparr>)
   \<and> filter_out (ex_lavfi\<lparr>av_buffersink_get_frame := (\<lambda>tr. (- 22, ex_frame))\<rparr>)
        (ex_world_of ex_priv_graph) =
     Some (- 1, ex_world_of ex_priv_graph\<lparr>trace := [Av_buffersink_get_frame (Some 4)]\<rparr>)
   \<and> filter_out ex_libav (ex_world_of ex_priv_graph) =
     Some (0, ex_world_of ex_priv_graph
               \<lparr>trace := [Av_buffersink_get_frame (Some 4),
                          Vf_add_output_frame (Some \<lparr>pts = 0, planes = 9\<rparr>)]\<rparr>)"
proof -
  note a = filter_out_one_frame [where L = ex_lavfi and s = "ex_world_of ex_priv_graph" and a = 0
      and p = ex_priv_graph, OF ex_vf_priv refl refl refl]
  note b = filter_out_one_frame [where L = "ex_lavfi\<lparr>av_buffersink_get_frame := (\<lambda>tr. (- 541478725, ex_frame))\<rparr>"
      and s = "ex_world_of ex_priv_graph" and a = 0 and p = ex_priv_graph, OF ex_vf_priv refl refl refl]
  note c = filter_out_one_frame [where L = "ex_lavfi\<lparr>av_buffersink_get_frame := (\<lambda>tr. (- 22, ex_frame))\<rparr>"
      and s = "ex_world_of ex_priv_graph" and a = 0 and p = ex_priv_graph, OF ex_vf_priv refl refl refl]
  note d = filter_out_one_frame [where L = ex_libav and s = "ex_world_of ex_priv_graph" and a = 0
      and p = ex_priv_graph, OF ex_vf_priv refl refl refl]
  have 1: "filter_out ex_lavfi (ex_world_of ex_priv_graph) =
     Some (0, ex_world_of (ex_priv_graph\<lparr>metadata := Some [(''lavfi.scene'', ''1'')]\<rparr>)
               \<lparr>trace := [Av_buffersink_get_frame (Some 4),
                          Vf_add_output_frame (Some \<lparr>pts = 0, planes = 9\<rparr>)]\<rparr>)"
    using a [THEN conjunct2, THEN conjunct2]
    by (simp add: ex_defs lib_call_def AV_NOPTS_VALUE_def)
  have 2: "filter_out (ex_lavfi\<lparr>av_buffersink_get_frame := (\<lambda>tr. (- 541478725, ex_frame))\<rparr>)
        (ex_world_of ex_priv_graph) =
     Some (0, ex_world_of (ex_priv_graph\<lparr>eof := True\<rparr>)\<lparr>trace := [Av_buffersink_get_frame (Some 4)]\<rparr>)"
    using b [THEN conjunct1]
    by (simp add: ex_defs lib_call_def)
  have 3: "filter_out (ex_lavfi\<lparr>av_buffersink_get_frame := (\<lambda>tr. (- 22, ex_frame))\<rparr>)
        (ex_world_of ex_priv_graph) =
     Some (- 1, ex_world_of ex_priv_graph\<lparr>trace := [Av_buffersink_get_frame (Some 4)]\<rparr>)"
    using c [THEN conjunct2, THEN conjunct1]
    by (simp add: ex_defs lib_call_def)
  have 4: "filter_out ex_libav (ex_world_of ex_priv_graph) =
     Some (0, ex_world_of ex_priv_graph
               \<lparr>trace := [Av_buffersink_get_frame (Some 4),
                          Vf_add_output_frame (Some \<lparr>pts = 0, planes = 9\<rparr>)]\<rparr>)"
    using d [THEN conjunct2, THEN conjunct2]
    by (simp add: ex_defs lib_call_def AV_NOPTS_VALUE_def)
  from 1 2 3 4 show ?thesis by (intro conjI)
qed

text \<open>
  C6 as the spec states it fails behind Libav's headers: the sink delivers a frame whose
  dictionary has an entry, \<open>filter_out\<close> passes the converted frame on and returns 0, and
  the stored tags are the ones it found, without that entry.
\<close>

theorem filter_out_one_frame_counterexample:
  "av_buffersink_get_frame ex_libav [] =
     (0, \<lparr>frame_pts = 40, frame_sample_aspect_ratio = \<lparr>num = 4, den = 3\<rparr>,
          frame_metadata = [(''lavfi.scene'', ''1'')], frame_buf = 9\<rparr>)
   \<and> filter_out ex_libav (ex_world_of (ex_priv_graph\<lparr>metadata := Some [(''title'', ''x'')]\<rparr>)) =
       Some (0, ex_world_of (ex_priv_graph\<lparr>metadata := Some [(''title'', ''x'')]\<rparr>)
                  \<lparr>trace := [Av_buffersink_get_frame (Some 4),
                             Vf_add_output_frame (Some \<lparr>pts = 0, planes = 9\<rparr>)]\<rparr>)"
  by (simp add: ex_defs filter_out_def vf_priv_def priv_at_def lib_call_def
        get_metadata_from_av_frame_def av_to_mp_def AV_NOPTS_VALUE_def Let_def)

subsection \<open>Metadata\<close>

text \<open>
  C7, as amended. The copy of the metadata is compiled only for FFmpeg's libavutil
  (\<open>LIBAVUTIL_VERSION_MICRO >= 100\<close>). There, every frame that \<open>filter_out\<close> retrieves
  has its dictionary copied by \<open>mp_tags_copy_from_av_dictionary\<close> into the stored tags,
  which start empty when there were none. With Libav's libavutil \<open>filter_out\<close> leaves
  the stored tags as they were. \<open>VFCTRL_GET_METADATA\<close> returns the stored tags with
  \<open>CONTROL_OK\<close> when there are some, and \<open>CONTROL_NA\<close> when there are none.
\<close>

theorem metadata_copy:
  assumes "vf_priv s = Some (a, p)"
    and "err = fst (av_buffersink_get_frame L (trace s))"
    and "frame = snd (av_buffersink_get_frame L (trace s))"
  shows "(100 \<le> LIBAVUTIL_VERSION_MICRO L \<and> err \<noteq> AVERROR_EAGAIN L \<and> err \<noteq> AVERROR_EOF L \<and> 0 \<le> err \<longrightarrow>
            (\<exists>s'. filter_out L s = Some (0, s')
               \<and> vf_priv s' =
                   Some (a, p\<lparr>metadata :=
                             Some (mp_tags_copy_from_av_dictionary L
                                     (case metadata p of None \<Rightarrow> [] | Some tags \<Rightarrow> tags)
                                     (frame_metadata frame))\<rparr>)))
       \<and> (LIBAVUTIL_VERSION_MICRO L < 100 \<longrightarrow>
            (\<exists>r s' q. filter_out L s = Some (r, s') \<and> vf_priv s' = Some (a, q)
               \<and> metadata q = metadata p))
       \<and> (\<forall>tags. metadata p = Some tags \<longrightarrow>
            control L s VFCTRL_GET_METADATA args = Some (CONTROL_OK, s, Some tags))
       \<and> (metadata p = None \<longrightarrow>
            control L s VFCTRL_GET_METADATA args = Some (CONTROL_NA, s, None))"
proof -
  let ?s1 = "lib_call L (Av_buffersink_get_frame (out_ctx p)) s"
  note fo = filter_out_cases [OF assms(1) assms(2) assms(3) refl]
  have p1: "vf_priv ?s1 = Some (a, p)"
    using assms(1) by (simp add: vf_priv_lib_call)
  have pa: "priv (inst s) = Some a" "priv_at s a = Some p"
    using assms(1) by (simp_all add: vf_priv_Some)
  have privs1: "privs ?s1 = privs s" by (simp add: lib_call_simps)
  have A: "\<exists>s'. filter_out L s = Some (0, s')
               \<and> vf_priv s' =
                   Some (a, p\<lparr>metadata :=
                             Some (mp_tags_copy_from_av_dictionary L
                                     (case metadata p of None \<Rightarrow> [] | Some tags \<Rightarrow> tags)
                                     (frame_metadata frame))\<rparr>)"
    if h: "100 \<le> LIBAVUTIL_VERSION_MICRO L" "err \<noteq> AVERROR_EAGAIN L \<and> err \<noteq> AVERROR_EOF L \<and> 0 \<le> err"
  proof -
    from fo h(2) obtain s2 img where
      s2: "get_metadata_from_av_frame L ?s1 frame = Some s2"
      and r: "filter_out L s = Some (0, lib_call L (Vf_add_output_frame img) s2)"
      by blast
    from s2 h(1) get_metadata_eq [OF p1, of L frame]
    have "s2 = ?s1\<lparr>privs := (privs ?s1)[a := Lavfi_priv (p\<lparr>metadata :=
                             Some (mp_tags_copy_from_av_dictionary L
                                     (case metadata p of None \<Rightarrow> [] | Some tags \<Rightarrow> tags)
                                     (frame_metadata frame))\<rparr>)]\<rparr>"
      by simp
    then have "vf_priv s2 = Some (a, p\<lparr>metadata :=
                             Some (mp_tags_copy_from_av_dictionary L
                                     (case metadata p of None \<Rightarrow> [] | Some tags \<Rightarrow> tags)
                                     (frame_metadata frame))\<rparr>)"
      using vf_priv_update [OF p1] by simp
    with r show ?thesis by (simp add: vf_priv_lib_call)
  qed
  have B: "\<exists>r s' q. filter_out L s = Some (r, s') \<and> vf_priv s' = Some (a, q) \<and> metadata q = metadata p"
    if h: "LIBAVUTIL_VERSION_MICRO L < 100"
  proof -
    consider (again) "err = AVERROR_EAGAIN L \<or> err = AVERROR_EOF L"
      | (neg) "err \<noteq> AVERROR_EAGAIN L \<and> err \<noteq> AVERROR_EOF L \<and> err < 0"
      | (ok) "err \<noteq> AVERROR_EAGAIN L \<and> err \<noteq> AVERROR_EOF L \<and> 0 \<le> err"
      by linarith
    then show ?thesis
    proof cases
      case again
      with fo have "filter_out L s =
          Some (0, ?s1\<lparr>privs := (privs ?s1)[a := Lavfi_priv (p\<lparr>eof := (eof p \<or> err = AVERROR_EOF L)\<rparr>)]\<rparr>)"
        by (simp add: privs1)
      moreover have "vf_priv (?s1\<lparr>privs := (privs ?s1)[a := Lavfi_priv (p\<lparr>eof := (eof p \<or> err = AVERROR_EOF L)\<rparr>)]\<rparr>)
          = Some (a, p\<lparr>eof := (eof p \<or> err = AVERROR_EOF L)\<rparr>)"
        by (rule vf_priv_update [OF p1])
      ultimately show ?thesis by force
    next
      case neg
      with fo p1 show ?thesis by force
    next
      case ok
      from fo ok obtain s2 img where
        s2: "get_metadata_from_av_frame L ?s1 frame = Some s2"
        and r: "filter_out L s = Some (0, lib_call L (Vf_add_output_frame img) s2)"
        by blast
      from s2 h get_metadata_eq [OF p1, of L frame] have "s2 = ?s1" by simp
      with r p1 show ?thesis by (force simp: vf_priv_lib_call)
    qed
  qed
  have C: "metadata p = Some tags \<Longrightarrow>
      control L s VFCTRL_GET_METADATA args = Some (CONTROL_OK, s, Some tags)" for tags
    using pa by (simp add: control_def)
  have D: "metadata p = None \<Longrightarrow>
      control L s VFCTRL_GET_METADATA args = Some (CONTROL_NA, s, None)"
    using pa by (simp add: control_def)
  from A B C D show ?thesis by blast
qed

theorem metadata_copy_witness:
  "(\<exists>s'. filter_out ex_lavfi (ex_world_of ex_priv_graph) = Some (0, s')
      \<and> vf_priv s' = Some (0, ex_priv_graph\<lparr>metadata := Some [(''lavfi.scene'', ''1'')]\<rparr>))
   \<and> (\<exists>r s' q. filter_out ex_libav (ex_world_of ex_priv_graph) = Some (r, s')
      \<and> vf_priv s' = Some (0, q) \<and> metadata q = None)
   \<and> control ex_lavfi (ex_world_of (ex_priv_graph\<lparr>metadata := Some [(''lavfi.scene'', ''1'')]\<rparr>))
       VFCTRL_GET_METADATA ([], []) =
     Some (CONTROL_OK, ex_world_of (ex_priv_graph\<lparr>metadata := Some [(''lavfi.scene'', ''1'')]\<rparr>),
           Some [(''lavfi.scene'', ''1'')])
   \<and> control ex_lavfi (ex_world_of ex_priv_graph) VFCTRL_GET_METADATA ([], []) =
     Some (CONTROL_NA, ex_world_of ex_priv_graph, None)"
proof -
  note a = metadata_copy [OF ex_vf_priv refl refl, where L = ex_lavfi and p = ex_priv_graph
      and args = "([], [])"]
  note b = metadata_copy [OF ex_vf_priv refl refl, where L = ex_libav and p = ex_priv_graph
      and args = "([], [])"]
  note c = metadata_copy [OF ex_vf_priv refl refl, where L = ex_lavfi
      and p = "ex_priv_graph\<lparr>metadata := Some [(''lavfi.scene'', ''1'')]\<rparr>" and args = "([], [])"]
  have 1: "\<exists>s'. filter_out ex_lavfi (ex_world_of ex_priv_graph) = Some (0, s')
      \<and> vf_priv s' = Some (0, ex_priv_graph\<lparr>metadata := Some [(''lavfi.scene'', ''1'')]\<rparr>)"
    using a [THEN conjunct1]
    by (simp add: ex_lavfi_def ex_frame_def ex_priv_graph_def ex_priv_def vf_priv_dflt_def)
  have 2: "\<exists>r s' q. filter_out ex_libav (ex_world_of ex_priv_graph) = Some (r, s')
      \<and> vf_priv s' = Some (0, q) \<and> metadata q = None"
    using b [THEN conjunct2, THEN conjunct1]
    by (simp add: ex_lavfi_def ex_libav_def ex_priv_graph_def ex_priv_def vf_priv_dflt_def)
  have 3: "control ex_lavfi (ex_world_of (ex_priv_graph\<lparr>metadata := Some [(''lavfi.scene'', ''1'')]\<rparr>))
       VFCTRL_GET_METADATA ([], []) =
     Some (CONTROL_OK, ex_world_of (ex_priv_graph\<lparr>metadata := Some [(''lavfi.scene'', ''1'')]\<rparr>),
           Some [(''lavfi.scene'', ''1'')])"
    using c [THEN conjunct2, THEN conjunct2, THEN conjunct1] by simp
  have 4: "control ex_lavfi (ex_world_of ex_priv_graph) VFCTRL_GET_METADATA ([], []) =
     Some (CONTROL_NA, ex_world_of ex_priv_graph, None)"
    using a [THEN conjunct2, THEN conjunct2, THEN conjunct2]
    by (simp add: ex_priv_graph_def ex_priv_def vf_priv_dflt_def)
  from 1 2 3 4 show ?thesis by blast
qed

text \<open>
  C7 as the spec states it fails behind Libav's headers: the sink delivers a frame whose
  dictionary has an entry, \<open>filter_out\<close> returns 0, nothing is stored, and
  \<open>VFCTRL_GET_METADATA\<close> answers \<open>CONTROL_NA\<close>.
\<close>

theorem metadata_copy_counterexample:
  "frame_metadata (snd (av_buffersink_get_frame ex_libav [])) = [(''lavfi.scene'', ''1'')]
   \<and> filter_out ex_libav (ex_world_of ex_priv_graph) =
       Some (0, ex_world_of ex_priv_graph
                  \<lparr>trace := [Av_buffersink_get_frame (Some 4),
                             Vf_add_output_frame (Some \<lparr>pts = 0, planes = 9\<rparr>)]\<rparr>)
   \<and> metadata ex_priv_graph = None
   \<and> control ex_libav
        (ex_world_of ex_priv_graph
           \<lparr>trace := [Av_buffersink_get_frame (Some 4),
                      Vf_add_output_frame (Some \<lparr>pts = 0, planes = 9\<rparr>)]\<rparr>)
        VFCTRL_GET_METADATA ([], []) =
       Some (CONTROL_NA,
             ex_world_of ex_priv_graph
               \<lparr>trace := [Av_buffersink_get_frame (Some 4),
                          Vf_add_output_frame (Some \<lparr>pts = 0, planes = 9\<rparr>)]\<rparr>,
             None)"
  by (simp add: ex_defs filter_out_def control_def vf_priv_def priv_at_def lib_call_def
        get_metadata_from_av_frame_def av_to_mp_def AV_NOPTS_VALUE_def Let_def)

subsection \<open>reconfig\<close>

text \<open>
  C5. Let \<open>r_cb\<close> be what the wrapper's callback returned (0 when none is set), and
  \<open>s1\<close>, \<open>in1\<close>, \<open>out1\<close> the state and the parameters as it left them. If \<open>r_cb\<close> is
  negative, \<open>reconfig\<close> returns -1. If \<open>recreate_graph\<close> returns false, \<open>reconfig\<close> returns -1;
  this is so in particular when the graph string is empty. If \<open>recreate_graph\<close> returns true,
  then \<open>reconfig\<close>, when it returns, returns 0, the fields \<open>w\<close>, \<open>h\<close>, \<open>p_w\<close>, \<open>p_h\<close> and
  \<open>imgfmt\<close> of \<open>*out\<close> are those of the first input link of the sink, and the private data
  holds the time bases of the source's first output link and of the sink's first input link
  and the sample aspect ratio of the former. It does return then, if the callback left
  \<open>vf->priv\<close> in place and every hardware frames context that the sink offers is in memory.
\<close>

theorem reconfig_result:
  assumes "lw_reconfig L s in_fmt = Some (r_cb, s1, in1, out1)"
  shows "(r_cb < 0 \<longrightarrow> reconfig L s in_fmt = Some (- 1, s1, in1, out1))
     \<and> (0 \<le> r_cb \<and> recreate_graph L s1 in1 = Some (False, s2) \<longrightarrow>
          reconfig L s in_fmt = Some (- 1, s2, in1, out1))
     \<and> (0 \<le> r_cb \<and> vf_priv s1 = Some (a1, p1) \<and> bstr0_len (cfg_graph p1) = 0 \<longrightarrow>
          reconfig L s in_fmt = Some (- 1, s1, in1, out1))
     \<and> (0 \<le> r_cb \<and> recreate_graph L s1 in1 = Some (True, s2)
          \<and> reconfig L s in_fmt = Some (r, s', in', out') \<longrightarrow>
          r = 0
          \<and> (\<exists>a p' out i l_out ls l_in ls'.
                priv (inst s) = Some a \<and> priv_at s' a = Some p'
                \<and> out_ctx p' = Some out \<and> in_ctx p' = Some i
                \<and> inputs (filter_ctx L (trace s2) out) = l_out # ls
                \<and> outputs (filter_ctx L (trace s2) i) = l_in # ls'
                \<and> w out' = link_w l_out \<and> h out' = link_h l_out
                \<and> p_w out' = num (link_sample_aspect_ratio l_out)
                \<and> p_h out' = den (link_sample_aspect_ratio l_out)
                \<and> imgfmt out' = pixfmt2imgfmt L (link_format l_out)
                \<and> timebase_in p' = link_time_base l_in
                \<and> timebase_out p' = link_time_base l_out
                \<and> par_in p' = link_sample_aspect_ratio l_in))
     \<and> (0 \<le> r_cb \<and> recreate_graph L s1 in1 = Some (True, s2)
          \<and> priv (inst s1) = priv (inst s)
          \<and> (\<forall>out l hw.
                sink_hw_frames_ctx L (lib_call L (Av_buffer_unref (out_hwframes_ref (inst s2))) s2)
                  out l = Some hw
                \<longrightarrow> hw_effect L (Av_buffer_unref (out_hwframes_ref (inst s2))) (hw_mem s2) (data hw)
                      \<noteq> None) \<longrightarrow>
          (\<exists>u ps. reconfig L s in_fmt = Some (0, u, in1, ps)))"
proof -
  note e = reconfig_early [OF assms]
  have E: "\<exists>u ps. reconfig L s in_fmt = Some (0, u, in1, ps)"
    if h: "0 \<le> r_cb \<and> recreate_graph L s1 in1 = Some (True, s2)
          \<and> priv (inst s1) = priv (inst s)
          \<and> (\<forall>out l hw.
                sink_hw_frames_ctx L (lib_call L (Av_buffer_unref (out_hwframes_ref (inst s2))) s2)
                  out l = Some hw
                \<longrightarrow> hw_effect L (Av_buffer_unref (out_hwframes_ref (inst s2))) (hw_mem s2) (data hw)
                      \<noteq> None)"
  proof -
    from h have "0 \<le> r_cb" and "recreate_graph L s1 in1 = Some (True, s2)"
      and "priv (inst s1) = priv (inst s)"
      and "\<forall>out l hw.
                sink_hw_frames_ctx L (lib_call L (Av_buffer_unref (out_hwframes_ref (inst s2))) s2)
                  out l = Some hw
                \<longrightarrow> hw_effect L (Av_buffer_unref (out_hwframes_ref (inst s2))) (hw_mem s2) (data hw)
                      \<noteq> None"
      by simp_all
    then show ?thesis by (rule reconfig_returns [OF assms])
  qed
  have C: "reconfig L s in_fmt = Some (- 1, s1, in1, out1)"
    if h: "0 \<le> r_cb \<and> vf_priv s1 = Some (a1, p1) \<and> bstr0_len (cfg_graph p1) = 0"
  proof -
    from h have "recreate_graph L s1 in1 = Some (False, s1)"
      by (simp add: recreate_graph_empty)
    with e(2) h show ?thesis by blast
  qed
  have D: "r = 0
          \<and> (\<exists>a p' out i l_out ls l_in ls'.
                priv (inst s) = Some a \<and> priv_at s' a = Some p'
                \<and> out_ctx p' = Some out \<and> in_ctx p' = Some i
                \<and> inputs (filter_ctx L (trace s2) out) = l_out # ls
                \<and> outputs (filter_ctx L (trace s2) i) = l_in # ls'
                \<and> w out' = link_w l_out \<and> h out' = link_h l_out
                \<and> p_w out' = num (link_sample_aspect_ratio l_out)
                \<and> p_h out' = den (link_sample_aspect_ratio l_out)
                \<and> imgfmt out' = pixfmt2imgfmt L (link_format l_out)
                \<and> timebase_in p' = link_time_base l_in
                \<and> timebase_out p' = link_time_base l_out
                \<and> par_in p' = link_sample_aspect_ratio l_in)"
    if h: "0 \<le> r_cb \<and> recreate_graph L s1 in1 = Some (True, s2)
          \<and> reconfig L s in_fmt = Some (r, s', in', out')"
  proof -
    from h have cb: "0 \<le> r_cb" and rg: "recreate_graph L s1 in1 = Some (True, s2)"
      and res: "reconfig L s in_fmt = Some (r, s', in', out')" by simp_all
    from reconfig_success [OF assms cb rg res] obtain a p2 out i l_out ls l_in ls' where
      k: "priv (inst s) = Some a" "priv_at s2 a = Some p2" "out_ctx p2 = Some out" "in_ctx p2 = Some i"
         "inputs (filter_ctx L (trace s2) out) = l_out # ls"
         "outputs (filter_ctx L (trace s2) i) = l_in # ls'"
         "r = 0"
         "priv_at s' a =
            Some (p2\<lparr>timebase_in := link_time_base l_in, timebase_out := link_time_base l_out,
                     par_in := link_sample_aspect_ratio l_in\<rparr>)"
      and c: "(case sink_hw_frames_ctx L (lib_call L (Av_buffer_unref (out_hwframes_ref (inst s2))) s2)
                 out l_out of
            None \<Rightarrow>
              out' = out1\<lparr>w := link_w l_out, h := link_h l_out,
                           p_w := num (link_sample_aspect_ratio l_out),
                           p_h := den (link_sample_aspect_ratio l_out),
                           imgfmt := pixfmt2imgfmt L (link_format l_out)\<rparr>
              \<and> out_hwframes_ref (inst s') = None
              \<and> trace s' = trace s2 @ [Av_buffer_unref (out_hwframes_ref (inst s2))]
          | Some hw \<Rightarrow>
              (\<exists>fctx. hw_effect L (Av_buffer_unref (out_hwframes_ref (inst s2))) (hw_mem s2) (data hw)
                        = Some fctx
                 \<and> out' = out1\<lparr>w := link_w l_out, h := link_h l_out,
                           p_w := num (link_sample_aspect_ratio l_out),
                           p_h := den (link_sample_aspect_ratio l_out),
                           imgfmt := pixfmt2imgfmt L (link_format l_out),
                           hw_subfmt := pixfmt2imgfmt L (sw_format fctx)\<rparr>)
              \<and> out_hwframes_ref (inst s') =
                    av_buffer_ref L (trace s2 @ [Av_buffer_unref (out_hwframes_ref (inst s2))]) hw
              \<and> trace s' = trace s2 @ [Av_buffer_unref (out_hwframes_ref (inst s2)), Av_buffer_ref hw])"
      by blast
    from c have f: "w out' = link_w l_out \<and> h out' = link_h l_out
                \<and> p_w out' = num (link_sample_aspect_ratio l_out)
                \<and> p_h out' = den (link_sample_aspect_ratio l_out)
                \<and> imgfmt out' = pixfmt2imgfmt L (link_format l_out)"
      by (auto split: option.splits)
    from k f show ?thesis
      by (intro conjI exI [of _ a]
            exI [of _ "p2\<lparr>timebase_in := link_time_base l_in, timebase_out := link_time_base l_out,
                     par_in := link_sample_aspect_ratio l_in\<rparr>"]
            exI [of _ out] exI [of _ i] exI [of _ l_out] exI [of _ ls] exI [of _ l_in] exI [of _ ls'])
         simp_all
  qed
  have A: "r_cb < 0 \<Longrightarrow> reconfig L s in_fmt = Some (- 1, s1, in1, out1)"
    by (rule e(1))
  have B: "0 \<le> r_cb \<and> recreate_graph L s1 in1 = Some (False, s2) \<Longrightarrow>
          reconfig L s in_fmt = Some (- 1, s2, in1, out1)"
    using e(2) by blast
  show ?thesis
    by (rule conjI [OF impI [OF A] conjI [OF impI [OF B] conjI [OF impI [OF C]
          conjI [OF impI [OF D] impI [OF E]]]]])
qed

text \<open>
  The four cases: a callback that fails; a graph that cannot be configured; an empty graph
  string; a successful reconfiguration on \<open>ex_lavfi\<close>.
\<close>

theorem reconfig_result_witness:
  "reconfig ex_lavfi_cb_fails (ex_world_of (ex_priv\<lparr>lw_reconfig_cb := Some 8\<rparr>)) ex_params =
     Some (- 1, ex_world_of (ex_priv\<lparr>lw_reconfig_cb := Some 8\<rparr>), ex_params, ex_params)
   \<and> reconfig ex_lavfi_no_config (ex_world_of ex_priv) ex_params =
     Some (- 1, ex_world_of ex_priv\<lparr>trace := ex_calls None @ [Avfilter_graph_free (Some 1)]\<rparr>,
           ex_params, ex_params)
   \<and> reconfig ex_lavfi (ex_world_of vf_priv_dflt) ex_params =
     Some (- 1, ex_world_of vf_priv_dflt, ex_params, ex_params)
   \<and> (\<exists>p'. priv_at (ex_world_of (ex_priv_graph\<lparr>timebase_in := \<lparr>num = 1, den = 25\<rparr>,
                                      timebase_out := \<lparr>num = 1, den = 25\<rparr>,
                                      par_in := \<lparr>num = 4, den = 3\<rparr>\<rparr>)
             \<lparr>trace := ex_calls None @ [Av_buffer_unref None]\<rparr>) 0 = Some p'
          \<and> timebase_in p' = link_time_base ex_link
          \<and> timebase_out p' = link_time_base ex_link
          \<and> par_in p' = link_sample_aspect_ratio ex_link)
   \<and> (\<exists>u ps. reconfig ex_lavfi (ex_world_of ex_priv) ex_params = Some (0, u, ex_params, ps))"
proof -
  note a = reconfig_result [OF ex_lw_reconfig(4)]
  note b = reconfig_result [OF ex_lw_reconfig(3),
      where ?s2.0 = "ex_world_of ex_priv\<lparr>trace := ex_calls None @ [Avfilter_graph_free (Some 1)]\<rparr>"]
  note c = reconfig_result [OF ex_lw_reconfig(2), where ?a1.0 = 0 and ?p1.0 = vf_priv_dflt]
  note d = reconfig_result [OF ex_lw_reconfig(1),
      where ?s2.0 = "ex_world_of ex_priv_graph\<lparr>trace := ex_calls None\<rparr>" and r = 0
        and s' = "ex_world_of (ex_priv_graph\<lparr>timebase_in := \<lparr>num = 1, den = 25\<rparr>,
                                      timebase_out := \<lparr>num = 1, den = 25\<rparr>,
                                      par_in := \<lparr>num = 4, den = 3\<rparr>\<rparr>)
             \<lparr>trace := ex_calls None @ [Av_buffer_unref None]\<rparr>"
        and in' = ex_params
        and out' = "\<lparr>imgfmt = 1, hw_subfmt = 0, w = 640, h = 480, p_w = 4, p_h = 3, rest = 7\<rparr>"]
  have 1: "reconfig ex_lavfi_cb_fails (ex_world_of (ex_priv\<lparr>lw_reconfig_cb := Some 8\<rparr>)) ex_params =
     Some (- 1, ex_world_of (ex_priv\<lparr>lw_reconfig_cb := Some 8\<rparr>), ex_params, ex_params)"
    using a [THEN conjunct1] by simp
  have 2: "reconfig ex_lavfi_no_config (ex_world_of ex_priv) ex_params =
     Some (- 1, ex_world_of ex_priv\<lparr>trace := ex_calls None @ [Avfilter_graph_free (Some 1)]\<rparr>,
           ex_params, ex_params)"
    using b [THEN conjunct2, THEN conjunct1] ex_recreate_no_config by simp
  have 3: "reconfig ex_lavfi (ex_world_of vf_priv_dflt) ex_params =
     Some (- 1, ex_world_of vf_priv_dflt, ex_params, ex_params)"
    using c [THEN conjunct2, THEN conjunct2, THEN conjunct1]
    by (simp add: ex_vf_priv vf_priv_dflt_def bstr0_len_def)
  have 4: "\<exists>p'. priv_at (ex_world_of (ex_priv_graph\<lparr>timebase_in := \<lparr>num = 1, den = 25\<rparr>,
                                      timebase_out := \<lparr>num = 1, den = 25\<rparr>,
                                      par_in := \<lparr>num = 4, den = 3\<rparr>\<rparr>)
             \<lparr>trace := ex_calls None @ [Av_buffer_unref None]\<rparr>) 0 = Some p'
          \<and> timebase_in p' = link_time_base ex_link
          \<and> timebase_out p' = link_time_base ex_link
          \<and> par_in p' = link_sample_aspect_ratio ex_link"
    using d [THEN conjunct2, THEN conjunct2, THEN conjunct2, THEN conjunct1] ex_recreate_first ex_reconfig
    by (auto simp: ex_world_simps ex_lavfi_def)
  have 5: "\<exists>u ps. reconfig ex_lavfi (ex_world_of ex_priv) ex_params = Some (0, u, ex_params, ps)"
    using d [THEN conjunct2, THEN conjunct2, THEN conjunct2, THEN conjunct2] ex_recreate_first
    by (simp add: sink_hw_frames_ctx_def ex_lavfi_def ex_link_def)
  from 1 2 3 4 5 show ?thesis by (intro conjI)
qed

text \<open>
  C8, as amended. On a reconfiguration that returns 0, \<open>*out\<close> is the \<open>*out\<close> that the
  wrapper's callback left (\<open>out1\<close>), with only \<open>w\<close>, \<open>h\<close>, \<open>p_w\<close>, \<open>p_h\<close>, \<open>imgfmt\<close> and
  \<open>hw_subfmt\<close> possibly changed, and \<open>hw_subfmt\<close> is unchanged when the sink has no hardware
  frames context. When no callback is set, \<open>out1\<close> is \<open>*in\<close>, so that every other field of
  \<open>*out\<close> equals the corresponding field of \<open>*in\<close>.
\<close>

theorem reconfig_output_params:
  assumes "vf_priv s = Some (a, p)"
    and "lw_reconfig L s in_fmt = Some (r_cb, s1, in1, out1)"
    and "reconfig L s in_fmt = Some (0, s', in', out')"
  shows "out' = out1\<lparr>w := w out', h := h out', p_w := p_w out', p_h := p_h out',
                      imgfmt := imgfmt out', hw_subfmt := hw_subfmt out'\<rparr>
     \<and> rest out' = rest out1
     \<and> (lw_reconfig_cb p = None \<longrightarrow> out1 = in_fmt \<and> rest out' = rest in_fmt)
     \<and> (\<exists>s2 p2 out l_out ls.
           recreate_graph L s1 in1 = Some (True, s2)
           \<and> priv_at s2 a = Some p2 \<and> out_ctx p2 = Some out
           \<and> inputs (filter_ctx L (trace s2) out) = l_out # ls
           \<and> (sink_hw_frames_ctx L (lib_call L (Av_buffer_unref (out_hwframes_ref (inst s2))) s2)
                 out l_out = None \<longrightarrow> hw_subfmt out' = hw_subfmt out1))"
proof -
  from reconfig_zero [OF assms(2,3)] obtain s2 where
    cb: "0 \<le> r_cb" and rg: "recreate_graph L s1 in1 = Some (True, s2)" by blast
  have a: "priv (inst s) = Some a" using assms(1) by (simp add: vf_priv_Some)
  from reconfig_success [OF assms(2) cb rg assms(3)] a obtain p2 out i l_out ls l_in ls' where
    k: "priv_at s2 a = Some p2" "out_ctx p2 = Some out"
       "inputs (filter_ctx L (trace s2) out) = l_out # ls"
    and c: "(case sink_hw_frames_ctx L (lib_call L (Av_buffer_unref (out_hwframes_ref (inst s2))) s2)
                 out l_out of
            None \<Rightarrow>
              out' = out1\<lparr>w := link_w l_out, h := link_h l_out,
                           p_w := num (link_sample_aspect_ratio l_out),
                           p_h := den (link_sample_aspect_ratio l_out),
                           imgfmt := pixfmt2imgfmt L (link_format l_out)\<rparr>
              \<and> out_hwframes_ref (inst s') = None
              \<and> trace s' = trace s2 @ [Av_buffer_unref (out_hwframes_ref (inst s2))]
          | Some hw \<Rightarrow>
              (\<exists>fctx. hw_effect L (Av_buffer_unref (out_hwframes_ref (inst s2))) (hw_mem s2) (data hw)
                        = Some fctx
                 \<and> out' = out1\<lparr>w := link_w l_out, h := link_h l_out,
                           p_w := num (link_sample_aspect_ratio l_out),
                           p_h := den (link_sample_aspect_ratio l_out),
                           imgfmt := pixfmt2imgfmt L (link_format l_out),
                           hw_subfmt := pixfmt2imgfmt L (sw_format fctx)\<rparr>)
              \<and> out_hwframes_ref (inst s') =
                    av_buffer_ref L (trace s2 @ [Av_buffer_unref (out_hwframes_ref (inst s2))]) hw
              \<and> trace s' = trace s2 @ [Av_buffer_unref (out_hwframes_ref (inst s2)), Av_buffer_ref hw])"
    by auto
  from c have A: "out' = out1\<lparr>w := w out', h := h out', p_w := p_w out', p_h := p_h out',
                      imgfmt := imgfmt out', hw_subfmt := hw_subfmt out'\<rparr>"
    by (auto split: option.splits)
  from c have B: "rest out' = rest out1"
    by (auto split: option.splits)
  have C: "lw_reconfig_cb p = None \<Longrightarrow> out1 = in_fmt \<and> rest out' = rest in_fmt"
    using lw_reconfig_no_cb [OF assms(1), of L in_fmt] assms(2) B by simp
  from c have D: "sink_hw_frames_ctx L (lib_call L (Av_buffer_unref (out_hwframes_ref (inst s2))) s2)
                 out l_out = None \<Longrightarrow> hw_subfmt out' = hw_subfmt out1"
    by simp
  have C': "lw_reconfig_cb p = None \<longrightarrow> out1 = in_fmt \<and> rest out' = rest in_fmt"
    using C by blast
  have E: "\<exists>s2 p2 out l_out ls.
           recreate_graph L s1 in1 = Some (True, s2)
           \<and> priv_at s2 a = Some p2 \<and> out_ctx p2 = Some out
           \<and> inputs (filter_ctx L (trace s2) out) = l_out # ls
           \<and> (sink_hw_frames_ctx L (lib_call L (Av_buffer_unref (out_hwframes_ref (inst s2))) s2)
                 out l_out = None \<longrightarrow> hw_subfmt out' = hw_subfmt out1)"
    using rg k D
    by (intro exI [of _ s2] exI [of _ p2] exI [of _ out] exI [of _ l_out] exI [of _ ls]) simp
  from A B C' E show ?thesis by (intro conjI)
qed

theorem reconfig_output_params_witness:
  "rest \<lparr>imgfmt = 1, hw_subfmt = 0, w = 640, h = 480, p_w = 4, p_h = 3, rest = 7::nat\<rparr> = rest ex_params
   \<and> \<lparr>imgfmt = 1, hw_subfmt = 0, w = 640, h = 480, p_w = 4, p_h = 3, rest = 0::nat\<rparr> =
       (ex_params\<lparr>rest := 0\<rparr>)\<lparr>w := 640, h := 480, p_w := 4, p_h := 3, imgfmt := 1, hw_subfmt := 0\<rparr>"
proof -
  note a = reconfig_output_params [OF ex_vf_priv ex_lw_reconfig(1) ex_reconfig]
  note b = reconfig_output_params [OF ex_vf_priv ex_lw_reconfig(5) ex_reconfig_cb]
  have 1: "rest \<lparr>imgfmt = 1, hw_subfmt = 0, w = 640, h = 480, p_w = 4, p_h = 3, rest = 7::nat\<rparr> = rest ex_params"
    using a [THEN conjunct2, THEN conjunct1] .
  have 2: "\<lparr>imgfmt = 1, hw_subfmt = 0, w = 640, h = 480, p_w = 4, p_h = 3, rest = 0::nat\<rparr> =
       (ex_params\<lparr>rest := 0\<rparr>)\<lparr>w := 640, h := 480, p_w := 4, p_h := 3, imgfmt := 1, hw_subfmt := 0\<rparr>"
    using b [THEN conjunct1] by simp
  from 1 2 show ?thesis by (intro conjI)
qed

text \<open>
  C8 as the spec states it fails when a callback is set that changes \<open>*out\<close>: here it
  clears \<open>rest\<close>, which is 7 in \<open>*in\<close>, and \<open>reconfig\<close> returns 0 with \<open>rest\<close> 0 in \<open>*out\<close>.
\<close>

theorem reconfig_output_params_counterexample:
  "reconfig ex_lavfi_cb (ex_world_of (ex_priv\<lparr>lw_reconfig_cb := Some 8\<rparr>)) ex_params =
     Some (0,
           ex_world_of (ex_priv_graph\<lparr>lw_reconfig_cb := Some 8,
                                      timebase_in := \<lparr>num = 1, den = 25\<rparr>,
                                      timebase_out := \<lparr>num = 1, den = 25\<rparr>,
                                      par_in := \<lparr>num = 4, den = 3\<rparr>\<rparr>)
             \<lparr>trace := ex_calls None @ [Av_buffer_unref None]\<rparr>,
           ex_params,
           \<lparr>imgfmt = 1, hw_subfmt = 0, w = 640, h = 480, p_w = 4, p_h = 3, rest = 0\<rparr>)
   \<and> rest ex_params = 7"
  by (simp add: ex_eval)

subsection \<open>Hardware frames contexts\<close>

text \<open>
  C3. (1) \<open>recreate_graph\<close> leaves \<open>vf->in_hwframes_ref\<close> as it is, every
  \<open>av_buffersrc_parameters_set\<close> call it makes carries that reference as \<open>hw_frames_ctx\<close>,
  and a successful run makes such a call. (2) A reconfiguration whose graph was created
  asks the sink for its hardware frames context after releasing \<open>vf->out_hwframes_ref\<close>:
  if there is none, \<open>vf->out_hwframes_ref\<close> is \<open>NULL\<close> and \<open>hw_subfmt\<close> is untouched; if there
  is one, \<open>vf->out_hwframes_ref\<close> is what \<open>av_buffer_ref\<close> returns for it, that call being
  the last one made, and \<open>hw_subfmt\<close> is \<open>pixfmt2imgfmt\<close> of the context's \<open>sw_format\<close>.
  (3) No operation of the adapter writes to the memory of the hardware frames contexts:
  after each of them that memory is the one before it with the engine's effects of the
  calls that the operation made, in their order, and nothing else. For \<open>reconfig\<close> the
  memory before is the one that the wrapper's callback left, the callback being code of
  the wrapped filter; without a callback that is the memory \<open>reconfig\<close> started with.
\<close>

theorem hw_frames_ctx_passed_through:
  "(recreate_graph L s fmt = Some (ok, s1) \<longrightarrow>
      in_hwframes_ref (inst s1) = in_hwframes_ref (inst s)
      \<and> (\<exists>cs. trace s1 = trace s @ cs
            \<and> (\<forall>c \<in> set cs. is_params_set c \<longrightarrow>
                  (\<exists>i par. c = Av_buffersrc_parameters_set i par
                     \<and> hw_frames_ctx par = in_hwframes_ref (inst s)))
            \<and> (ok \<longrightarrow> (\<exists>c \<in> set cs. is_params_set c))))
   \<and> (lw_reconfig L s fmt = Some (r_cb, t1, in1, out1) \<and> 0 \<le> r_cb
        \<and> recreate_graph L t1 in1 = Some (True, t2)
        \<and> reconfig L s fmt = Some (r, s', in', out') \<longrightarrow>
      (\<exists>a p2 out l_out ls.
          priv (inst s) = Some a \<and> priv_at t2 a = Some p2 \<and> out_ctx p2 = Some out
          \<and> inputs (filter_ctx L (trace t2) out) = l_out # ls
          \<and> in_hwframes_ref (inst s') = in_hwframes_ref (inst t1)
          \<and> (case sink_hw_frames_ctx L (lib_call L (Av_buffer_unref (out_hwframes_ref (inst t2))) t2)
                     out l_out of
                None \<Rightarrow> out_hwframes_ref (inst s') = None \<and> hw_subfmt out' = hw_subfmt out1
              | Some hw \<Rightarrow>
                  out_hwframes_ref (inst s') =
                    av_buffer_ref L (trace t2 @ [Av_buffer_unref (out_hwframes_ref (inst t2))]) hw
                  \<and> last (trace s') = Av_buffer_ref hw
                  \<and> (\<exists>fctx. hw_effect L (Av_buffer_unref (out_hwframes_ref (inst t2))) (hw_mem t2)
                               (data hw) = Some fctx
                        \<and> hw_subfmt out' = pixfmt2imgfmt L (sw_format fctx)))))
   \<and> ((\<forall>u. destroy_graph L s = Some u \<longrightarrow> hw_only_by_calls L s u)
        \<and> (\<forall>b u. recreate_graph L s fmt = Some (b, u) \<longrightarrow> hw_only_by_calls L s u)
        \<and> (\<forall>u. reset L s = Some u \<longrightarrow> hw_only_by_calls L s u)
        \<and> (\<forall>v u i2 o2. lw_reconfig L s fmt = Some (r_cb, t1, in1, out1)
              \<and> reconfig L s fmt = Some (v, u, i2, o2) \<longrightarrow> hw_only_by_calls L t1 u)
        \<and> (\<forall>b q. vf_priv s = Some (b, q) \<and> lw_reconfig_cb q = None \<longrightarrow>
              lw_reconfig L s fmt = Some (0, s, fmt, fmt))
        \<and> (\<forall>v u. filter_ext L s mpi = Some (v, u) \<longrightarrow> hw_only_by_calls L s u)
        \<and> (\<forall>v u. filter_out L s = Some (v, u) \<longrightarrow> hw_only_by_calls L s u)
        \<and> (\<forall>v u tags. control L s request args = Some (v, u, tags) \<longrightarrow> hw_only_by_calls L s u)
        \<and> (\<forall>u. uninit L s = Some u \<longrightarrow> hw_only_by_calls L s u)
        \<and> (\<forall>v u. vf_lw_set_graph L s lavfi_opts filter_name str = Some (v, u) \<longrightarrow>
              hw_only_by_calls L s u)
        \<and> (\<forall>u. vf_lw_update_graph s filter_name str = Some u \<longrightarrow> hw_only_by_calls L s u)
        \<and> (\<forall>u. vf_lw_set_reconfig_cb s reconfig_cb = Some u \<longrightarrow> hw_only_by_calls L s u))"
proof -
  have A: "in_hwframes_ref (inst s1) = in_hwframes_ref (inst s)
      \<and> (\<exists>cs. trace s1 = trace s @ cs
            \<and> (\<forall>c \<in> set cs. is_params_set c \<longrightarrow>
                  (\<exists>i par. c = Av_buffersrc_parameters_set i par
                     \<and> hw_frames_ctx par = in_hwframes_ref (inst s)))
            \<and> (ok \<longrightarrow> (\<exists>c \<in> set cs. is_params_set c)))"
    if h: "recreate_graph L s fmt = Some (ok, s1)"
  proof -
    from recreate_graph_trace [OF h] obtain cs where
      cs: "trace s1 = trace s @ cs"
        "\<forall>c \<in> set cs. is_params_set c \<longrightarrow>
           (\<exists>i. c = Av_buffersrc_parameters_set i
              \<lparr>format = imgfmt2pixfmt L (imgfmt fmt), time_base = AV_TIME_BASE_Q,
               width = w fmt, height = h fmt,
               sample_aspect_ratio = \<lparr>num = p_w fmt, den = p_h fmt\<rparr>,
               hw_frames_ctx = in_hwframes_ref (inst s)\<rparr>)"
        "ok \<longrightarrow> (\<exists>c \<in> set cs. is_params_set c)"
      by blast
    from cs(2) have "\<forall>c \<in> set cs. is_params_set c \<longrightarrow>
                  (\<exists>i par. c = Av_buffersrc_parameters_set i par
                     \<and> hw_frames_ctx par = in_hwframes_ref (inst s))"
      by fastforce
    with cs(1,3) recreate_graph_inst [OF h] show ?thesis by auto
  qed
  have B: "\<exists>a p2 out l_out ls.
          priv (inst s) = Some a \<and> priv_at t2 a = Some p2 \<and> out_ctx p2 = Some out
          \<and> inputs (filter_ctx L (trace t2) out) = l_out # ls
          \<and> in_hwframes_ref (inst s') = in_hwframes_ref (inst t1)
          \<and> (case sink_hw_frames_ctx L (lib_call L (Av_buffer_unref (out_hwframes_ref (inst t2))) t2)
                     out l_out of
                None \<Rightarrow> out_hwframes_ref (inst s') = None \<and> hw_subfmt out' = hw_subfmt out1
              | Some hw \<Rightarrow>
                  out_hwframes_ref (inst s') =
                    av_buffer_ref L (trace t2 @ [Av_buffer_unref (out_hwframes_ref (inst t2))]) hw
                  \<and> last (trace s') = Av_buffer_ref hw
                  \<and> (\<exists>fctx. hw_effect L (Av_buffer_unref (out_hwframes_ref (inst t2))) (hw_mem t2)
                               (data hw) = Some fctx
                        \<and> hw_subfmt out' = pixfmt2imgfmt L (sw_format fctx)))"
    if h: "lw_reconfig L s fmt = Some (r_cb, t1, in1, out1) \<and> 0 \<le> r_cb
        \<and> recreate_graph L t1 in1 = Some (True, t2)
        \<and> reconfig L s fmt = Some (r, s', in', out')"
  proof -
    from h have lw: "lw_reconfig L s fmt = Some (r_cb, t1, in1, out1)" and cb: "0 \<le> r_cb"
      and rg: "recreate_graph L t1 in1 = Some (True, t2)"
      and res: "reconfig L s fmt = Some (r, s', in', out')" by simp_all
    from reconfig_success [OF lw cb rg res] obtain a p2 out i l_out ls l_in ls' where
      k: "priv (inst s) = Some a" "priv_at t2 a = Some p2" "out_ctx p2 = Some out"
         "inputs (filter_ctx L (trace t2) out) = l_out # ls"
         "in_hwframes_ref (inst s') = in_hwframes_ref (inst t2)"
      and c: "(case sink_hw_frames_ctx L (lib_call L (Av_buffer_unref (out_hwframes_ref (inst t2))) t2)
                 out l_out of
            None \<Rightarrow>
              out' = out1\<lparr>w := link_w l_out, h := link_h l_out,
                           p_w := num (link_sample_aspect_ratio l_out),
                           p_h := den (link_sample_aspect_ratio l_out),
                           imgfmt := pixfmt2imgfmt L (link_format l_out)\<rparr>
              \<and> out_hwframes_ref (inst s') = None
              \<and> trace s' = trace t2 @ [Av_buffer_unref (out_hwframes_ref (inst t2))]
          | Some hw \<Rightarrow>
              (\<exists>fctx. hw_effect L (Av_buffer_unref (out_hwframes_ref (inst t2))) (hw_mem t2) (data hw)
                        = Some fctx
                 \<and> out' = out1\<lparr>w := link_w l_out, h := link_h l_out,
                           p_w := num (link_sample_aspect_ratio l_out),
                           p_h := den (link_sample_aspect_ratio l_out),
                           imgfmt := pixfmt2imgfmt L (link_format l_out),
                           hw_subfmt := pixfmt2imgfmt L (sw_format fctx)\<rparr>)
              \<and> out_hwframes_ref (inst s') =
                    av_buffer_ref L (trace t2 @ [Av_buffer_unref (out_hwframes_ref (inst t2))]) hw
              \<and> trace s' = trace t2 @ [Av_buffer_unref (out_hwframes_ref (inst t2)), Av_buffer_ref hw])"
      by blast
    from c have c': "(case sink_hw_frames_ctx L (lib_call L (Av_buffer_unref (out_hwframes_ref (inst t2))) t2)
                     out l_out of
                None \<Rightarrow> out_hwframes_ref (inst s') = None \<and> hw_subfmt out' = hw_subfmt out1
              | Some hw \<Rightarrow>
                  out_hwframes_ref (inst s') =
                    av_buffer_ref L (trace t2 @ [Av_buffer_unref (out_hwframes_ref (inst t2))]) hw
                  \<and> last (trace s') = Av_buffer_ref hw
                  \<and> (\<exists>fctx. hw_effect L (Av_buffer_unref (out_hwframes_ref (inst t2))) (hw_mem t2)
                               (data hw) = Some fctx
                        \<and> hw_subfmt out' = pixfmt2imgfmt L (sw_format fctx)))"
      by (auto split: option.splits)
    from k recreate_graph_inst [OF rg] c' show ?thesis by auto
  qed
  have C1: "\<forall>u. destroy_graph L s = Some u \<longrightarrow> hw_only_by_calls L s u"
    by (simp add: destroy_graph_hw_only_by_calls)
  have C2: "\<forall>b u. recreate_graph L s fmt = Some (b, u) \<longrightarrow> hw_only_by_calls L s u"
    by (simp add: recreate_graph_hw_only_by_calls)
  have C3: "\<forall>u. reset L s = Some u \<longrightarrow> hw_only_by_calls L s u"
    by (simp add: reset_hw_only_by_calls)
  have C4: "\<forall>v u i2 o2. lw_reconfig L s fmt = Some (r_cb, t1, in1, out1)
              \<and> reconfig L s fmt = Some (v, u, i2, o2) \<longrightarrow> hw_only_by_calls L t1 u"
    using reconfig_hw_only_by_calls by blast
  have C5: "\<forall>b q. vf_priv s = Some (b, q) \<and> lw_reconfig_cb q = None \<longrightarrow>
              lw_reconfig L s fmt = Some (0, s, fmt, fmt)"
    by (simp add: lw_reconfig_def)
  have C6: "\<forall>v u. filter_ext L s mpi = Some (v, u) \<longrightarrow> hw_only_by_calls L s u"
    by (simp add: filter_ext_hw_only_by_calls)
  have C7: "\<forall>v u. filter_out L s = Some (v, u) \<longrightarrow> hw_only_by_calls L s u"
    by (simp add: filter_out_hw_only_by_calls)
  have C8: "\<forall>v u tags. control L s request args = Some (v, u, tags) \<longrightarrow> hw_only_by_calls L s u"
    by (simp add: control_hw_only_by_calls)
  have C9: "\<forall>u. uninit L s = Some u \<longrightarrow> hw_only_by_calls L s u"
    by (simp add: uninit_hw_only_by_calls)
  have C10: "\<forall>v u. vf_lw_set_graph L s lavfi_opts filter_name str = Some (v, u) \<longrightarrow>
              hw_only_by_calls L s u"
    by (simp add: vf_lw_set_graph_hw_only_by_calls)
  have C11: "\<forall>u. vf_lw_update_graph s filter_name str = Some u \<longrightarrow> hw_only_by_calls L s u"
    by (simp add: vf_lw_update_graph_hw_only_by_calls)
  have C12: "\<forall>u. vf_lw_set_reconfig_cb s reconfig_cb = Some u \<longrightarrow> hw_only_by_calls L s u"
    by (simp add: vf_lw_set_reconfig_cb_hw_only_by_calls)
  from C1 C2 C3 C4 C5 C6 C7 C8 C9 C10 C11 C12
  have C: "(\<forall>u. destroy_graph L s = Some u \<longrightarrow> hw_only_by_calls L s u)
        \<and> (\<forall>b u. recreate_graph L s fmt = Some (b, u) \<longrightarrow> hw_only_by_calls L s u)
        \<and> (\<forall>u. reset L s = Some u \<longrightarrow> hw_only_by_calls L s u)
        \<and> (\<forall>v u i2 o2. lw_reconfig L s fmt = Some (r_cb, t1, in1, out1)
              \<and> reconfig L s fmt = Some (v, u, i2, o2) \<longrightarrow> hw_only_by_calls L t1 u)
        \<and> (\<forall>b q. vf_priv s = Some (b, q) \<and> lw_reconfig_cb q = None \<longrightarrow>
              lw_reconfig L s fmt = Some (0, s, fmt, fmt))
        \<and> (\<forall>v u. filter_ext L s mpi = Some (v, u) \<longrightarrow> hw_only_by_calls L s u)
        \<and> (\<forall>v u. filter_out L s = Some (v, u) \<longrightarrow> hw_only_by_calls L s u)
        \<and> (\<forall>v u tags. control L s request args = Some (v, u, tags) \<longrightarrow> hw_only_by_calls L s u)
        \<and> (\<forall>u. uninit L s = Some u \<longrightarrow> hw_only_by_calls L s u)
        \<and> (\<forall>v u. vf_lw_set_graph L s lavfi_opts filter_name str = Some (v, u) \<longrightarrow>
              hw_only_by_calls L s u)
        \<and> (\<forall>u. vf_lw_update_graph s filter_name str = Some u \<longrightarrow> hw_only_by_calls L s u)
        \<and> (\<forall>u. vf_lw_set_reconfig_cb s reconfig_cb = Some u \<longrightarrow> hw_only_by_calls L s u)"
    by (intro conjI)
  show ?thesis
    by (rule conjI [OF impI [OF A] conjI [OF impI [OF B] C]])
qed

theorem hw_frames_ctx_passed_through_witness:
  "map_option (\<lambda>r. in_hwframes_ref (inst (snd r)))
      (recreate_graph ex_lavfi (ex_world_of ex_priv) ex_params) = Some (Some \<lparr>buffer = 5, data = 6\<rparr>)
   \<and> (\<exists>i par. Av_buffersrc_parameters_set i par \<in> set (ex_calls None)
         \<and> hw_frames_ctx par = Some \<lparr>buffer = 5, data = 6\<rparr>)
   \<and> map_option (\<lambda>(r, u, i, ps). (out_hwframes_ref (inst u), hw_subfmt ps, hw_mem u 12))
        (reconfig ex_lavfi_hw (ex_world_of ex_priv\<lparr>hw_mem := ex_hw_mem\<rparr>) ex_params) =
       Some (Some \<lparr>buffer = 11, data = 12\<rparr>, 2, Some \<lparr>sw_format = 3, hw_other = 0\<rparr>)
   \<and> map_option (\<lambda>u. (hw_mem u 12, hw_mem u 13))
        (uninit ex_lavfi_frees (ex_world_of ex_priv_graph\<lparr>hw_mem := ex_hw_mem(13 := ex_hw_mem 12)\<rparr>)) =
       Some (None, Some \<lparr>sw_format = 3, hw_other = 0\<rparr>)"
proof -
  note a = hw_frames_ctx_passed_through [where L = ex_lavfi and s = "ex_world_of ex_priv"
      and fmt = ex_params and ok = True
      and ?s1.0 = "ex_world_of ex_priv_graph\<lparr>trace := ex_calls None\<rparr>", THEN conjunct1]
  note b = hw_frames_ctx_passed_through [where L = ex_lavfi_hw
      and s = "ex_world_of ex_priv\<lparr>hw_mem := ex_hw_mem\<rparr>" and fmt = ex_params
      and r_cb = 0 and ?t1.0 = "ex_world_of ex_priv\<lparr>hw_mem := ex_hw_mem\<rparr>"
      and ?in1.0 = ex_params and ?out1.0 = ex_params
      and ?t2.0 = "ex_world_of ex_priv_graph\<lparr>hw_mem := ex_hw_mem, trace := ex_calls None\<rparr>"
      and r = 0
      and s' = "ex_world_of (ex_priv_graph\<lparr>timebase_in := \<lparr>num = 1, den = 25\<rparr>,
                                      timebase_out := \<lparr>num = 1, den = 25\<rparr>,
                                      par_in := \<lparr>num = 4, den = 3\<rparr>\<rparr>)
             \<lparr>inst := ex_inst\<lparr>out_hwframes_ref := Some \<lparr>buffer = 11, data = 12\<rparr>\<rparr>,
              hw_mem := ex_hw_mem,
              trace := ex_calls None @ [Av_buffer_unref None, Av_buffer_ref \<lparr>buffer = 11, data = 12\<rparr>]\<rparr>"
      and in' = ex_params
      and out' = "\<lparr>imgfmt = 1, hw_subfmt = 2, w = 640, h = 480, p_w = 4, p_h = 3, rest = 7\<rparr>"]
  from a ex_recreate_first have a':
    "in_hwframes_ref (inst (ex_world_of ex_priv_graph\<lparr>trace := ex_calls None\<rparr>))
       = in_hwframes_ref (inst (ex_world_of ex_priv))
     \<and> (\<exists>cs. trace (ex_world_of ex_priv_graph\<lparr>trace := ex_calls None\<rparr>) = trace (ex_world_of ex_priv) @ cs
            \<and> (\<forall>c \<in> set cs. is_params_set c \<longrightarrow>
                  (\<exists>i par. c = Av_buffersrc_parameters_set i par
                     \<and> hw_frames_ctx par = in_hwframes_ref (inst (ex_world_of ex_priv))))
            \<and> (\<exists>c \<in> set cs. is_params_set c))"
    by simp
  have 1: "map_option (\<lambda>r. in_hwframes_ref (inst (snd r)))
      (recreate_graph ex_lavfi (ex_world_of ex_priv) ex_params) = Some (Some \<lparr>buffer = 5, data = 6\<rparr>)"
    using a' ex_recreate_first by (simp add: ex_world_of_def ex_inst_def)
  from a' have "\<exists>c \<in> set (ex_calls None). is_params_set c
      \<and> (\<exists>i par. c = Av_buffersrc_parameters_set i par
             \<and> hw_frames_ctx par = in_hwframes_ref (inst (ex_world_of ex_priv)))"
    by (auto simp: ex_world_of_def)
  then have 2: "\<exists>i par. Av_buffersrc_parameters_set i par \<in> set (ex_calls None)
         \<and> hw_frames_ctx par = Some \<lparr>buffer = 5, data = 6\<rparr>"
    by (auto simp: ex_world_of_def ex_inst_def)
  from b [THEN conjunct2, THEN conjunct1] ex_lw_reconfig(6) ex_recreate_hw ex_reconfig_hw
  have b': "out_hwframes_ref (inst (ex_world_of (ex_priv_graph\<lparr>timebase_in := \<lparr>num = 1, den = 25\<rparr>,
                                      timebase_out := \<lparr>num = 1, den = 25\<rparr>,
                                      par_in := \<lparr>num = 4, den = 3\<rparr>\<rparr>)
             \<lparr>inst := ex_inst\<lparr>out_hwframes_ref := Some \<lparr>buffer = 11, data = 12\<rparr>\<rparr>,
              hw_mem := ex_hw_mem,
              trace := ex_calls None @ [Av_buffer_unref None, Av_buffer_ref \<lparr>buffer = 11, data = 12\<rparr>]\<rparr>))
           = Some \<lparr>buffer = 11, data = 12\<rparr>"
    by simp
  note d = hw_frames_ctx_passed_through [where L = ex_lavfi_frees
      and s = "ex_world_of ex_priv_graph\<lparr>hw_mem := ex_hw_mem(13 := ex_hw_mem 12)\<rparr>",
      THEN conjunct2, THEN conjunct2]
  from b [THEN conjunct2, THEN conjunct2, THEN conjunct2, THEN conjunct2, THEN conjunct2,
          THEN conjunct1] ex_lw_reconfig(6) ex_reconfig_hw
  have c': "hw_mem (ex_world_of (ex_priv_graph\<lparr>timebase_in := \<lparr>num = 1, den = 25\<rparr>,
                                      timebase_out := \<lparr>num = 1, den = 25\<rparr>,
                                      par_in := \<lparr>num = 4, den = 3\<rparr>\<rparr>)
             \<lparr>inst := ex_inst\<lparr>out_hwframes_ref := Some \<lparr>buffer = 11, data = 12\<rparr>\<rparr>,
              hw_mem := ex_hw_mem,
              trace := ex_calls None @ [Av_buffer_unref None, Av_buffer_ref \<lparr>buffer = 11, data = 12\<rparr>]\<rparr>)
           = hw_mem (ex_world_of ex_priv\<lparr>hw_mem := ex_hw_mem\<rparr>)"
    by (simp add: hw_only_by_calls_def ex_world_of_def ex_lavfi_hw_def ex_lavfi_def ex_calls_def)
  have 3: "map_option (\<lambda>(r, u, i, ps). (out_hwframes_ref (inst u), hw_subfmt ps, hw_mem u 12))
        (reconfig ex_lavfi_hw (ex_world_of ex_priv\<lparr>hw_mem := ex_hw_mem\<rparr>) ex_params) =
       Some (Some \<lparr>buffer = 11, data = 12\<rparr>, 2, Some \<lparr>sw_format = 3, hw_other = 0\<rparr>)"
    unfolding ex_reconfig_hw using b' c' by (simp add: ex_hw_mem_def)
  from d [THEN conjunct2, THEN conjunct2, THEN conjunct2, THEN conjunct2, THEN conjunct2,
          THEN conjunct2, THEN conjunct2, THEN conjunct2, THEN conjunct1] ex_uninit_frees
  have d': "hw_only_by_calls ex_lavfi_frees
      (ex_world_of ex_priv_graph\<lparr>hw_mem := ex_hw_mem(13 := ex_hw_mem 12)\<rparr>)
      (ex_world_of ex_priv\<lparr>hw_mem := (ex_hw_mem(13 := ex_hw_mem 12))(12 := None),
                            trace := [Avfilter_graph_free (Some 1)]\<rparr>)"
    by simp
  have 4: "map_option (\<lambda>u. (hw_mem u 12, hw_mem u 13))
        (uninit ex_lavfi_frees (ex_world_of ex_priv_graph\<lparr>hw_mem := ex_hw_mem(13 := ex_hw_mem 12)\<rparr>)) =
       Some (None, Some \<lparr>sw_format = 3, hw_other = 0\<rparr>)"
    unfolding ex_uninit_frees using d' by (simp add: ex_hw_mem_def)
  from 1 2 3 4 show ?thesis by (intro conjI)
qed

subsection \<open>control\<close>

text \<open>
  C4, as amended. \<open>VFCTRL_SEEK_RESET\<close> returns \<open>CONTROL_OK\<close>; it runs \<open>recreate_graph\<close> on
  \<open>vf->fmt_in\<close> when a graph exists and the input image format is set, and does nothing
  otherwise. \<open>VFCTRL_COMMAND\<close> with an existing graph passes its two strings to
  \<open>avfilter_graph_send_command\<close> with the target \<open>"all"\<close> and returns \<open>CONTROL_OK\<close> when the
  answer is at least 0 and \<open>CONTROL_ERROR\<close> otherwise (behind Libav's headers the call is the
  constant -1, so the result is \<open>CONTROL_ERROR\<close> and the engine is not called);
  \<open>VFCTRL_COMMAND\<close> without a graph returns \<open>CONTROL_UNKNOWN\<close>. Every request other than
  these two and \<open>VFCTRL_GET_METADATA\<close> returns \<open>CONTROL_UNKNOWN\<close> and changes nothing.
\<close>

theorem control_requests:
  "(vf_priv s = Some (a, p) \<and> (graph p = None \<or> imgfmt (fmt_in (inst s)) = 0) \<longrightarrow>
      control L s VFCTRL_SEEK_RESET args = Some (CONTROL_OK, s, None))
   \<and> (vf_priv s = Some (a, p) \<and> graph p \<noteq> None \<and> imgfmt (fmt_in (inst s)) \<noteq> 0 \<longrightarrow>
      control L s VFCTRL_SEEK_RESET args =
        map_option (\<lambda>r. (CONTROL_OK, snd r, None)) (recreate_graph L s (fmt_in (inst s))))
   \<and> (vf_priv s = Some (a, p) \<and> graph p = Some g \<and> 100 \<le> LIBAVFILTER_VERSION_MICRO L \<longrightarrow>
      control L s VFCTRL_COMMAND args =
        Some (if 0 \<le> avfilter_graph_send_command L (trace s) then CONTROL_OK else CONTROL_ERROR,
              lib_call L (Avfilter_graph_send_command g ''all'' (fst args) (snd args)) s,
              None))
   \<and> (vf_priv s = Some (a, p) \<and> graph p = Some g \<and> LIBAVFILTER_VERSION_MICRO L < 100 \<longrightarrow>
      control L s VFCTRL_COMMAND args = Some (CONTROL_ERROR, s, None))
   \<and> (vf_priv s = Some (a, p) \<and> graph p = None \<longrightarrow>
      control L s VFCTRL_COMMAND args = Some (CONTROL_UNKNOWN, s, None))
   \<and> control L s (VFCTRL_other n) args = Some (CONTROL_UNKNOWN, s, None)"
  by (auto simp: control_def reset_eq option.map_comp comp_def split: option.splits)

theorem control_requests_witness:
  "control ex_lavfi (ex_world_of ex_priv) VFCTRL_SEEK_RESET ([], []) =
     Some (CONTROL_OK, ex_world_of ex_priv, None)
   \<and> map_option fst (control ex_lavfi (ex_world_of ex_priv_graph) VFCTRL_SEEK_RESET ([], [])) =
       Some CONTROL_OK
   \<and> control ex_lavfi (ex_world_of ex_priv_graph) VFCTRL_COMMAND (''hue'', ''h=90'') =
       Some (CONTROL_OK,
             ex_world_of ex_priv_graph\<lparr>trace := [Avfilter_graph_send_command 1 ''all'' ''hue'' ''h=90'']\<rparr>,
             None)
   \<and> control ex_libav (ex_world_of ex_priv_graph) VFCTRL_COMMAND (''hue'', ''h=90'') =
       Some (CONTROL_ERROR, ex_world_of ex_priv_graph, None)
   \<and> control ex_lavfi (ex_world_of ex_priv) VFCTRL_COMMAND (''hue'', ''h=90'') =
       Some (CONTROL_UNKNOWN, ex_world_of ex_priv, None)
   \<and> control ex_lavfi (ex_world_of ex_priv) (VFCTRL_other 7) ([], []) =
       Some (CONTROL_UNKNOWN, ex_world_of ex_priv, None)"
proof -
  have 6: "control ex_lavfi (ex_world_of ex_priv) (VFCTRL_other 7) ([], []) =
       Some (CONTROL_UNKNOWN, ex_world_of ex_priv, None)"
    using control_requests [where L = ex_lavfi and s = "ex_world_of ex_priv" and n = 7
      and args = "([], [])", THEN conjunct2, THEN conjunct2, THEN conjunct2, THEN conjunct2,
      THEN conjunct2] .
  note a = control_requests [where L = ex_lavfi and s = "ex_world_of ex_priv" and a = 0
      and p = ex_priv and args = "([], [])"]
  note b = control_requests [where L = ex_lavfi and s = "ex_world_of ex_priv_graph" and a = 0
      and p = ex_priv_graph and args = "([], [])"]
  note c = control_requests [where L = ex_lavfi and s = "ex_world_of ex_priv_graph" and a = 0
      and p = ex_priv_graph and g = 1 and args = "(''hue'', ''h=90'')"]
  note d = control_requests [where L = ex_libav and s = "ex_world_of ex_priv_graph" and a = 0
      and p = ex_priv_graph and g = 1 and args = "(''hue'', ''h=90'')"]
  note e = control_requests [where L = ex_lavfi and s = "ex_world_of ex_priv" and a = 0
      and p = ex_priv and args = "(''hue'', ''h=90'')"]
  have 1: "control ex_lavfi (ex_world_of ex_priv) VFCTRL_SEEK_RESET ([], []) =
     Some (CONTROL_OK, ex_world_of ex_priv, None)"
    using a [THEN conjunct1] by (simp add: ex_defs vf_priv_def priv_at_def lib_call_def)
  have 2: "map_option fst (control ex_lavfi (ex_world_of ex_priv_graph) VFCTRL_SEEK_RESET ([], [])) =
       Some CONTROL_OK"
    using b [THEN conjunct2, THEN conjunct1] ex_recreate
    by (simp add: ex_defs vf_priv_def priv_at_def lib_call_def)
  have 3: "control ex_lavfi (ex_world_of ex_priv_graph) VFCTRL_COMMAND (''hue'', ''h=90'') =
       Some (CONTROL_OK,
             ex_world_of ex_priv_graph\<lparr>trace := [Avfilter_graph_send_command 1 ''all'' ''hue'' ''h=90'']\<rparr>,
             None)"
    using c [THEN conjunct2, THEN conjunct2, THEN conjunct1]
    by (simp add: ex_defs vf_priv_def priv_at_def lib_call_def)
  have 4: "control ex_libav (ex_world_of ex_priv_graph) VFCTRL_COMMAND (''hue'', ''h=90'') =
       Some (CONTROL_ERROR, ex_world_of ex_priv_graph, None)"
    using d [THEN conjunct2, THEN conjunct2, THEN conjunct2, THEN conjunct1]
    by (simp add: ex_defs vf_priv_def priv_at_def lib_call_def)
  have 5: "control ex_lavfi (ex_world_of ex_priv) VFCTRL_COMMAND (''hue'', ''h=90'') =
       Some (CONTROL_UNKNOWN, ex_world_of ex_priv, None)"
    using e [THEN conjunct2, THEN conjunct2, THEN conjunct2, THEN conjunct2, THEN conjunct1]
    by (simp add: ex_defs vf_priv_def priv_at_def lib_call_def)
  from 1 2 3 4 5 6 show ?thesis by (intro conjI)
qed

text \<open>
  C4 as the spec states it fails on \<open>VFCTRL_GET_METADATA\<close>, a request other than the two it
  names: with tags stored, the result is \<open>CONTROL_OK\<close> and the tags, not \<open>CONTROL_UNKNOWN\<close>.
\<close>

theorem control_requests_counterexample:
  "control ex_lavfi (ex_world_of (ex_priv_graph\<lparr>metadata := Some [(''lavfi.scene'', ''1'')]\<rparr>))
      VFCTRL_GET_METADATA ([], []) =
     Some (CONTROL_OK, ex_world_of (ex_priv_graph\<lparr>metadata := Some [(''lavfi.scene'', ''1'')]\<rparr>),
           Some [(''lavfi.scene'', ''1'')])
   \<and> CONTROL_OK \<noteq> CONTROL_UNKNOWN"
  by (simp add: control_def ex_world_of_def ex_inst_def priv_at_def)

subsection \<open>vf\_lw\_set\_graph\<close>

text \<open>
  C10. If a filter name is given and no filter of the engine has that name,
  \<open>vf_lw_set_graph\<close> returns -1 and the state is the one it was given. Otherwise it returns
  1; \<open>vf->priv\<close> is a new object of the store, which is \<open>vf_priv_dflt\<close> with the options,
  the graph string and, in \<open>old_priv\<close>, the former \<open>vf->priv\<close>; every older object of the
  store is as it was; the seven callbacks are those of vf\_lavfi (\<open>filter\<close> is \<open>NULL\<close>);
  nothing else of the instance changes and the engine is not called.
\<close>

theorem vf_lw_set_graph_atomic:
  "((\<exists>f. filter_name = Some f \<and> f \<notin> set (registered_filters L)) \<longrightarrow>
      vf_lw_set_graph L s lavfi_opts filter_name str = Some (- 1, s))
   \<and> (\<not> (\<exists>f. filter_name = Some f \<and> f \<notin> set (registered_filters L)) \<longrightarrow>
      (\<exists>s'. vf_lw_set_graph L s lavfi_opts filter_name str = Some (1, s')
         \<and> priv (inst s') = Some (length (privs s))
         \<and> privs s' = privs s @
              [Lavfi_priv (vf_priv_dflt
                 \<lparr>cfg_sws_flags := sws_flags (case lavfi_opts of None \<Rightarrow> vf_lw_conf_defaults | Some lo \<Rightarrow> lo),
                  cfg_avopts := avopts (case lavfi_opts of None \<Rightarrow> vf_lw_conf_defaults | Some lo \<Rightarrow> lo),
                  cfg_graph := Some (graph_string filter_name str),
                  old_priv := priv (inst s)\<rparr>)]
         \<and> vf_lw_old_priv s' = Some (priv (inst s))
         \<and> vf_reconfig (inst s') = Some Fn_reconfig
         \<and> vf_filter_ext (inst s') = Some Fn_filter_ext
         \<and> vf_filter_out (inst s') = Some Fn_filter_out
         \<and> vf_filter (inst s') = None
         \<and> vf_query_format (inst s') = Some Fn_query_format
         \<and> vf_control (inst s') = Some Fn_control
         \<and> vf_uninit (inst s') = Some Fn_uninit
         \<and> fmt_in (inst s') = fmt_in (inst s)
         \<and> in_hwframes_ref (inst s') = in_hwframes_ref (inst s)
         \<and> out_hwframes_ref (inst s') = out_hwframes_ref (inst s)
         \<and> hwdec_devs (inst s') = hwdec_devs (inst s)
         \<and> hw_mem s' = hw_mem s \<and> trace s' = trace s))"
  by (cases filter_name)
     (simp_all add: vf_lw_set_graph_def Let_def have_filter_def have_filter_in_set vf_open_def
        vf_lw_old_priv_def vf_priv_def priv_at_def)

theorem vf_lw_set_graph_atomic_witness:
  "vf_lw_set_graph ex_lavfi ex_foreign None (Some ''rotate'') ''1'' = Some (- 1, ex_foreign)
   \<and> map_option fst (vf_lw_set_graph ex_lavfi ex_foreign None (Some ''scale'') ''2:2'') = Some 1
   \<and> map_option (\<lambda>r. vf_lw_old_priv (snd r)) (vf_lw_set_graph ex_lavfi ex_foreign None (Some ''scale'') ''2:2'')
       = Some (Some (Some 0))
   \<and> map_option (\<lambda>r. vf_filter (inst (snd r))) (vf_lw_set_graph ex_lavfi ex_foreign None (Some ''scale'') ''2:2'')
       = Some None"
  using vf_lw_set_graph_atomic [where filter_name = "Some ''rotate''" and L = ex_lavfi
          and s = ex_foreign and lavfi_opts = None and str = "''1''"]
        vf_lw_set_graph_atomic [where filter_name = "Some ''scale''" and L = ex_lavfi
          and s = ex_foreign and lavfi_opts = None and str = "''2:2''"]
  by (auto simp: ex_lavfi_def ex_foreign_def ex_inst_def)

end
